theory Spec2Isabelle
  imports Main "HOL-Library.Stream"
begin

text \<open>
  The package kvhttp is a client of a transactional key-value store served
  over HTTP: a database handle, transactions and snapshots named by
  identifiers that the client generates, point operations that are one round
  trip each, and cursor sequences that open a cursor on the server and drain
  it with repeated \<^verbatim>\<open>/it/next\<close> round trips. The sources hold the client twice,
  one version after the other in one file; they are called the first and the
  second client here, and the definitions of the second client carry the
  suffix \<open>_v2\<close>. Everything outside the client (the HTTP transport, the server
  behind it, the generator of identifiers, the consumer of a sequence) is a
  world that the operations take and return.
\<close>

section \<open>Go values used by the client\<close>

text \<open>
  A Go \<^verbatim>\<open>error\<close> value that is not nil. \<^verbatim>\<open>os.ErrInvalid\<close> is the one sentinel the
  client names; every other error (from \<^verbatim>\<open>fmt.Errorf\<close>, the HTTP transport, the JSON
  decoder, a reader) is identified by its message. A Go variable of type
  \<^verbatim>\<open>error\<close> is an \<open>error option\<close>, \<open>None\<close> being nil.
\<close>

datatype error = ErrInvalid | errorString string

text \<open>
  A byte slice \<^verbatim>\<open>[]byte\<close>: \<open>None\<close> is the nil slice, \<open>Some s\<close> a slice holding the
  bytes \<open>s\<close> (a \<open>char\<close> is one byte). \<^verbatim>\<open>len\<close>, \<^verbatim>\<open>string(b)\<close> and \<^verbatim>\<open>[]byte(s)\<close>.
\<close>

type_synonym byteslice = "string option"

definition len :: "byteslice \<Rightarrow> nat" where
  "len b = (case b of None \<Rightarrow> 0 | Some s \<Rightarrow> length s)"

definition string_of_bytes :: "byteslice \<Rightarrow> string" where
  "string_of_bytes b = (case b of None \<Rightarrow> [] | Some s \<Rightarrow> s)"

definition bytes_of_string :: "string \<Rightarrow> byteslice" where
  "bytes_of_string s = Some s"

text \<open>
  An \<^verbatim>\<open>io.Reader\<close> is modelled by what reading it to the end gives: the bytes it
  hands out, and the error (other than EOF) that ends the reading, if any. A
  variable of interface type \<^verbatim>\<open>io.Reader\<close> is a \<open>reader option\<close>, \<open>None\<close> being nil.
  \<^verbatim>\<open>bytes.NewReader(b)\<close> reads the bytes of \<open>b\<close> and never fails; \<^verbatim>\<open>io.ReadAll(r)\<close>
  returns the bytes read and the error.
\<close>

datatype reader = Reader (content: string) (failure: "error option")

definition bytes_NewReader :: "byteslice \<Rightarrow> reader" where
  "bytes_NewReader b = Reader (string_of_bytes b) None"

definition io_ReadAll :: "reader \<Rightarrow> byteslice \<times> error option" where
  "io_ReadAll r = (Some (content r), failure r)"

text \<open>A call that may panic instead of returning.\<close>

datatype 'a outcome = Returns 'a | Panics

text \<open>
  \<^verbatim>\<open>io.ReadAll\<close> of a variable that may hold nil: it calls \<^verbatim>\<open>Read\<close> of its argument,
  which panics on the nil interface.
\<close>

definition io_ReadAll_nilable :: "reader option \<Rightarrow> (byteslice \<times> error option) outcome" where
  "io_ReadAll_nilable r = (case r of None \<Rightarrow> Panics | Some rd \<Rightarrow> Returns (io_ReadAll rd))"

text \<open>
  \<^verbatim>\<open>fmt.Errorf("received non-ok http status %d", code)\<close>: the verb \<^verbatim>\<open>%d\<close> writes the
  integer in decimal, with a minus sign when it is negative.
\<close>

definition digit_char :: "nat \<Rightarrow> char" where
  "digit_char n = ''0123456789'' ! n"

fun digits :: "nat \<Rightarrow> string" where
  "digits n = (if n < 10 then [digit_char n] else digits (n div 10) @ [digit_char (n mod 10)])"

declare digits.simps [simp del]

definition fmt_d :: "int \<Rightarrow> string" where
  "fmt_d i = (if i < 0 then CHR ''-'' # digits (nat (- i)) else digits (nat i))"

definition fmt_Errorf_status :: "int \<Rightarrow> error" where
  "fmt_Errorf_status code = errorString (''received non-ok http status '' @ fmt_d code)"

section \<open>URLs, HTTP requests and responses\<close>

text \<open>The fields of \<^verbatim>\<open>url.URL\<close>; \<open>User\<close> is a pointer to the credentials.\<close>

record userinfo =
  username :: string
  password :: string
  passwordSet :: bool

record url =
  Scheme :: string
  Opaque :: string
  User :: "userinfo option"
  Host :: string
  Path :: string
  RawPath :: string
  OmitHost :: bool
  ForceQuery :: bool
  RawQuery :: string
  Fragment :: string
  RawFragment :: string

record http_request =
  Method :: string
  URL :: url
  Header :: "(string \<times> string) list"
  Body :: byteslice

record http_response =
  StatusCode :: int
  ResponseBody :: reader

datatype http_client = http_DefaultClient | CustomClient nat

section \<open>The wire types of package api\<close>

text \<open>
  The request structs, one constructor each, fields in the order of their
  declaration. \<open>'k\<close> is the type of the key fields (\<open>Key\<close>, \<open>Begin\<close>, \<open>End\<close>):
  \<open>byteslice\<close> in the declarations of package api, \<open>string\<close> in the second client,
  which assigns Go strings to them.
\<close>

datatype 'k request =
    NewTransactionRequest string
  | NewSnapshotRequest string
  | GetRequest string string 'k
  | SetRequest string 'k byteslice
  | DeleteRequest string 'k
  | AscendRequest string string 'k 'k string
  | DescendRequest string string 'k 'k string
  | ScanRequest string string string
  | NextRequest string
  | CommitRequest string
  | RollbackRequest string
  | DiscardRequest string

text \<open>
  The response structs. Eleven of them hold the field \<open>Error\<close> only;
  \<^verbatim>\<open>GetResponse\<close> adds \<open>Value\<close> and \<^verbatim>\<open>NextResponse\<close> adds \<open>Key\<close> and \<open>Value\<close>, so the
  three shapes are one record and its extensions and \<open>Error\<close> reads all of them.
\<close>

record ErrResponse =
  Error :: string

record GetResponse = ErrResponse +
  Value :: byteslice

record 'k NextResponse = GetResponse +
  Key :: 'k

type_synonym NewTransactionResponse = ErrResponse
type_synonym NewSnapshotResponse = ErrResponse
type_synonym SetResponse = ErrResponse
type_synonym DeleteResponse = ErrResponse
type_synonym AscendResponse = ErrResponse
type_synonym DescendResponse = ErrResponse
type_synonym ScanResponse = ErrResponse
type_synonym CommitResponse = ErrResponse
type_synonym RollbackResponse = ErrResponse
type_synonym DiscardResponse = ErrResponse

section \<open>What the client calls and does not define\<close>

text \<open>
  The functions the client calls that are defined elsewhere are parameters:
  \<^verbatim>\<open>string2error\<close> (of this package, not among the sources), \<^verbatim>\<open>json.Marshal\<close> of a
  request, the JSON decoding of a body into each of the three response shapes
  (\<open>'b\<close> is what the decoder is given: the bytes read from the body in the first
  client, the body itself in the second), \<^verbatim>\<open>path.Join\<close>, \<^verbatim>\<open>URL.String\<close> and
  \<^verbatim>\<open>url.Parse\<close>.
\<close>

record ('k, 'b) ext =
  string2error :: "string \<Rightarrow> error"
  json_Marshal :: "'k request \<Rightarrow> error + byteslice"
  json_Unmarshal_Err :: "'b \<Rightarrow> error + ErrResponse"
  json_Unmarshal_Get :: "'b \<Rightarrow> error + GetResponse"
  json_Unmarshal_Next :: "'b \<Rightarrow> error + 'k NextResponse"
  path_Join :: "string \<Rightarrow> string \<Rightarrow> string"
  URL_String :: "url \<Rightarrow> string"
  url_Parse :: "string \<Rightarrow> error + url"

text \<open>
  \<^verbatim>\<open>http.NewRequestWithContext(ctx, method, url, body)\<close> parses the URL and fails
  when it does not parse; the context is not modelled (a cancelled context
  shows as an error of \<^verbatim>\<open>Do\<close>).
\<close>

definition http_NewRequestWithContext ::
  "('k, 'b) ext \<Rightarrow> string \<Rightarrow> string \<Rightarrow> byteslice \<Rightarrow> error + http_request" where
  "http_NewRequestWithContext ext method urlstr body =
     (case url_Parse ext urlstr of
        Inl err \<Rightarrow> Inl err
      | Inr u \<Rightarrow> Inr \<lparr>Method = method, URL = u, Header = [], Body = body\<rparr>)"

section \<open>The world outside the client\<close>

text \<open>
  \<open>net\<close> holds what the successive calls of \<^verbatim>\<open>httpClient.Do\<close> will return, in order
  (an error, or a response); \<open>sent\<close> is the log of the requests handed to \<^verbatim>\<open>Do\<close>;
  \<open>uuids\<close> is what the successive calls of \<^verbatim>\<open>uuid.New().String()\<close> will return
  (\<^verbatim>\<open>uuid.New\<close> is taken not to panic);
  \<open>errp\<close> is the error variable the caller of a cursor sequence points \<^verbatim>\<open>errp\<close> at;
  \<open>yielded\<close> is the log of the entries passed to \<^verbatim>\<open>yield\<close>.
\<close>

record world =
  net :: "(error + http_response) stream"
  sent :: "http_request list"
  uuids :: "string stream"
  errp :: "error option"
  yielded :: "(string \<times> reader) list"

text \<open>
  The consumer: given the entries passed to it so far, the last one being the
  current one, whether it asks for more. It does not use the client itself
  while the sequence runs: a call of \<^verbatim>\<open>yield\<close> leaves the rest of the world as it
  is.
\<close>

type_synonym yield = "(string \<times> reader) list \<Rightarrow> bool"

definition uuid_New_String :: "world \<Rightarrow> string \<times> world" where
  "uuid_New_String w = (shd (uuids w), w\<lparr>uuids := stl (uuids w)\<rparr>)"

definition httpClient_Do ::
  "http_client \<Rightarrow> http_request \<Rightarrow> world \<Rightarrow> (error + http_response) \<times> world" where
  "httpClient_Do client r w = (shd (net w), w\<lparr>net := stl (net w), sent := sent w @ [r]\<rparr>)"

section \<open>The client\<close>

record DB =
  dbURL :: url
  httpClient :: http_client
  closecalls :: "unit list"

record Tx =
  Tx_db :: DB
  Tx_id :: string

record Snap =
  Snap_db :: DB
  Snap_id :: string

text \<open>
  \<^verbatim>\<open>New\<close> reads the fields of \<^verbatim>\<open>baseURL\<close>, a pointer: a nil pointer panics. The
  handles are values here: the receivers \<^verbatim>\<open>db\<close>, \<^verbatim>\<open>tx\<close> and \<^verbatim>\<open>snap\<close> of the methods
  are taken not to be nil.
\<close>

definition New :: "url option \<Rightarrow> http_client option \<Rightarrow> DB outcome" where
  "New baseURL client =
     (let client' = (case client of None \<Rightarrow> http_DefaultClient | Some c \<Rightarrow> c) in
      case baseURL of
        None \<Rightarrow> Panics
      | Some b \<Rightarrow> Returns
          \<lparr>dbURL = \<lparr>Scheme = Scheme b, Opaque = [], User = None, Host = Host b,
                    Path = Path b, RawPath = [], OmitHost = False, ForceQuery = False,
                    RawQuery = [], Fragment = [], RawFragment = []\<rparr>,
           httpClient = client', closecalls = []\<rparr>)"

definition Close :: "DB \<Rightarrow> error option" where
  "Close db = None"

definition ServerURL :: "DB \<Rightarrow> url" where
  "ServerURL db = dbURL db"

subsection \<open>The first client\<close>

text \<open>
  \<^verbatim>\<open>doPost[RESP, REQ]\<close>: \<open>unmarshal\<close> is \<^verbatim>\<open>json.Unmarshal\<close> at the type \<^verbatim>\<open>RESP\<close> of the
  call. The calls of \<^verbatim>\<open>slog.Debug\<close> and the deferred \<^verbatim>\<open>Body.Close\<close> are left out.
\<close>

definition doPost ::
  "(byteslice \<Rightarrow> error + 'resp) \<Rightarrow> ('k, byteslice) ext \<Rightarrow> DB \<Rightarrow> string \<Rightarrow> 'k request \<Rightarrow> world
     \<Rightarrow> (error + 'resp) \<times> world" where
  "doPost unmarshal ext db subpath req w =
     (let u = \<lparr>Scheme = Scheme (dbURL db), Opaque = [], User = None, Host = Host (dbURL db),
               Path = path_Join ext (Path (dbURL db)) subpath, RawPath = [], OmitHost = False,
               ForceQuery = False, RawQuery = [], Fragment = [], RawFragment = []\<rparr> in
      case json_Marshal ext req of
        Inl err \<Rightarrow> (Inl err, w)
      | Inr data \<Rightarrow>
         (case http_NewRequestWithContext ext ''POST'' (URL_String ext u) data of
            Inl err \<Rightarrow> (Inl err, w)
          | Inr r0 \<Rightarrow>
             (let r = r0\<lparr>Header := [(''Content-Type'', ''application/json'')]\<rparr> in
              case httpClient_Do (httpClient db) r w of
                (Inl err, w1) \<Rightarrow> (Inl err, w1)
              | (Inr resp, w1) \<Rightarrow>
                  if StatusCode resp \<noteq> 200 then (Inl (fmt_Errorf_status (StatusCode resp)), w1)
                  else (case io_ReadAll (ResponseBody resp) of
                          (respData, Some err) \<Rightarrow> (Inl err, w1)
                        | (respData, None) \<Rightarrow>
                            (case unmarshal respData of
                               Inl err \<Rightarrow> (Inl err, w1)
                             | Inr response \<Rightarrow> (Inr response, w1))))))"

text \<open>
  The operations return what the Go functions return: a pair of a handle or
  reader (\<open>None\<close> for nil) and an error, or an error alone. \<open>ext1\<close> names the
  external functions at the types of the first client.
\<close>

type_synonym ext1 = "(byteslice, byteslice) ext"

definition NewTransaction :: "ext1 \<Rightarrow> DB \<Rightarrow> world \<Rightarrow> (Tx option \<times> error option) \<times> world" where
  "NewTransaction ext db w =
     (case uuid_New_String w of (id', w0) \<Rightarrow>
      (case doPost (json_Unmarshal_Err ext) ext db ''/new-transaction'' (NewTransactionRequest id') w0 of
        (Inl err, w1) \<Rightarrow> ((None, Some err), w1)
      | (Inr resp, w1) \<Rightarrow>
          if length (Error resp) \<noteq> 0 then ((None, Some (string2error ext (Error resp))), w1)
          else ((Some \<lparr>Tx_db = db, Tx_id = id'\<rparr>, None), w1)))"

definition NewSnapshot :: "ext1 \<Rightarrow> DB \<Rightarrow> world \<Rightarrow> (Snap option \<times> error option) \<times> world" where
  "NewSnapshot ext db w =
     (case uuid_New_String w of (id', w0) \<Rightarrow>
      (case doPost (json_Unmarshal_Err ext) ext db ''/new-snapshot'' (NewSnapshotRequest id') w0 of
        (Inl err, w1) \<Rightarrow> ((None, Some err), w1)
      | (Inr resp, w1) \<Rightarrow>
          if length (Error resp) \<noteq> 0 then ((None, Some (string2error ext (Error resp))), w1)
          else ((Some \<lparr>Snap_db = db, Snap_id = id'\<rparr>, None), w1)))"

definition Tx_Get :: "ext1 \<Rightarrow> Tx \<Rightarrow> string \<Rightarrow> world \<Rightarrow> (reader option \<times> error option) \<times> world" where
  "Tx_Get ext tx key w =
     (let req = GetRequest (Tx_id tx) [] (bytes_of_string key) in
      case doPost (json_Unmarshal_Get ext) ext (Tx_db tx) ''/tx/get'' req w of
        (Inl err, w1) \<Rightarrow> ((None, Some err), w1)
      | (Inr resp, w1) \<Rightarrow>
          if length (Error resp) \<noteq> 0 then ((None, Some (string2error ext (Error resp))), w1)
          else ((Some (bytes_NewReader (Value resp)), None), w1))"

definition Tx_Set :: "ext1 \<Rightarrow> Tx \<Rightarrow> string \<Rightarrow> reader option \<Rightarrow> world \<Rightarrow> error option outcome \<times> world" where
  "Tx_Set ext tx key val w =
     (case val of
        None \<Rightarrow> (Returns (Some ErrInvalid), w)
      | Some r \<Rightarrow>
         (case io_ReadAll r of
            (data, Some err) \<Rightarrow> (Returns (Some err), w)
          | (data, None) \<Rightarrow>
             (let req = SetRequest (Tx_id tx) (bytes_of_string key) data in
              case doPost (json_Unmarshal_Err ext) ext (Tx_db tx) ''/tx/set'' req w of
                (Inl err, w1) \<Rightarrow> (Returns (Some err), w1)
              | (Inr resp, w1) \<Rightarrow>
                  if length (Error resp) \<noteq> 0 then (Returns (Some (string2error ext (Error resp))), w1)
                  else (Returns None, w1))))"

definition Tx_Delete :: "ext1 \<Rightarrow> Tx \<Rightarrow> string \<Rightarrow> world \<Rightarrow> error option \<times> world" where
  "Tx_Delete ext tx key w =
     (let req = DeleteRequest (Tx_id tx) (bytes_of_string key) in
      case doPost (json_Unmarshal_Err ext) ext (Tx_db tx) ''/tx/delete'' req w of
        (Inl err, w1) \<Rightarrow> (Some err, w1)
      | (Inr resp, w1) \<Rightarrow>
          if length (Error resp) \<noteq> 0 then (Some (string2error ext (Error resp)), w1)
          else (None, w1))"

definition Tx_Commit :: "ext1 \<Rightarrow> Tx \<Rightarrow> world \<Rightarrow> error option \<times> world" where
  "Tx_Commit ext tx w =
     (let req = CommitRequest (Tx_id tx) in
      case doPost (json_Unmarshal_Err ext) ext (Tx_db tx) ''/tx/commit'' req w of
        (Inl err, w1) \<Rightarrow> (Some err, w1)
      | (Inr resp, w1) \<Rightarrow>
          if length (Error resp) \<noteq> 0 then (Some (string2error ext (Error resp)), w1)
          else (None, w1))"

definition Tx_Rollback :: "ext1 \<Rightarrow> Tx \<Rightarrow> world \<Rightarrow> error option \<times> world" where
  "Tx_Rollback ext tx w =
     (let req = RollbackRequest (Tx_id tx) in
      case doPost (json_Unmarshal_Err ext) ext (Tx_db tx) ''/tx/rollback'' req w of
        (Inl err, w1) \<Rightarrow> (Some err, w1)
      | (Inr resp, w1) \<Rightarrow>
          if length (Error resp) \<noteq> 0 then (Some (string2error ext (Error resp)), w1)
          else (None, w1))"

definition Snap_Get :: "ext1 \<Rightarrow> Snap \<Rightarrow> string \<Rightarrow> world \<Rightarrow> (reader option \<times> error option) \<times> world" where
  "Snap_Get ext snap key w =
     (let req = GetRequest [] (Snap_id snap) (bytes_of_string key) in
      case doPost (json_Unmarshal_Get ext) ext (Snap_db snap) ''/snap/get'' req w of
        (Inl err, w1) \<Rightarrow> ((None, Some err), w1)
      | (Inr resp, w1) \<Rightarrow>
          if length (Error resp) \<noteq> 0 then ((None, Some (string2error ext (Error resp))), w1)
          else ((Some (bytes_NewReader (Value resp)), None), w1))"

definition Snap_Discard :: "ext1 \<Rightarrow> Snap \<Rightarrow> world \<Rightarrow> error option \<times> world" where
  "Snap_Discard ext snap w =
     (let req = DiscardRequest (Snap_id snap) in
      case doPost (json_Unmarshal_Err ext) ext (Snap_db snap) ''/snap/discard'' req w of
        (Inl err, w1) \<Rightarrow> (Some err, w1)
      | (Inr resp, w1) \<Rightarrow>
          if length (Error resp) \<noteq> 0 then (Some (string2error ext (Error resp)), w1)
          else (None, w1))"

text \<open>
  The cursor sequences. Each of them opens the cursor and then runs the same
  loop, \<^verbatim>\<open>for { ... }\<close>, written out in each Go function with the same text:
  \<open>next_loop\<close> is that loop, its first argument the number of rounds it may still
  run (\<open>None\<close>: the loop has not returned within that many rounds). A write
  through \<^verbatim>\<open>errp\<close> is a write to \<open>errp\<close> of the world (the pointer is taken not to
  be nil), a call of \<^verbatim>\<open>yield\<close> appends the entry to \<open>yielded\<close> and asks the
  consumer. The context is not modelled: its cancellation shows as an error
  of \<^verbatim>\<open>Do\<close>.
\<close>

fun next_loop :: "nat \<Rightarrow> ext1 \<Rightarrow> DB \<Rightarrow> string \<Rightarrow> yield \<Rightarrow> world \<Rightarrow> world option" where
  "next_loop 0 ext db name yield w = None"
| "next_loop (Suc fuel) ext db name yield w =
     (let req2 = NextRequest name in
      case doPost (json_Unmarshal_Next ext) ext db ''/it/next'' req2 w of
        (Inl err, w1) \<Rightarrow> Some (w1\<lparr>errp := Some err\<rparr>)
      | (Inr resp2, w1) \<Rightarrow>
          if length (Error resp2) \<noteq> 0 then Some (w1\<lparr>errp := Some (string2error ext (Error resp2))\<rparr>)
          else if len (Key resp2) = 0 then Some w1
          else (let w2 = w1\<lparr>yielded := yielded w1 @
                              [(string_of_bytes (Key resp2), bytes_NewReader (Value resp2))]\<rparr> in
                if \<not> yield (yielded w2) then Some w2
                else next_loop fuel ext db name yield w2))"

definition Tx_Ascend ::
  "ext1 \<Rightarrow> Tx \<Rightarrow> string \<Rightarrow> string \<Rightarrow> nat \<Rightarrow> yield \<Rightarrow> world \<Rightarrow> world option" where
  "Tx_Ascend ext tx begin endk fuel yield w =
     (case uuid_New_String w of (name, w0) \<Rightarrow>
      (let req1 = AscendRequest (Tx_id tx) [] (bytes_of_string begin) (bytes_of_string endk) name in
      case doPost (json_Unmarshal_Err ext) ext (Tx_db tx) ''/tx/ascend'' req1 w0 of
        (Inl err, w1) \<Rightarrow> Some (w1\<lparr>errp := Some err\<rparr>)
      | (Inr resp1, w1) \<Rightarrow>
          if length (Error resp1) \<noteq> 0 then Some (w1\<lparr>errp := Some (string2error ext (Error resp1))\<rparr>)
          else next_loop fuel ext (Tx_db tx) name yield w1))"

definition Tx_Descend ::
  "ext1 \<Rightarrow> Tx \<Rightarrow> string \<Rightarrow> string \<Rightarrow> nat \<Rightarrow> yield \<Rightarrow> world \<Rightarrow> world option" where
  "Tx_Descend ext tx begin endk fuel yield w =
     (case uuid_New_String w of (name, w0) \<Rightarrow>
      (let req1 = DescendRequest (Tx_id tx) [] (bytes_of_string begin) (bytes_of_string endk) name in
      case doPost (json_Unmarshal_Err ext) ext (Tx_db tx) ''/tx/descend'' req1 w0 of
        (Inl err, w1) \<Rightarrow> Some (w1\<lparr>errp := Some err\<rparr>)
      | (Inr resp1, w1) \<Rightarrow>
          if length (Error resp1) \<noteq> 0 then Some (w1\<lparr>errp := Some (string2error ext (Error resp1))\<rparr>)
          else next_loop fuel ext (Tx_db tx) name yield w1))"

definition Snap_Ascend ::
  "ext1 \<Rightarrow> Snap \<Rightarrow> string \<Rightarrow> string \<Rightarrow> nat \<Rightarrow> yield \<Rightarrow> world \<Rightarrow> world option" where
  "Snap_Ascend ext snap begin endk fuel yield w =
     (case uuid_New_String w of (name, w0) \<Rightarrow>
      (let req1 = AscendRequest [] (Snap_id snap) (bytes_of_string begin) (bytes_of_string endk) name in
      case doPost (json_Unmarshal_Err ext) ext (Snap_db snap) ''/snap/ascend'' req1 w0 of
        (Inl err, w1) \<Rightarrow> Some (w1\<lparr>errp := Some err\<rparr>)
      | (Inr resp1, w1) \<Rightarrow>
          if length (Error resp1) \<noteq> 0 then Some (w1\<lparr>errp := Some (string2error ext (Error resp1))\<rparr>)
          else next_loop fuel ext (Snap_db snap) name yield w1))"

definition Snap_Descend ::
  "ext1 \<Rightarrow> Snap \<Rightarrow> string \<Rightarrow> string \<Rightarrow> nat \<Rightarrow> yield \<Rightarrow> world \<Rightarrow> world option" where
  "Snap_Descend ext snap begin endk fuel yield w =
     (case uuid_New_String w of (name, w0) \<Rightarrow>
      (let req1 = DescendRequest [] (Snap_id snap) (bytes_of_string begin) (bytes_of_string endk) name in
      case doPost (json_Unmarshal_Err ext) ext (Snap_db snap) ''/snap/descend'' req1 w0 of
        (Inl err, w1) \<Rightarrow> Some (w1\<lparr>errp := Some err\<rparr>)
      | (Inr resp1, w1) \<Rightarrow>
          if length (Error resp1) \<noteq> 0 then Some (w1\<lparr>errp := Some (string2error ext (Error resp1))\<rparr>)
          else next_loop fuel ext (Snap_db snap) name yield w1))"

subsection \<open>The second client\<close>

text \<open>
  The second client has the same \<^verbatim>\<open>New\<close>, \<^verbatim>\<open>Close\<close> and \<^verbatim>\<open>ServerURL\<close>. Its \<^verbatim>\<open>doPost\<close>
  decodes the body with \<^verbatim>\<open>json.NewDecoder(resp.Body).Decode\<close>; it assigns Go strings
  to the key fields and reads the key of a reply as a string; \<^verbatim>\<open>Tx.Set\<close> passes
  \<^verbatim>\<open>value\<close> to \<^verbatim>\<open>io.ReadAll\<close> with no test for nil; \<^verbatim>\<open>Scan\<close> is added.
\<close>

definition doPost_v2 ::
  "(reader \<Rightarrow> error + 'resp) \<Rightarrow> ('k, reader) ext \<Rightarrow> DB \<Rightarrow> string \<Rightarrow> 'k request \<Rightarrow> world
     \<Rightarrow> (error + 'resp) \<times> world" where
  "doPost_v2 decode ext db subpath req w =
     (let u = \<lparr>Scheme = Scheme (dbURL db), Opaque = [], User = None, Host = Host (dbURL db),
               Path = path_Join ext (Path (dbURL db)) subpath, RawPath = [], OmitHost = False,
               ForceQuery = False, RawQuery = [], Fragment = [], RawFragment = []\<rparr> in
      case json_Marshal ext req of
        Inl err \<Rightarrow> (Inl err, w)
      | Inr data \<Rightarrow>
         (case http_NewRequestWithContext ext ''POST'' (URL_String ext u) data of
            Inl err \<Rightarrow> (Inl err, w)
          | Inr r0 \<Rightarrow>
             (let r = r0\<lparr>Header := [(''Content-Type'', ''application/json'')]\<rparr> in
              case httpClient_Do (httpClient db) r w of
                (Inl err, w1) \<Rightarrow> (Inl err, w1)
              | (Inr resp, w1) \<Rightarrow>
                  if StatusCode resp \<noteq> 200 then (Inl (fmt_Errorf_status (StatusCode resp)), w1)
                  else (case decode (ResponseBody resp) of
                          Inl err \<Rightarrow> (Inl err, w1)
                        | Inr response \<Rightarrow> (Inr response, w1)))))"

type_synonym ext2 = "(string, reader) ext"

definition NewTransaction_v2 :: "ext2 \<Rightarrow> DB \<Rightarrow> world \<Rightarrow> (Tx option \<times> error option) \<times> world" where
  "NewTransaction_v2 ext db w =
     (case uuid_New_String w of (id', w0) \<Rightarrow>
      (case doPost_v2 (json_Unmarshal_Err ext) ext db ''/new-transaction'' (NewTransactionRequest id') w0 of
        (Inl err, w1) \<Rightarrow> ((None, Some err), w1)
      | (Inr resp, w1) \<Rightarrow>
          if length (Error resp) \<noteq> 0 then ((None, Some (string2error ext (Error resp))), w1)
          else ((Some \<lparr>Tx_db = db, Tx_id = id'\<rparr>, None), w1)))"

definition NewSnapshot_v2 :: "ext2 \<Rightarrow> DB \<Rightarrow> world \<Rightarrow> (Snap option \<times> error option) \<times> world" where
  "NewSnapshot_v2 ext db w =
     (case uuid_New_String w of (id', w0) \<Rightarrow>
      (case doPost_v2 (json_Unmarshal_Err ext) ext db ''/new-snapshot'' (NewSnapshotRequest id') w0 of
        (Inl err, w1) \<Rightarrow> ((None, Some err), w1)
      | (Inr resp, w1) \<Rightarrow>
          if length (Error resp) \<noteq> 0 then ((None, Some (string2error ext (Error resp))), w1)
          else ((Some \<lparr>Snap_db = db, Snap_id = id'\<rparr>, None), w1)))"

definition Tx_Get_v2 :: "ext2 \<Rightarrow> Tx \<Rightarrow> string \<Rightarrow> world \<Rightarrow> (reader option \<times> error option) \<times> world" where
  "Tx_Get_v2 ext tx key w =
     (let req = GetRequest (Tx_id tx) [] key in
      case doPost_v2 (json_Unmarshal_Get ext) ext (Tx_db tx) ''/tx/get'' req w of
        (Inl err, w1) \<Rightarrow> ((None, Some err), w1)
      | (Inr resp, w1) \<Rightarrow>
          if length (Error resp) \<noteq> 0 then ((None, Some (string2error ext (Error resp))), w1)
          else ((Some (bytes_NewReader (Value resp)), None), w1))"

definition Tx_Set_v2 :: "ext2 \<Rightarrow> Tx \<Rightarrow> string \<Rightarrow> reader option \<Rightarrow> world \<Rightarrow> error option outcome \<times> world" where
  "Tx_Set_v2 ext tx key val w =
     (case io_ReadAll_nilable val of
        Panics \<Rightarrow> (Panics, w)
      | Returns (data, Some err) \<Rightarrow> (Returns (Some err), w)
      | Returns (data, None) \<Rightarrow>
         (let req = SetRequest (Tx_id tx) key data in
          case doPost_v2 (json_Unmarshal_Err ext) ext (Tx_db tx) ''/tx/set'' req w of
            (Inl err, w1) \<Rightarrow> (Returns (Some err), w1)
          | (Inr resp, w1) \<Rightarrow>
              if length (Error resp) \<noteq> 0 then (Returns (Some (string2error ext (Error resp))), w1)
              else (Returns None, w1)))"

definition Tx_Delete_v2 :: "ext2 \<Rightarrow> Tx \<Rightarrow> string \<Rightarrow> world \<Rightarrow> error option \<times> world" where
  "Tx_Delete_v2 ext tx key w =
     (let req = DeleteRequest (Tx_id tx) key in
      case doPost_v2 (json_Unmarshal_Err ext) ext (Tx_db tx) ''/tx/delete'' req w of
        (Inl err, w1) \<Rightarrow> (Some err, w1)
      | (Inr resp, w1) \<Rightarrow>
          if length (Error resp) \<noteq> 0 then (Some (string2error ext (Error resp)), w1)
          else (None, w1))"

definition Tx_Commit_v2 :: "ext2 \<Rightarrow> Tx \<Rightarrow> world \<Rightarrow> error option \<times> world" where
  "Tx_Commit_v2 ext tx w =
     (let req = CommitRequest (Tx_id tx) in
      case doPost_v2 (json_Unmarshal_Err ext) ext (Tx_db tx) ''/tx/commit'' req w of
        (Inl err, w1) \<Rightarrow> (Some err, w1)
      | (Inr resp, w1) \<Rightarrow>
          if length (Error resp) \<noteq> 0 then (Some (string2error ext (Error resp)), w1)
          else (None, w1))"

definition Tx_Rollback_v2 :: "ext2 \<Rightarrow> Tx \<Rightarrow> world \<Rightarrow> error option \<times> world" where
  "Tx_Rollback_v2 ext tx w =
     (let req = RollbackRequest (Tx_id tx) in
      case doPost_v2 (json_Unmarshal_Err ext) ext (Tx_db tx) ''/tx/rollback'' req w of
        (Inl err, w1) \<Rightarrow> (Some err, w1)
      | (Inr resp, w1) \<Rightarrow>
          if length (Error resp) \<noteq> 0 then (Some (string2error ext (Error resp)), w1)
          else (None, w1))"

definition Snap_Get_v2 :: "ext2 \<Rightarrow> Snap \<Rightarrow> string \<Rightarrow> world \<Rightarrow> (reader option \<times> error option) \<times> world" where
  "Snap_Get_v2 ext snap key w =
     (let req = GetRequest [] (Snap_id snap) key in
      case doPost_v2 (json_Unmarshal_Get ext) ext (Snap_db snap) ''/snap/get'' req w of
        (Inl err, w1) \<Rightarrow> ((None, Some err), w1)
      | (Inr resp, w1) \<Rightarrow>
          if length (Error resp) \<noteq> 0 then ((None, Some (string2error ext (Error resp))), w1)
          else ((Some (bytes_NewReader (Value resp)), None), w1))"

definition Snap_Discard_v2 :: "ext2 \<Rightarrow> Snap \<Rightarrow> world \<Rightarrow> error option \<times> world" where
  "Snap_Discard_v2 ext snap w =
     (let req = DiscardRequest (Snap_id snap) in
      case doPost_v2 (json_Unmarshal_Err ext) ext (Snap_db snap) ''/snap/discard'' req w of
        (Inl err, w1) \<Rightarrow> (Some err, w1)
      | (Inr resp, w1) \<Rightarrow>
          if length (Error resp) \<noteq> 0 then (Some (string2error ext (Error resp)), w1)
          else (None, w1))"

text \<open>The loop of the six cursor sequences of the second client.\<close>

fun next_loop_v2 :: "nat \<Rightarrow> ext2 \<Rightarrow> DB \<Rightarrow> string \<Rightarrow> yield \<Rightarrow> world \<Rightarrow> world option" where
  "next_loop_v2 0 ext db name yield w = None"
| "next_loop_v2 (Suc fuel) ext db name yield w =
     (let req2 = NextRequest name in
      case doPost_v2 (json_Unmarshal_Next ext) ext db ''/it/next'' req2 w of
        (Inl err, w1) \<Rightarrow> Some (w1\<lparr>errp := Some err\<rparr>)
      | (Inr resp2, w1) \<Rightarrow>
          if length (Error resp2) \<noteq> 0 then Some (w1\<lparr>errp := Some (string2error ext (Error resp2))\<rparr>)
          else if length (Key resp2) = 0 then Some w1
          else (let w2 = w1\<lparr>yielded := yielded w1 @
                              [(Key resp2, bytes_NewReader (Value resp2))]\<rparr> in
                if \<not> yield (yielded w2) then Some w2
                else next_loop_v2 fuel ext db name yield w2))"

definition Tx_Ascend_v2 ::
  "ext2 \<Rightarrow> Tx \<Rightarrow> string \<Rightarrow> string \<Rightarrow> nat \<Rightarrow> yield \<Rightarrow> world \<Rightarrow> world option" where
  "Tx_Ascend_v2 ext tx begin endk fuel yield w =
     (case uuid_New_String w of (name, w0) \<Rightarrow>
      (let req1 = AscendRequest (Tx_id tx) [] begin endk name in
      case doPost_v2 (json_Unmarshal_Err ext) ext (Tx_db tx) ''/tx/ascend'' req1 w0 of
        (Inl err, w1) \<Rightarrow> Some (w1\<lparr>errp := Some err\<rparr>)
      | (Inr resp1, w1) \<Rightarrow>
          if length (Error resp1) \<noteq> 0 then Some (w1\<lparr>errp := Some (string2error ext (Error resp1))\<rparr>)
          else next_loop_v2 fuel ext (Tx_db tx) name yield w1))"

definition Tx_Descend_v2 ::
  "ext2 \<Rightarrow> Tx \<Rightarrow> string \<Rightarrow> string \<Rightarrow> nat \<Rightarrow> yield \<Rightarrow> world \<Rightarrow> world option" where
  "Tx_Descend_v2 ext tx begin endk fuel yield w =
     (case uuid_New_String w of (name, w0) \<Rightarrow>
      (let req1 = DescendRequest (Tx_id tx) [] begin endk name in
      case doPost_v2 (json_Unmarshal_Err ext) ext (Tx_db tx) ''/tx/descend'' req1 w0 of
        (Inl err, w1) \<Rightarrow> Some (w1\<lparr>errp := Some err\<rparr>)
      | (Inr resp1, w1) \<Rightarrow>
          if length (Error resp1) \<noteq> 0 then Some (w1\<lparr>errp := Some (string2error ext (Error resp1))\<rparr>)
          else next_loop_v2 fuel ext (Tx_db tx) name yield w1))"

definition Snap_Ascend_v2 ::
  "ext2 \<Rightarrow> Snap \<Rightarrow> string \<Rightarrow> string \<Rightarrow> nat \<Rightarrow> yield \<Rightarrow> world \<Rightarrow> world option" where
  "Snap_Ascend_v2 ext snap begin endk fuel yield w =
     (case uuid_New_String w of (name, w0) \<Rightarrow>
      (let req1 = AscendRequest [] (Snap_id snap) begin endk name in
      case doPost_v2 (json_Unmarshal_Err ext) ext (Snap_db snap) ''/snap/ascend'' req1 w0 of
        (Inl err, w1) \<Rightarrow> Some (w1\<lparr>errp := Some err\<rparr>)
      | (Inr resp1, w1) \<Rightarrow>
          if length (Error resp1) \<noteq> 0 then Some (w1\<lparr>errp := Some (string2error ext (Error resp1))\<rparr>)
          else next_loop_v2 fuel ext (Snap_db snap) name yield w1))"

definition Snap_Descend_v2 ::
  "ext2 \<Rightarrow> Snap \<Rightarrow> string \<Rightarrow> string \<Rightarrow> nat \<Rightarrow> yield \<Rightarrow> world \<Rightarrow> world option" where
  "Snap_Descend_v2 ext snap begin endk fuel yield w =
     (case uuid_New_String w of (name, w0) \<Rightarrow>
      (let req1 = DescendRequest [] (Snap_id snap) begin endk name in
      case doPost_v2 (json_Unmarshal_Err ext) ext (Snap_db snap) ''/snap/descend'' req1 w0 of
        (Inl err, w1) \<Rightarrow> Some (w1\<lparr>errp := Some err\<rparr>)
      | (Inr resp1, w1) \<Rightarrow>
          if length (Error resp1) \<noteq> 0 then Some (w1\<lparr>errp := Some (string2error ext (Error resp1))\<rparr>)
          else next_loop_v2 fuel ext (Snap_db snap) name yield w1))"

definition Tx_Scan_v2 :: "ext2 \<Rightarrow> Tx \<Rightarrow> nat \<Rightarrow> yield \<Rightarrow> world \<Rightarrow> world option" where
  "Tx_Scan_v2 ext tx fuel yield w =
     (case uuid_New_String w of (name, w0) \<Rightarrow>
      (let req1 = ScanRequest (Tx_id tx) [] name in
      case doPost_v2 (json_Unmarshal_Err ext) ext (Tx_db tx) ''/tx/scan'' req1 w0 of
        (Inl err, w1) \<Rightarrow> Some (w1\<lparr>errp := Some err\<rparr>)
      | (Inr resp1, w1) \<Rightarrow>
          if length (Error resp1) \<noteq> 0 then Some (w1\<lparr>errp := Some (string2error ext (Error resp1))\<rparr>)
          else next_loop_v2 fuel ext (Tx_db tx) name yield w1))"

definition Snap_Scan_v2 :: "ext2 \<Rightarrow> Snap \<Rightarrow> nat \<Rightarrow> yield \<Rightarrow> world \<Rightarrow> world option" where
  "Snap_Scan_v2 ext snap fuel yield w =
     (case uuid_New_String w of (name, w0) \<Rightarrow>
      (let req1 = ScanRequest [] (Snap_id snap) name in
      case doPost_v2 (json_Unmarshal_Err ext) ext (Snap_db snap) ''/snap/scan'' req1 w0 of
        (Inl err, w1) \<Rightarrow> Some (w1\<lparr>errp := Some err\<rparr>)
      | (Inr resp1, w1) \<Rightarrow>
          if length (Error resp1) \<noteq> 0 then Some (w1\<lparr>errp := Some (string2error ext (Error resp1))\<rparr>)
          else next_loop_v2 fuel ext (Snap_db snap) name yield w1))"

section \<open>Vocabulary of the properties\<close>

subsection \<open>One round trip\<close>

text \<open>
  \<^verbatim>\<open>doPost\<close> in two halves. \<open>doPost_request\<close> is the request it hands to \<^verbatim>\<open>Do\<close>, or
  the error that makes it return before the call; \<open>doPost_result\<close> is what it
  returns once \<^verbatim>\<open>Do\<close> has returned \<open>out\<close> (\<open>doPost_result_v2\<close> in the second
  client). \<open>round_trip\<close> puts the halves together; the lemmas \<open>doPost_eq\<close> and
  \<open>doPost_v2_eq\<close> show that this is \<^verbatim>\<open>doPost\<close>.
\<close>

definition doPost_request :: "('k, 'b) ext \<Rightarrow> DB \<Rightarrow> string \<Rightarrow> 'k request \<Rightarrow> error + http_request" where
  "doPost_request ext db subpath req =
     (case json_Marshal ext req of
        Inl err \<Rightarrow> Inl err
      | Inr data \<Rightarrow>
         (case url_Parse ext (URL_String ext
                 \<lparr>Scheme = Scheme (dbURL db), Opaque = [], User = None, Host = Host (dbURL db),
                  Path = path_Join ext (Path (dbURL db)) subpath, RawPath = [], OmitHost = False,
                  ForceQuery = False, RawQuery = [], Fragment = [], RawFragment = []\<rparr>) of
            Inl err \<Rightarrow> Inl err
          | Inr u \<Rightarrow> Inr \<lparr>Method = ''POST'', URL = u,
                          Header = [(''Content-Type'', ''application/json'')], Body = data\<rparr>))"

definition doPost_result :: "(byteslice \<Rightarrow> error + 'resp) \<Rightarrow> error + http_response \<Rightarrow> error + 'resp" where
  "doPost_result unmarshal out =
     (case out of
        Inl err \<Rightarrow> Inl err
      | Inr resp \<Rightarrow>
          if StatusCode resp \<noteq> 200 then Inl (fmt_Errorf_status (StatusCode resp))
          else (case failure (ResponseBody resp) of
                  Some err \<Rightarrow> Inl err
                | None \<Rightarrow> unmarshal (Some (content (ResponseBody resp)))))"

definition doPost_result_v2 :: "(reader \<Rightarrow> error + 'resp) \<Rightarrow> error + http_response \<Rightarrow> error + 'resp" where
  "doPost_result_v2 decode out =
     (case out of
        Inl err \<Rightarrow> Inl err
      | Inr resp \<Rightarrow>
          if StatusCode resp \<noteq> 200 then Inl (fmt_Errorf_status (StatusCode resp))
          else decode (ResponseBody resp))"

definition round_trip ::
  "error + http_request \<Rightarrow> (error + http_response \<Rightarrow> error + 'resp) \<Rightarrow> world \<Rightarrow> (error + 'resp) \<times> world" where
  "round_trip built res w =
     (case built of
        Inl err \<Rightarrow> (Inl err, w)
      | Inr r \<Rightarrow> (res (shd (net w)), w\<lparr>net := stl (net w), sent := sent w @ [r]\<rparr>))"

text \<open>
  The error one round trip reports, if any: the error \<^verbatim>\<open>doPost\<close> returned, or
  \<^verbatim>\<open>string2error\<close> of the field \<open>Error\<close> of the response when that is not empty.
\<close>

definition reported :: "(string \<Rightarrow> error) \<Rightarrow> error + ('a ErrResponse_scheme) \<Rightarrow> error option" where
  "reported s2e res =
     (case res of
        Inl err \<Rightarrow> Some err
      | Inr resp \<Rightarrow> if length (Error resp) \<noteq> 0 then Some (s2e (Error resp)) else None)"

text \<open>
  An operation that returns an error alone has \<open>settled\<close> its round trip when it
  returns the error the round trip reports and the world the round trip left;
  an operation that returns a value and an error has, when moreover the value
  is nil exactly when the error is not.
\<close>

definition settled ::
  "(string \<Rightarrow> error) \<Rightarrow> (error + ('a ErrResponse_scheme)) \<times> world \<Rightarrow> error option \<times> world \<Rightarrow> bool" where
  "settled s2e posted returned =
     (returned = (reported s2e (fst posted), snd posted))"

definition settled_value ::
  "(string \<Rightarrow> error) \<Rightarrow> (error + ('a ErrResponse_scheme)) \<times> world \<Rightarrow>
   ('v option \<times> error option) \<times> world \<Rightarrow> bool" where
  "settled_value s2e posted returned =
     (snd (fst returned) = reported s2e (fst posted) \<and> snd returned = snd posted \<and>
      (fst (fst returned) = None) = (snd (fst returned) \<noteq> None))"

subsection \<open>Cursor sequences\<close>

text \<open>
  What one round of the loop makes of the result of its \<^verbatim>\<open>/it/next\<close> round trip:
  an error to write through \<^verbatim>\<open>errp\<close>, the end of the data, or an entry to yield.
  \<open>next_reply\<close> reads it off what \<^verbatim>\<open>Do\<close> returned, \<open>open_reply\<close> is the error of the
  opening round trip read off what \<^verbatim>\<open>Do\<close> returned (\<open>None\<close>: the cursor is open).
\<close>

datatype step = Fail error | Eof | Entry string reader

definition next_step :: "ext1 \<Rightarrow> error + byteslice NextResponse \<Rightarrow> step" where
  "next_step ext res =
     (case res of
        Inl err \<Rightarrow> Fail err
      | Inr resp2 \<Rightarrow>
          if length (Error resp2) \<noteq> 0 then Fail (string2error ext (Error resp2))
          else if len (Key resp2) = 0 then Eof
          else Entry (string_of_bytes (Key resp2)) (bytes_NewReader (Value resp2)))"

definition next_step_v2 :: "ext2 \<Rightarrow> error + string NextResponse \<Rightarrow> step" where
  "next_step_v2 ext res =
     (case res of
        Inl err \<Rightarrow> Fail err
      | Inr resp2 \<Rightarrow>
          if length (Error resp2) \<noteq> 0 then Fail (string2error ext (Error resp2))
          else if length (Key resp2) = 0 then Eof
          else Entry (Key resp2) (bytes_NewReader (Value resp2)))"

definition next_reply :: "ext1 \<Rightarrow> error + http_response \<Rightarrow> step" where
  "next_reply ext out = next_step ext (doPost_result (json_Unmarshal_Next ext) out)"

definition next_reply_v2 :: "ext2 \<Rightarrow> error + http_response \<Rightarrow> step" where
  "next_reply_v2 ext out = next_step_v2 ext (doPost_result_v2 (json_Unmarshal_Next ext) out)"

definition open_reply :: "ext1 \<Rightarrow> error + http_response \<Rightarrow> error option" where
  "open_reply ext out = reported (string2error ext) (doPost_result (json_Unmarshal_Err ext) out)"

definition open_reply_v2 :: "ext2 \<Rightarrow> error + http_response \<Rightarrow> error option" where
  "open_reply_v2 ext out = reported (string2error ext) (doPost_result_v2 (json_Unmarshal_Err ext) out)"

text \<open>The consumer asks for more after each of the entries \<open>es\<close>, having seen \<open>ys\<close>.\<close>

fun accepts :: "yield \<Rightarrow> (string \<times> reader) list \<Rightarrow> (string \<times> reader) list \<Rightarrow> bool" where
  "accepts yield ys [] = True"
| "accepts yield ys (e # es) = (yield (ys @ [e]) \<and> accepts yield (ys @ [e]) es)"

text \<open>
  The cursor sequences of each client, by name: \<open>cursor_seq1 c\<close> and
  \<open>cursor_seq2 c\<close> are the Go functions on the handle of session \<open>sid\<close> of \<open>db\<close>,
  \<open>open_call1\<close> and \<open>open_call2\<close> the path and the request of their opening round
  trip for the cursor id \<open>name\<close>, \<open>open_sent1\<close> and \<open>open_sent2\<close> the request that
  round trip hands to \<^verbatim>\<open>Do\<close>, \<open>next_sent\<close> the request of a \<^verbatim>\<open>/it/next\<close> round trip.
\<close>

datatype cursor1 = TxAscend | TxDescend | SnapAscend | SnapDescend

definition cursor_seq1 ::
  "cursor1 \<Rightarrow> ext1 \<Rightarrow> DB \<Rightarrow> string \<Rightarrow> string \<Rightarrow> string \<Rightarrow> nat \<Rightarrow> yield \<Rightarrow> world \<Rightarrow> world option" where
  "cursor_seq1 c ext db sid b e =
     (case c of
        TxAscend \<Rightarrow> Tx_Ascend ext \<lparr>Tx_db = db, Tx_id = sid\<rparr> b e
      | TxDescend \<Rightarrow> Tx_Descend ext \<lparr>Tx_db = db, Tx_id = sid\<rparr> b e
      | SnapAscend \<Rightarrow> Snap_Ascend ext \<lparr>Snap_db = db, Snap_id = sid\<rparr> b e
      | SnapDescend \<Rightarrow> Snap_Descend ext \<lparr>Snap_db = db, Snap_id = sid\<rparr> b e)"

definition open_call1 ::
  "cursor1 \<Rightarrow> string \<Rightarrow> string \<Rightarrow> string \<Rightarrow> string \<Rightarrow> string \<times> byteslice request" where
  "open_call1 c sid b e name =
     (case c of
        TxAscend \<Rightarrow> (''/tx/ascend'', AscendRequest sid [] (Some b) (Some e) name)
      | TxDescend \<Rightarrow> (''/tx/descend'', DescendRequest sid [] (Some b) (Some e) name)
      | SnapAscend \<Rightarrow> (''/snap/ascend'', AscendRequest [] sid (Some b) (Some e) name)
      | SnapDescend \<Rightarrow> (''/snap/descend'', DescendRequest [] sid (Some b) (Some e) name))"

definition open_sent1 ::
  "cursor1 \<Rightarrow> ext1 \<Rightarrow> DB \<Rightarrow> string \<Rightarrow> string \<Rightarrow> string \<Rightarrow> string \<Rightarrow> error + http_request" where
  "open_sent1 c ext db sid b e name =
     doPost_request ext db (fst (open_call1 c sid b e name)) (snd (open_call1 c sid b e name))"

datatype cursor2 = TxAscend2 | TxDescend2 | TxScan2 | SnapAscend2 | SnapDescend2 | SnapScan2

definition cursor_seq2 ::
  "cursor2 \<Rightarrow> ext2 \<Rightarrow> DB \<Rightarrow> string \<Rightarrow> string \<Rightarrow> string \<Rightarrow> nat \<Rightarrow> yield \<Rightarrow> world \<Rightarrow> world option" where
  "cursor_seq2 c ext db sid b e =
     (case c of
        TxAscend2 \<Rightarrow> Tx_Ascend_v2 ext \<lparr>Tx_db = db, Tx_id = sid\<rparr> b e
      | TxDescend2 \<Rightarrow> Tx_Descend_v2 ext \<lparr>Tx_db = db, Tx_id = sid\<rparr> b e
      | TxScan2 \<Rightarrow> Tx_Scan_v2 ext \<lparr>Tx_db = db, Tx_id = sid\<rparr>
      | SnapAscend2 \<Rightarrow> Snap_Ascend_v2 ext \<lparr>Snap_db = db, Snap_id = sid\<rparr> b e
      | SnapDescend2 \<Rightarrow> Snap_Descend_v2 ext \<lparr>Snap_db = db, Snap_id = sid\<rparr> b e
      | SnapScan2 \<Rightarrow> Snap_Scan_v2 ext \<lparr>Snap_db = db, Snap_id = sid\<rparr>)"

definition open_call2 ::
  "cursor2 \<Rightarrow> string \<Rightarrow> string \<Rightarrow> string \<Rightarrow> string \<Rightarrow> string \<times> string request" where
  "open_call2 c sid b e name =
     (case c of
        TxAscend2 \<Rightarrow> (''/tx/ascend'', AscendRequest sid [] b e name)
      | TxDescend2 \<Rightarrow> (''/tx/descend'', DescendRequest sid [] b e name)
      | TxScan2 \<Rightarrow> (''/tx/scan'', ScanRequest sid [] name)
      | SnapAscend2 \<Rightarrow> (''/snap/ascend'', AscendRequest [] sid b e name)
      | SnapDescend2 \<Rightarrow> (''/snap/descend'', DescendRequest [] sid b e name)
      | SnapScan2 \<Rightarrow> (''/snap/scan'', ScanRequest [] sid name))"

definition open_sent2 ::
  "cursor2 \<Rightarrow> ext2 \<Rightarrow> DB \<Rightarrow> string \<Rightarrow> string \<Rightarrow> string \<Rightarrow> string \<Rightarrow> error + http_request" where
  "open_sent2 c ext db sid b e name =
     doPost_request ext db (fst (open_call2 c sid b e name)) (snd (open_call2 c sid b e name))"

definition next_sent :: "('k, 'b) ext \<Rightarrow> DB \<Rightarrow> string \<Rightarrow> error + http_request" where
  "next_sent ext db name = doPost_request ext db ''/it/next'' (NextRequest name)"

text \<open>The generator of identifiers never hands out the same string twice.\<close>

definition fresh_ids :: "string stream \<Rightarrow> bool" where
  "fresh_ids s = (\<forall>i j. s !! i = s !! j \<longrightarrow> i = j)"

subsection \<open>The loop and the sequences over both clients\<close>

text \<open>
  \<open>drain\<close> is the loop and \<open>gcursor\<close> a cursor sequence, with the request of the
  round trips and the reading of their replies as parameters; the lemmas
  \<open>next_loop_drain\<close>, \<open>next_loop_v2_drain\<close>, \<open>cursor_seq1_gcursor\<close> and
  \<open>cursor_seq2_gcursor\<close> show that the loops and sequences of both clients are
  instances. \<open>ended\<close> says how a run that has yielded \<open>ys\<close> ends on the reply \<open>t\<close>.
\<close>

fun drain ::
  "nat \<Rightarrow> error + http_request \<Rightarrow> (error + http_response \<Rightarrow> step) \<Rightarrow> yield \<Rightarrow> world \<Rightarrow> world option" where
  "drain 0 built cls yield w = None"
| "drain (Suc n) built cls yield w =
     (case built of
        Inl err \<Rightarrow> Some (w\<lparr>errp := Some err\<rparr>)
      | Inr r \<Rightarrow>
         (let w1 = w\<lparr>net := stl (net w), sent := sent w @ [r]\<rparr> in
          case cls (shd (net w)) of
            Fail err \<Rightarrow> Some (w1\<lparr>errp := Some err\<rparr>)
          | Eof \<Rightarrow> Some w1
          | Entry k v \<Rightarrow>
             (let w2 = w1\<lparr>yielded := yielded w1 @ [(k, v)]\<rparr> in
              if \<not> yield (yielded w2) then Some w2 else drain n built cls yield w2)))"

definition gcursor ::
  "error + http_request \<Rightarrow> (error + http_response \<Rightarrow> error option) \<Rightarrow> error + http_request \<Rightarrow>
   (error + http_response \<Rightarrow> step) \<Rightarrow> nat \<Rightarrow> yield \<Rightarrow> world \<Rightarrow> world option" where
  "gcursor built1 fails1 built2 cls fuel yield w =
     (let w0 = w\<lparr>uuids := stl (uuids w)\<rparr> in
      case built1 of
        Inl err \<Rightarrow> Some (w0\<lparr>errp := Some err\<rparr>)
      | Inr r1 \<Rightarrow>
         (let w1 = w0\<lparr>net := stl (net w), sent := sent w @ [r1]\<rparr> in
          case fails1 (shd (net w)) of
            Some err \<Rightarrow> Some (w1\<lparr>errp := Some err\<rparr>)
          | None \<Rightarrow> drain fuel built2 cls yield w1))"

definition ended :: "(error + http_response \<Rightarrow> step) \<Rightarrow> yield \<Rightarrow> error + http_response \<Rightarrow>
    (string \<times> reader) list \<Rightarrow> world \<Rightarrow> world \<Rightarrow> bool" where
  "ended cls yield t ys w w' =
     (case cls t of
        Fail err \<Rightarrow> errp w' = Some err \<and> yielded w' = ys
      | Eof \<Rightarrow> errp w' = errp w \<and> yielded w' = ys
      | Entry k v \<Rightarrow> errp w' = errp w \<and> yielded w' = ys @ [(k, v)] \<and> \<not> yield (ys @ [(k, v)]))"

section \<open>Test data\<close>

text \<open>
  A database handle, toy versions of the external functions and a world, for
  running the client on concrete inputs. The toy decoders know a few bodies,
  written without the quotes and the base64 of JSON, and read them as
  \<^verbatim>\<open>json.Unmarshal\<close> reads the JSON: \<open>{}\<close> is the response with every field empty,
  a field that a body does not name is empty (a nil slice, an empty string);
  any other body does not decode. The toy encoder names the request and the
  identifier it carries; the toy URL functions glue and keep the text.
\<close>

definition demo_db :: DB where
  "demo_db = \<lparr>dbURL = \<lparr>Scheme = ''http'', Opaque = [], User = None, Host = ''kv.test'',
                        Path = ''/db'', RawPath = [], OmitHost = False, ForceQuery = False,
                        RawQuery = [], Fragment = [], RawFragment = []\<rparr>,
              httpClient = http_DefaultClient, closecalls = []\<rparr>"

definition demo_encode :: "'k request \<Rightarrow> string" where
  "demo_encode req =
     (case req of
        NewTransactionRequest n \<Rightarrow> ''new-transaction '' @ n
      | NewSnapshotRequest n \<Rightarrow> ''new-snapshot '' @ n
      | GetRequest t s k \<Rightarrow> ''get '' @ t @ s
      | SetRequest t k v \<Rightarrow> ''set '' @ t @ '' '' @ string_of_bytes v
      | DeleteRequest t k \<Rightarrow> ''delete '' @ t
      | AscendRequest t s b e n \<Rightarrow> ''ascend '' @ n
      | DescendRequest t s b e n \<Rightarrow> ''descend '' @ n
      | ScanRequest t s n \<Rightarrow> ''scan '' @ n
      | NextRequest n \<Rightarrow> ''next '' @ n
      | CommitRequest t \<Rightarrow> ''commit '' @ t
      | RollbackRequest t \<Rightarrow> ''rollback '' @ t
      | DiscardRequest t \<Rightarrow> ''discard '' @ t)"

definition demo_parse :: "string \<Rightarrow> error + url" where
  "demo_parse s = Inr \<lparr>Scheme = [], Opaque = s, User = None, Host = [], Path = [], RawPath = [],
                       OmitHost = False, ForceQuery = False, RawQuery = [], Fragment = [],
                       RawFragment = []\<rparr>"

definition demo_Err :: "string \<Rightarrow> error + ErrResponse" where
  "demo_Err body =
     (if body = ''{}'' then Inr \<lparr>Error = []\<rparr>
      else if body = ''{Error:boom}'' then Inr \<lparr>Error = ''boom''\<rparr>
      else if body = ''{Error:no such transaction}'' then Inr \<lparr>Error = ''no such transaction''\<rparr>
      else Inl (errorString ''invalid character''))"

definition demo_Get :: "string \<Rightarrow> error + GetResponse" where
  "demo_Get body =
     (if body = ''{}'' then Inr \<lparr>Error = [], Value = None\<rparr>
      else if body = ''{Value:}'' then Inr \<lparr>Error = [], Value = Some []\<rparr>
      else if body = ''{Value:1}'' then Inr \<lparr>Error = [], Value = Some ''1''\<rparr>
      else if body = ''{Error:boom}'' then Inr \<lparr>Error = ''boom'', Value = None\<rparr>
      else Inl (errorString ''invalid character''))"

definition demo_Next :: "'k \<Rightarrow> (string \<Rightarrow> 'k) \<Rightarrow> string \<Rightarrow> error + 'k NextResponse" where
  "demo_Next nokey key body =
     (if body = ''{}'' then Inr \<lparr>Error = [], Value = None, Key = nokey\<rparr>
      else if body = ''{Key:a,Value:1}'' then Inr \<lparr>Error = [], Value = Some ''1'', Key = key ''a''\<rparr>
      else if body = ''{Key:b,Value:2}'' then Inr \<lparr>Error = [], Value = Some ''2'', Key = key ''b''\<rparr>
      else if body = ''{Error:boom}'' then Inr \<lparr>Error = ''boom'', Value = None, Key = nokey\<rparr>
      else Inl (errorString ''invalid character''))"

definition demo_ext :: ext1 where
  "demo_ext =
     \<lparr>string2error = errorString,
      json_Marshal = (\<lambda>req. Inr (Some (demo_encode req))),
      json_Unmarshal_Err = (\<lambda>b. demo_Err (string_of_bytes b)),
      json_Unmarshal_Get = (\<lambda>b. demo_Get (string_of_bytes b)),
      json_Unmarshal_Next = (\<lambda>b. demo_Next None Some (string_of_bytes b)),
      path_Join = (\<lambda>a b. a @ b),
      URL_String = (\<lambda>u. Scheme u @ ''://'' @ Host u @ Path u),
      url_Parse = demo_parse\<rparr>"

definition demo_ext2 :: ext2 where
  "demo_ext2 =
     \<lparr>string2error = errorString,
      json_Marshal = (\<lambda>req. Inr (Some (demo_encode req))),
      json_Unmarshal_Err = (\<lambda>r. demo_Err (content r)),
      json_Unmarshal_Get = (\<lambda>r. demo_Get (content r)),
      json_Unmarshal_Next = (\<lambda>r. demo_Next [] (\<lambda>k. k) (content r)),
      path_Join = (\<lambda>a b. a @ b),
      URL_String = (\<lambda>u. Scheme u @ ''://'' @ Host u @ Path u),
      url_Parse = demo_parse\<rparr>"

definition demo_request :: "string \<Rightarrow> string \<Rightarrow> http_request" where
  "demo_request subpath body =
     \<lparr>Method = ''POST'',
      URL = \<lparr>Scheme = [], Opaque = ''http://kv.test/db'' @ subpath, User = None, Host = [],
             Path = [], RawPath = [], OmitHost = False, ForceQuery = False, RawQuery = [],
             Fragment = [], RawFragment = []\<rparr>,
      Header = [(''Content-Type'', ''application/json'')], Body = Some body\<rparr>"

definition reply :: "int \<Rightarrow> string \<Rightarrow> error + http_response" where
  "reply code body = Inr \<lparr>StatusCode = code, ResponseBody = Reader body None\<rparr>"

definition demo_ids :: "string stream" where
  "demo_ids = smap (\<lambda>n. replicate (Suc n) CHR ''u'') (fromN 0)"

definition demo_world :: "(error + http_response) list \<Rightarrow> world" where
  "demo_world outs =
     \<lparr>net = outs @- sconst (Inl (errorString ''connection refused'')), sent = [],
      uuids = demo_ids, errp = None, yielded = []\<rparr>"

abbreviation reply_ok :: "error + http_response" where
  "reply_ok \<equiv> reply 200 ''{}''"

abbreviation reply_a :: "error + http_response" where
  "reply_a \<equiv> reply 200 ''{Key:a,Value:1}''"

abbreviation reply_b :: "error + http_response" where
  "reply_b \<equiv> reply 200 ''{Key:b,Value:2}''"

abbreviation reply_boom :: "error + http_response" where
  "reply_boom \<equiv> reply 200 ''{Error:boom}''"

definition demo_replies :: "(error + http_response) list" where
  "demo_replies = [reply_ok, reply_a, reply_b, reply_ok]"

abbreviation entry_a :: "string \<times> reader" where
  "entry_a \<equiv> (''a'', Reader ''1'' None)"

abbreviation entry_b :: "string \<times> reader" where
  "entry_b \<equiv> (''b'', Reader ''2'' None)"

abbreviation refused :: "(error + http_response) stream" where
  "refused \<equiv> sconst (Inl (errorString ''connection refused''))"

abbreviation open_ascend :: http_request where
  "open_ascend \<equiv> demo_request ''/tx/ascend'' ''ascend u''"

abbreviation open_scan :: http_request where
  "open_scan \<equiv> demo_request ''/snap/scan'' ''scan u''"

abbreviation next_u :: http_request where
  "next_u \<equiv> demo_request ''/it/next'' ''next u''"

text \<open>A world whose server opens the cursor and then never runs out of entries.\<close>

abbreviation demo_endless :: world where
  "demo_endless \<equiv> (demo_world [])\<lparr>net := reply_ok ## sconst reply_a\<rparr>"

section \<open>The round trip and the loop\<close>

lemma doPost_eq:
  "doPost unmarshal ext db subpath req w =
     round_trip (doPost_request ext db subpath req) (doPost_result unmarshal) w"
  by (simp add: doPost_def round_trip_def doPost_request_def doPost_result_def
      http_NewRequestWithContext_def httpClient_Do_def io_ReadAll_def Let_def
      split: sum.splits option.splits prod.splits)

lemma doPost_v2_eq:
  "doPost_v2 decode ext db subpath req w =
     round_trip (doPost_request ext db subpath req) (doPost_result_v2 decode) w"
  by (simp add: doPost_v2_def round_trip_def doPost_request_def doPost_result_v2_def
      http_NewRequestWithContext_def httpClient_Do_def Let_def
      split: sum.splits option.splits prod.splits)

lemma next_loop_drain:
  "next_loop n ext db name yield w =
     drain n (doPost_request ext db ''/it/next'' (NextRequest name)) (next_reply ext) yield w"
proof (induction n arbitrary: w)
  case 0
  show ?case by simp
next
  case (Suc n)
  show ?case
    by (simp add: doPost_eq round_trip_def next_reply_def next_step_def Suc.IH Let_def
        split: sum.splits)
qed

lemma next_loop_v2_drain:
  "next_loop_v2 n ext db name yield w =
     drain n (doPost_request ext db ''/it/next'' (NextRequest name)) (next_reply_v2 ext) yield w"
proof (induction n arbitrary: w)
  case 0
  show ?case by simp
next
  case (Suc n)
  show ?case
    by (simp add: doPost_v2_eq round_trip_def next_reply_v2_def next_step_v2_def Suc.IH Let_def
        split: sum.splits)
qed

lemma drain_entries:
  assumes "list_all2 (\<lambda>out e. cls out = Entry (fst e) (snd e)) os es"
    and "net w = os @- s"
    and "accepts yield (yielded w) es"
  shows "drain (length es + m) (Inr r) cls yield w =
         drain m (Inr r) cls yield
           (w\<lparr>net := s, sent := sent w @ replicate (length es) r, yielded := yielded w @ es\<rparr>)"
  using assms
proof (induction os es arbitrary: w rule: list_all2_induct)
  case Nil
  then show ?case by (cases w) simp
next
  case (Cons out os e es)
  let ?w2 = "w\<lparr>net := stl (net w), sent := sent w @ [r], yielded := yielded w @ [e]\<rparr>"
  have hd: "shd (net w) = out" and tl: "net ?w2 = os @- s"
    using Cons.prems(1) by simp_all
  have acc: "yield (yielded w @ [e])" and rest: "accepts yield (yielded ?w2) es"
    using Cons.prems(2) by simp_all
  have "drain (length (e # es) + m) (Inr r) cls yield w =
        drain (length es + m) (Inr r) cls yield ?w2"
    using Cons.hyps(1) hd acc by (simp add: Let_def)
  also have "\<dots> = drain m (Inr r) cls yield
      (?w2\<lparr>net := s, sent := sent ?w2 @ replicate (length es) r, yielded := yielded ?w2 @ es\<rparr>)"
    by (rule Cons.IH [OF tl rest])
  finally show ?case by (simp add: replicate_app_Cons_same)
qed

lemma drain_Some:
  "drain n (Inr r) cls yield w = Some w' \<Longrightarrow>
     \<exists>os t es. list_all2 (\<lambda>out e. cls out = Entry (fst e) (snd e)) os es \<and>
       net w = os @- (t ## net w') \<and> length os < n \<and>
       sent w' = sent w @ replicate (Suc (length os)) r \<and> uuids w' = uuids w \<and>
       accepts yield (yielded w) es \<and>
       ended cls yield t (yielded w @ es) w w'"
proof (induction n arbitrary: w)
  case 0
  then show ?case by simp
next
  case (Suc n)
  let ?t = "shd (net w)"
  let ?w1 = "w\<lparr>net := stl (net w), sent := sent w @ [r]\<rparr>"
  show ?case
  proof (cases "cls ?t")
    case (Fail err)
    with Suc.prems have w': "w' = ?w1\<lparr>errp := Some err\<rparr>" by (simp add: Let_def)
    show ?thesis
      by (rule exI [of _ "[]"], rule exI [of _ ?t], rule exI [of _ "[]"])
         (simp add: w' ended_def Fail)
  next
    case Eof
    with Suc.prems have w': "w' = ?w1" by (simp add: Let_def)
    show ?thesis
      by (rule exI [of _ "[]"], rule exI [of _ ?t], rule exI [of _ "[]"])
         (simp add: w' ended_def Eof)
  next
    case (Entry k v)
    let ?w2 = "?w1\<lparr>yielded := yielded w @ [(k, v)]\<rparr>"
    show ?thesis
    proof (cases "yield (yielded w @ [(k, v)])")
      case False
      with Entry Suc.prems have w': "w' = ?w2" by (simp add: Let_def)
      show ?thesis
        by (rule exI [of _ "[]"], rule exI [of _ ?t], rule exI [of _ "[]"])
           (simp add: w' ended_def Entry False)
    next
      case True
      with Entry Suc.prems have "drain n (Inr r) cls yield ?w2 = Some w'" by (simp add: Let_def)
      from Suc.IH [OF this] obtain os t es where
        1: "list_all2 (\<lambda>out e. cls out = Entry (fst e) (snd e)) os es"
        and 2: "net ?w2 = os @- (t ## net w')" and 3: "length os < n"
        and 4: "sent w' = sent ?w2 @ replicate (Suc (length os)) r" and 5: "uuids w' = uuids ?w2"
        and 6: "accepts yield (yielded ?w2) es"
        and 7: "ended cls yield t (yielded ?w2 @ es) ?w2 w'"
        by (elim exE conjE)
      have a: "list_all2 (\<lambda>out e. cls out = Entry (fst e) (snd e)) (?t # os) ((k, v) # es)"
        using 1 Entry by simp
      have "stl (net w) = os @- (t ## net w')"
        using 2 by simp
      then have b: "net w = (?t # os) @- (t ## net w')"
        using stream.collapse [of "net w"] by simp
      have c: "length (?t # os) < Suc n" using 3 by simp
      have d: "sent w' = sent w @ replicate (Suc (length (?t # os))) r"
        using 4 by (simp add: replicate_app_Cons_same)
      have e: "uuids w' = uuids w" using 5 by simp
      have f: "accepts yield (yielded w) ((k, v) # es)"
        using True 6 by simp
      have g: "ended cls yield t (yielded w @ (k, v) # es) w w'"
        using 7 by (simp add: ended_def split: step.splits)
      show ?thesis
        by (rule exI [of _ "?t # os"], rule exI [of _ t], rule exI [of _ "(k, v) # es"])
           (use a b c d e f g in blast)
    qed
  qed
qed

lemma cursor_seq1_gcursor:
  "cursor_seq1 c ext db sid b e fuel yield w =
     gcursor (open_sent1 c ext db sid b e (shd (uuids w))) (open_reply ext)
       (next_sent ext db (shd (uuids w))) (next_reply ext) fuel yield w"
  by (cases c)
     (simp_all add: cursor_seq1_def open_sent1_def open_call1_def gcursor_def Tx_Ascend_def Tx_Descend_def
        Snap_Ascend_def Snap_Descend_def uuid_New_String_def doPost_eq round_trip_def
        next_loop_drain next_sent_def open_reply_def reported_def
        bytes_of_string_def Let_def split: sum.splits)

lemma cursor_seq2_gcursor:
  "cursor_seq2 c ext db sid b e fuel yield w =
     gcursor (open_sent2 c ext db sid b e (shd (uuids w))) (open_reply_v2 ext)
       (next_sent ext db (shd (uuids w))) (next_reply_v2 ext) fuel yield w"
  by (cases c)
     (simp_all add: cursor_seq2_def open_sent2_def open_call2_def gcursor_def Tx_Ascend_v2_def Tx_Descend_v2_def
        Snap_Ascend_v2_def Snap_Descend_v2_def Tx_Scan_v2_def Snap_Scan_v2_def
        uuid_New_String_def doPost_v2_eq round_trip_def
        next_loop_v2_drain next_sent_def open_reply_v2_def reported_def
        Let_def split: sum.splits)

lemma gcursor_open_unbuilt:
  "built1 = Inl err \<Longrightarrow>
   gcursor built1 fails1 built2 cls fuel yield w = Some (w\<lparr>uuids := stl (uuids w), errp := Some err\<rparr>)"
  by (simp add: gcursor_def)

lemma gcursor_open_failed:
  "built1 = Inr r1 \<Longrightarrow> fails1 (shd (net w)) = Some err \<Longrightarrow>
   gcursor built1 fails1 built2 cls fuel yield w =
     Some (w\<lparr>uuids := stl (uuids w), net := stl (net w), sent := sent w @ [r1], errp := Some err\<rparr>)"
  by (simp add: gcursor_def)

lemma gcursor_next_unbuilt:
  "built1 = Inr r1 \<Longrightarrow> fails1 (shd (net w)) = None \<Longrightarrow> built2 = Inl err \<Longrightarrow> 0 < fuel \<Longrightarrow>
   gcursor built1 fails1 built2 cls fuel yield w =
     Some (w\<lparr>uuids := stl (uuids w), net := stl (net w), sent := sent w @ [r1], errp := Some err\<rparr>)"
  by (cases fuel) (simp_all add: gcursor_def)

lemma gcursor_entries:
  assumes "built1 = Inr r1" and "built2 = Inr r2"
    and "net w = o1 ## (os @- (t ## rest))" and "fails1 o1 = None"
    and "list_all2 (\<lambda>out e. cls out = Entry (fst e) (snd e)) os es"
    and "accepts yield (yielded w) es"
  shows "gcursor built1 fails1 built2 cls (length es + Suc m) yield w =
         drain (Suc m) (Inr r2) cls yield
           (w\<lparr>uuids := stl (uuids w), net := t ## rest,
              sent := sent w @ r1 # replicate (length es) r2, yielded := yielded w @ es\<rparr>)"
proof -
  let ?w1 = "w\<lparr>uuids := stl (uuids w), net := stl (net w), sent := sent w @ [r1]\<rparr>"
  have "gcursor built1 fails1 built2 cls (length es + Suc m) yield w =
        drain (length es + Suc m) (Inr r2) cls yield ?w1"
    using assms(1-4) by (simp add: gcursor_def)
  also have "\<dots> = drain (Suc m) (Inr r2) cls yield
      (?w1\<lparr>net := t ## rest, sent := sent ?w1 @ replicate (length es) r2,
            yielded := yielded ?w1 @ es\<rparr>)"
    by (rule drain_entries [OF assms(5)]) (use assms(3,6) in simp_all)
  finally show ?thesis by simp
qed

lemma gcursor_prefix:
  assumes "built1 = Inr r1" and "built2 = Inr r2"
    and "net w = o1 ## (os @- s)" and "fails1 o1 = None"
    and "list_all2 (\<lambda>out e. cls out = Entry (fst e) (snd e)) os es"
    and "accepts yield (yielded w) es"
  shows "gcursor built1 fails1 built2 cls (length es + m) yield w =
         drain m built2 cls yield
           (w\<lparr>uuids := stl (uuids w), net := s,
              sent := sent w @ r1 # replicate (length es) r2, yielded := yielded w @ es\<rparr>)"
proof -
  let ?w1 = "w\<lparr>uuids := stl (uuids w), net := stl (net w), sent := sent w @ [r1]\<rparr>"
  have "gcursor built1 fails1 built2 cls (length es + m) yield w =
        drain (length es + m) (Inr r2) cls yield ?w1"
    using assms(1-4) by (simp add: gcursor_def)
  also have "\<dots> = drain m (Inr r2) cls yield
      (?w1\<lparr>net := s, sent := sent ?w1 @ replicate (length es) r2,
            yielded := yielded ?w1 @ es\<rparr>)"
    by (rule drain_entries [OF assms(5)]) (use assms(3,6) in simp_all)
  finally show ?thesis using assms(2) by simp
qed

lemma gcursor_eof:
  assumes "built1 = Inr r1" and "built2 = Inr r2"
    and "net w = o1 ## (os @- (t ## rest))" and "fails1 o1 = None"
    and "list_all2 (\<lambda>out e. cls out = Entry (fst e) (snd e)) os es"
    and "accepts yield (yielded w) es"
    and "cls t = Eof" and "length es < fuel"
  shows "gcursor built1 fails1 built2 cls fuel yield w =
         Some (w\<lparr>uuids := stl (uuids w), net := rest,
                 sent := sent w @ r1 # replicate (Suc (length es)) r2, yielded := yielded w @ es\<rparr>)"
proof -
  have fuel: "fuel = length es + Suc (fuel - Suc (length es))"
    using assms(8) by simp
  show ?thesis
    by (subst fuel, subst gcursor_entries [where ?fails1.0 = fails1 and ?o1.0 = o1 and cls = cls, OF assms(1-6)])
       (use assms(7) in \<open>simp add: replicate_append_same\<close>)
qed

lemma gcursor_fail:
  assumes "built1 = Inr r1" and "built2 = Inr r2"
    and "net w = o1 ## (os @- (t ## rest))" and "fails1 o1 = None"
    and "list_all2 (\<lambda>out e. cls out = Entry (fst e) (snd e)) os es"
    and "accepts yield (yielded w) es"
    and "cls t = Fail err" and "length es < fuel"
  shows "gcursor built1 fails1 built2 cls fuel yield w =
         Some (w\<lparr>uuids := stl (uuids w), net := rest,
                 sent := sent w @ r1 # replicate (Suc (length es)) r2, yielded := yielded w @ es,
                 errp := Some err\<rparr>)"
proof -
  have fuel: "fuel = length es + Suc (fuel - Suc (length es))"
    using assms(8) by simp
  show ?thesis
    by (subst fuel, subst gcursor_entries [where ?fails1.0 = fails1 and ?o1.0 = o1 and cls = cls, OF assms(1-6)])
       (use assms(7) in \<open>simp add: replicate_append_same\<close>)
qed

lemma gcursor_stop:
  assumes "built1 = Inr r1" and "built2 = Inr r2"
    and "net w = o1 ## (os @- (t ## rest))" and "fails1 o1 = None"
    and "list_all2 (\<lambda>out e. cls out = Entry (fst e) (snd e)) os es"
    and "accepts yield (yielded w) es"
    and "cls t = Entry k v" and "\<not> yield (yielded w @ es @ [(k, v)])" and "length es < fuel"
  shows "gcursor built1 fails1 built2 cls fuel yield w =
         Some (w\<lparr>uuids := stl (uuids w), net := rest,
                 sent := sent w @ r1 # replicate (Suc (length es)) r2,
                 yielded := yielded w @ es @ [(k, v)]\<rparr>)"
proof -
  have fuel: "fuel = length es + Suc (fuel - Suc (length es))"
    using assms(9) by simp
  show ?thesis
    by (subst fuel, subst gcursor_entries [where ?fails1.0 = fails1 and ?o1.0 = o1 and cls = cls, OF assms(1-6)])
       (use assms(7,8) in \<open>simp add: replicate_append_same\<close>)
qed

lemma gcursor_Some:
  assumes "gcursor built1 fails1 built2 cls fuel yield w = Some w'"
    and "built1 = Inr r1" and "fails1 (shd (net w)) = None" and "built2 = Inr r2"
  shows "\<exists>os t es. list_all2 (\<lambda>out e. cls out = Entry (fst e) (snd e)) os es \<and>
       stl (net w) = os @- (t ## net w') \<and> length os < fuel \<and>
       sent w' = sent w @ r1 # replicate (Suc (length os)) r2 \<and> uuids w' = stl (uuids w) \<and>
       accepts yield (yielded w) es \<and>
       ended cls yield t (yielded w @ es) w w'"
proof -
  let ?w1 = "w\<lparr>uuids := stl (uuids w), net := stl (net w), sent := sent w @ [r1]\<rparr>"
  have "drain fuel (Inr r2) cls yield ?w1 = Some w'"
    using assms by (simp add: gcursor_def)
  from drain_Some [OF this] obtain os t es where
    "list_all2 (\<lambda>out e. cls out = Entry (fst e) (snd e)) os es"
    "net ?w1 = os @- (t ## net w')" "length os < fuel"
    "sent w' = sent ?w1 @ replicate (Suc (length os)) r2" "uuids w' = uuids ?w1"
    "accepts yield (yielded ?w1) es" "ended cls yield t (yielded ?w1 @ es) ?w1 w'"
    by (elim exE conjE)
  then show ?thesis
    by (intro exI [of _ os] exI [of _ t] exI [of _ es]) (simp add: ended_def split: step.splits)
qed

lemma drain_sent:
  "drain n built cls yield w = Some w' \<Longrightarrow>
     uuids w' = uuids w \<and>
     (sent w' = sent w \<or> (\<exists>r m. built = Inr r \<and> sent w' = sent w @ replicate (Suc m) r))"
proof (cases built)
  case (Inl err)
  assume "drain n built cls yield w = Some w'"
  with Inl show ?thesis by (cases n) auto
next
  case (Inr r)
  assume "drain n built cls yield w = Some w'"
  from drain_Some [OF this [unfolded Inr]] Inr show ?thesis by blast
qed

lemma gcursor_sent:
  assumes "gcursor built1 fails1 built2 cls fuel yield w = Some w'"
  shows "uuids w' = stl (uuids w) \<and>
     (sent w' = sent w \<or>
      (\<exists>r1. built1 = Inr r1 \<and>
         (sent w' = sent w @ [r1] \<or>
          (\<exists>r2 m. built2 = Inr r2 \<and> sent w' = sent w @ r1 # replicate (Suc m) r2))))"
proof (cases built1)
  case (Inl err)
  with assms show ?thesis by (auto simp: gcursor_def)
next
  case (Inr r1)
  show ?thesis
  proof (cases "fails1 (shd (net w))")
    case (Some err)
    with assms Inr show ?thesis by (auto simp: gcursor_def)
  next
    case None
    let ?w1 = "w\<lparr>uuids := stl (uuids w), net := stl (net w), sent := sent w @ [r1]\<rparr>"
    have "drain fuel built2 cls yield ?w1 = Some w'"
      using assms Inr None by (simp add: gcursor_def)
    from drain_sent [OF this] show ?thesis using Inr by auto
  qed
qed

section \<open>The decimal form of a status code\<close>

lemma digit_char_inj: "n < 10 \<Longrightarrow> m < 10 \<Longrightarrow> digit_char n = digit_char m \<Longrightarrow> n = m"
proof -
  assume "n < 10" "m < 10" "digit_char n = digit_char m"
  moreover have "distinct ''0123456789''" by simp
  ultimately show ?thesis
    by (simp add: digit_char_def nth_eq_iff_index_eq)
qed

lemma digit_char_not_minus: "n < 10 \<Longrightarrow> digit_char n \<noteq> CHR ''-''"
proof -
  assume "n < 10"
  then have "digit_char n \<in> set ''0123456789''"
    unfolding digit_char_def by (intro nth_mem) simp
  then show ?thesis by auto
qed

lemma digits_not_Nil: "digits n \<noteq> []"
  by (subst digits.simps) simp

lemma Nil_not_digits: "[] \<noteq> digits n"
  using digits_not_Nil [of n] by simp

lemma hd_digits_not_minus: "hd (digits n) \<noteq> CHR ''-''"
proof (induction n rule: digits.induct)
  case (1 n)
  show ?case
  proof (cases "n < 10")
    case True
    then show ?thesis by (subst digits.simps) (simp add: digit_char_not_minus)
  next
    case False
    then show ?thesis
      using 1 by (subst digits.simps) (simp add: digits_not_Nil)
  qed
qed

lemma digits_inj: "digits n = digits m \<Longrightarrow> n = m"
proof (induction n arbitrary: m rule: digits.induct)
  case (1 n)
  show ?case
  proof (cases "n < 10")
    case n: True
    show ?thesis
    proof (cases "m < 10")
      case True
      with n "1.prems" show ?thesis
        by (simp add: digits.simps [of n] digits.simps [of m] digit_char_inj)
    next
      case False
      with n "1.prems" show ?thesis
        by (simp add: digits.simps [of n] digits.simps [of m] digits_not_Nil Nil_not_digits)
    qed
  next
    case n: False
    show ?thesis
    proof (cases "m < 10")
      case True
      with n "1.prems" show ?thesis
        by (simp add: digits.simps [of n] digits.simps [of m] digits_not_Nil Nil_not_digits)
    next
      case False
      with n "1.prems" have "digits (n div 10) = digits (m div 10)"
        and "digit_char (n mod 10) = digit_char (m mod 10)"
        by (simp_all add: digits.simps [of n] digits.simps [of m])
      then have "n div 10 = m div 10" and "n mod 10 = m mod 10"
        using "1.IH" [OF n] by (simp_all add: digit_char_inj)
      then show ?thesis by (metis div_mult_mod_eq)
    qed
  qed
qed

lemma fmt_d_inj: "fmt_d i = fmt_d j \<Longrightarrow> i = j"
proof -
  assume eq: "fmt_d i = fmt_d j"
  have neg: "CHR ''-'' # digits a \<noteq> digits b" for a b
    using hd_digits_not_minus [of b] digits_not_Nil [of b] by (cases "digits b") auto
  show ?thesis
  proof (cases "i < 0")
    case i: True
    show ?thesis
    proof (cases "j < 0")
      case True
      with i eq have "nat (- i) = nat (- j)" by (simp add: fmt_d_def digits_inj)
      with i True show ?thesis by simp
    next
      case False
      with i eq neg show ?thesis by (simp add: fmt_d_def)
    qed
  next
    case i: False
    show ?thesis
    proof (cases "j < 0")
      case True
      with i eq neg [of "nat (- j)" "nat i"] show ?thesis by (simp add: fmt_d_def)
    next
      case False
      with i eq have "nat i = nat j" by (simp add: fmt_d_def digits_inj)
      with i False show ?thesis by simp
    qed
  qed
qed

section \<open>Requests, errors and cursor sequences of both clients\<close>

lemma doPost_request_Body:
  "doPost_request ext db subpath req = Inr r \<Longrightarrow> json_Marshal ext req = Inr (Body r)"
  by (auto simp: doPost_request_def split: sum.splits)

lemma round_trip_sent:
  "round_trip built res w = (x, w1) \<Longrightarrow>
     uuids w1 = uuids w \<and> errp w1 = errp w \<and> yielded w1 = yielded w \<and>
     (case built of Inl err \<Rightarrow> sent w1 = sent w \<and> net w1 = net w
      | Inr r \<Rightarrow> sent w1 = sent w @ [r] \<and> net w1 = stl (net w))"
  by (auto simp: round_trip_def split: sum.splits)

lemma reported_simps [simp]:
  "reported s2e (Inl err) = Some err"
  "reported s2e (Inr resp) = (if Error resp = [] then None else Some (s2e (Error resp)))"
  by (simp_all add: reported_def)

lemma next_reply_Fail:
  "(next_reply ext out = Fail err) =
     (reported (string2error ext) (doPost_result (json_Unmarshal_Next ext) out) = Some err)"
  by (auto simp: next_reply_def next_step_def reported_def split: sum.splits if_splits)

lemma next_reply_v2_Fail:
  "(next_reply_v2 ext out = Fail err) =
     (reported (string2error ext) (doPost_result_v2 (json_Unmarshal_Next ext) out) = Some err)"
  by (auto simp: next_reply_v2_def next_step_v2_def reported_def split: sum.splits if_splits)

lemma fresh_ids_stl: "fresh_ids s \<Longrightarrow> stl s !! n \<noteq> shd s"
proof
  assume "fresh_ids s" and "stl s !! n = shd s"
  then have "s !! Suc n = s !! 0" by simp
  with \<open>fresh_ids s\<close> have "Suc n = 0" unfolding fresh_ids_def by blast
  then show False by simp
qed

lemma cursor_open_fails:
  assumes "round_trip built rs (w\<lparr>uuids := stl (uuids w)\<rparr>) = (res, w1)"
    and "reported s2e res = Some err"
  shows "gcursor built (\<lambda>out. reported s2e (rs out)) built2 cls fuel yield w = Some (w1\<lparr>errp := Some err\<rparr>) \<and>
    yielded w1 = yielded w \<and> (sent w1 = sent w \<or> (\<exists>r1. built = Inr r1 \<and> sent w1 = sent w @ [r1]))"
  using assms by (cases built) (auto simp: gcursor_def round_trip_def)

lemma cursor_seq1_eof:
  assumes "open_sent1 c ext db sid b e (shd (uuids w)) = Inr r1"
    and "next_sent ext db (shd (uuids w)) = Inr r2"
    and "net w = o1 ## (os @- (t ## rest))" and "open_reply ext o1 = None"
    and "list_all2 (\<lambda>out en. next_reply ext out = Entry (fst en) (snd en)) os es"
    and "accepts yield (yielded w) es"
    and "next_reply ext t = Eof" and "length es < fuel"
  shows "cursor_seq1 c ext db sid b e fuel yield w =
      Some (w\<lparr>uuids := stl (uuids w), net := rest,
              sent := sent w @ r1 # replicate (Suc (length es)) r2, yielded := yielded w @ es\<rparr>)"
  unfolding cursor_seq1_gcursor by (rule gcursor_eof [where ?fails1.0 = "open_reply ext" and ?o1.0 = o1 and cls = "next_reply ext"]) fact+

lemma cursor_seq1_fail:
  assumes "open_sent1 c ext db sid b e (shd (uuids w)) = Inr r1"
    and "next_sent ext db (shd (uuids w)) = Inr r2"
    and "net w = o1 ## (os @- (t ## rest))" and "open_reply ext o1 = None"
    and "list_all2 (\<lambda>out en. next_reply ext out = Entry (fst en) (snd en)) os es"
    and "accepts yield (yielded w) es"
    and "next_reply ext t = Fail err" and "length es < fuel"
  shows "cursor_seq1 c ext db sid b e fuel yield w =
      Some (w\<lparr>uuids := stl (uuids w), net := rest,
              sent := sent w @ r1 # replicate (Suc (length es)) r2, yielded := yielded w @ es,
              errp := Some err\<rparr>)"
  unfolding cursor_seq1_gcursor by (rule gcursor_fail [where ?fails1.0 = "open_reply ext" and ?o1.0 = o1 and cls = "next_reply ext"]) fact+

lemma cursor_seq1_stop:
  assumes "open_sent1 c ext db sid b e (shd (uuids w)) = Inr r1"
    and "next_sent ext db (shd (uuids w)) = Inr r2"
    and "net w = o1 ## (os @- (t ## rest))" and "open_reply ext o1 = None"
    and "list_all2 (\<lambda>out en. next_reply ext out = Entry (fst en) (snd en)) os es"
    and "accepts yield (yielded w) es"
    and "next_reply ext t = Entry k v" and "\<not> yield (yielded w @ es @ [(k, v)])"
    and "length es < fuel"
  shows "cursor_seq1 c ext db sid b e fuel yield w =
      Some (w\<lparr>uuids := stl (uuids w), net := rest,
              sent := sent w @ r1 # replicate (Suc (length es)) r2,
              yielded := yielded w @ es @ [(k, v)]\<rparr>)"
  unfolding cursor_seq1_gcursor by (rule gcursor_stop [where ?fails1.0 = "open_reply ext" and ?o1.0 = o1 and cls = "next_reply ext"]) fact+


lemma cursor_seq1_open_fails:
  assumes "doPost (json_Unmarshal_Err ext) ext db (fst (open_call1 c sid b e (shd (uuids w))))
        (snd (open_call1 c sid b e (shd (uuids w)))) (w\<lparr>uuids := stl (uuids w)\<rparr>) = (res, w1)"
    and "reported (string2error ext) res = Some err"
  shows "cursor_seq1 c ext db sid b e fuel yield w = Some (w1\<lparr>errp := Some err\<rparr>) \<and>
    yielded w1 = yielded w \<and>
    (sent w1 = sent w \<or> (\<exists>r1. open_sent1 c ext db sid b e (shd (uuids w)) = Inr r1 \<and> sent w1 = sent w @ [r1]))"
  using cursor_open_fails [OF assms(1) [unfolded doPost_eq] assms(2), of "next_sent ext db (shd (uuids w))"
      "next_reply ext" fuel yield]
  by (simp add: cursor_seq1_gcursor open_sent1_def open_reply_def [abs_def])

lemma cursor_seq1_next_unbuilt:
  assumes "open_sent1 c ext db sid b e (shd (uuids w)) = Inr r1"
    and "next_sent ext db (shd (uuids w)) = Inl err" and "open_reply ext (shd (net w)) = None"
    and "0 < fuel"
  shows "cursor_seq1 c ext db sid b e fuel yield w =
      Some (w\<lparr>uuids := stl (uuids w), net := stl (net w), sent := sent w @ [r1], errp := Some err\<rparr>)"
  unfolding cursor_seq1_gcursor by (rule gcursor_next_unbuilt) fact+

lemma cursor_seq2_eof:
  assumes "open_sent2 c ext db sid b e (shd (uuids w)) = Inr r1"
    and "next_sent ext db (shd (uuids w)) = Inr r2"
    and "net w = o1 ## (os @- (t ## rest))" and "open_reply_v2 ext o1 = None"
    and "list_all2 (\<lambda>out en. next_reply_v2 ext out = Entry (fst en) (snd en)) os es"
    and "accepts yield (yielded w) es"
    and "next_reply_v2 ext t = Eof" and "length es < fuel"
  shows "cursor_seq2 c ext db sid b e fuel yield w =
      Some (w\<lparr>uuids := stl (uuids w), net := rest,
              sent := sent w @ r1 # replicate (Suc (length es)) r2, yielded := yielded w @ es\<rparr>)"
  unfolding cursor_seq2_gcursor by (rule gcursor_eof [where ?fails1.0 = "open_reply_v2 ext" and ?o1.0 = o1 and cls = "next_reply_v2 ext"]) fact+

lemma cursor_seq2_fail:
  assumes "open_sent2 c ext db sid b e (shd (uuids w)) = Inr r1"
    and "next_sent ext db (shd (uuids w)) = Inr r2"
    and "net w = o1 ## (os @- (t ## rest))" and "open_reply_v2 ext o1 = None"
    and "list_all2 (\<lambda>out en. next_reply_v2 ext out = Entry (fst en) (snd en)) os es"
    and "accepts yield (yielded w) es"
    and "next_reply_v2 ext t = Fail err" and "length es < fuel"
  shows "cursor_seq2 c ext db sid b e fuel yield w =
      Some (w\<lparr>uuids := stl (uuids w), net := rest,
              sent := sent w @ r1 # replicate (Suc (length es)) r2, yielded := yielded w @ es,
              errp := Some err\<rparr>)"
  unfolding cursor_seq2_gcursor by (rule gcursor_fail [where ?fails1.0 = "open_reply_v2 ext" and ?o1.0 = o1 and cls = "next_reply_v2 ext"]) fact+

lemma cursor_seq2_stop:
  assumes "open_sent2 c ext db sid b e (shd (uuids w)) = Inr r1"
    and "next_sent ext db (shd (uuids w)) = Inr r2"
    and "net w = o1 ## (os @- (t ## rest))" and "open_reply_v2 ext o1 = None"
    and "list_all2 (\<lambda>out en. next_reply_v2 ext out = Entry (fst en) (snd en)) os es"
    and "accepts yield (yielded w) es"
    and "next_reply_v2 ext t = Entry k v" and "\<not> yield (yielded w @ es @ [(k, v)])"
    and "length es < fuel"
  shows "cursor_seq2 c ext db sid b e fuel yield w =
      Some (w\<lparr>uuids := stl (uuids w), net := rest,
              sent := sent w @ r1 # replicate (Suc (length es)) r2,
              yielded := yielded w @ es @ [(k, v)]\<rparr>)"
  unfolding cursor_seq2_gcursor by (rule gcursor_stop [where ?fails1.0 = "open_reply_v2 ext" and ?o1.0 = o1 and cls = "next_reply_v2 ext"]) fact+


lemma cursor_seq2_open_fails:
  assumes "doPost_v2 (json_Unmarshal_Err ext) ext db (fst (open_call2 c sid b e (shd (uuids w))))
        (snd (open_call2 c sid b e (shd (uuids w)))) (w\<lparr>uuids := stl (uuids w)\<rparr>) = (res, w1)"
    and "reported (string2error ext) res = Some err"
  shows "cursor_seq2 c ext db sid b e fuel yield w = Some (w1\<lparr>errp := Some err\<rparr>) \<and>
    yielded w1 = yielded w \<and>
    (sent w1 = sent w \<or> (\<exists>r1. open_sent2 c ext db sid b e (shd (uuids w)) = Inr r1 \<and> sent w1 = sent w @ [r1]))"
  using cursor_open_fails [OF assms(1) [unfolded doPost_v2_eq] assms(2), of "next_sent ext db (shd (uuids w))"
      "next_reply_v2 ext" fuel yield]
  by (simp add: cursor_seq2_gcursor open_sent2_def open_reply_v2_def [abs_def])

lemma cursor_seq2_next_unbuilt:
  assumes "open_sent2 c ext db sid b e (shd (uuids w)) = Inr r1"
    and "next_sent ext db (shd (uuids w)) = Inl err" and "open_reply_v2 ext (shd (net w)) = None"
    and "0 < fuel"
  shows "cursor_seq2 c ext db sid b e fuel yield w =
      Some (w\<lparr>uuids := stl (uuids w), net := stl (net w), sent := sent w @ [r1], errp := Some err\<rparr>)"
  unfolding cursor_seq2_gcursor by (rule gcursor_next_unbuilt) fact+

lemma open_call1_Name:
  "\<exists>t s lo hi. snd (open_call1 c sid b e name) = AscendRequest t s lo hi name \<or>
     snd (open_call1 c sid b e name) = DescendRequest t s lo hi name"
  by (cases c) (simp_all add: open_call1_def)

lemma open_call2_Name:
  "\<exists>t s lo hi. snd (open_call2 c sid b e name) = AscendRequest t s lo hi name \<or>
     snd (open_call2 c sid b e name) = DescendRequest t s lo hi name \<or>
     snd (open_call2 c sid b e name) = ScanRequest t s name"
  by (cases c) (simp_all add: open_call2_def)

lemma open_sent1_Body:
  "open_sent1 c ext db sid b e name = Inr r1 \<Longrightarrow>
   json_Marshal ext (snd (open_call1 c sid b e name)) = Inr (Body r1)"
  unfolding open_sent1_def by (rule doPost_request_Body)

lemma open_sent2_Body:
  "open_sent2 c ext db sid b e name = Inr r1 \<Longrightarrow>
   json_Marshal ext (snd (open_call2 c sid b e name)) = Inr (Body r1)"
  unfolding open_sent2_def by (rule doPost_request_Body)

lemma next_sent_Body:
  "next_sent ext db name = Inr r2 \<Longrightarrow> json_Marshal ext (NextRequest name) = Inr (Body r2)"
  unfolding next_sent_def by (rule doPost_request_Body)

lemma cursor_seq1_open_unbuilt:
  assumes "open_sent1 c ext db sid b e (shd (uuids w)) = Inl err"
  shows "cursor_seq1 c ext db sid b e fuel yield w =
      Some (w\<lparr>uuids := stl (uuids w), errp := Some err\<rparr>)"
  unfolding cursor_seq1_gcursor by (rule gcursor_open_unbuilt) fact

lemma cursor_seq1_open_refused:
  assumes "open_sent1 c ext db sid b e (shd (uuids w)) = Inr r1"
    and "open_reply ext (shd (net w)) = Some err"
  shows "cursor_seq1 c ext db sid b e fuel yield w =
      Some (w\<lparr>uuids := stl (uuids w), net := stl (net w), sent := sent w @ [r1], errp := Some err\<rparr>)"
  unfolding cursor_seq1_gcursor by (rule gcursor_open_failed) fact+

lemma cursor_seq1_running:
  assumes "open_sent1 c ext db sid b e (shd (uuids w)) = Inr r1"
    and "next_sent ext db (shd (uuids w)) = Inr r2"
    and "net w = o1 ## (os @- s)" and "open_reply ext o1 = None"
    and "list_all2 (\<lambda>out en. next_reply ext out = Entry (fst en) (snd en)) os es"
    and "accepts yield (yielded w) es"
  shows "cursor_seq1 c ext db sid b e (length es + m) yield w =
      next_loop m ext db (shd (uuids w)) yield
        (w\<lparr>uuids := stl (uuids w), net := s,
           sent := sent w @ r1 # replicate (length es) r2, yielded := yielded w @ es\<rparr>)"
  unfolding cursor_seq1_gcursor next_loop_drain next_sent_def [symmetric]
  by (rule gcursor_prefix [where ?fails1.0 = "open_reply ext" and ?o1.0 = o1 and cls = "next_reply ext"]) fact+

lemma cursor_seq1_returned:
  assumes "open_sent1 c ext db sid b e (shd (uuids w)) = Inr r1"
    and "next_sent ext db (shd (uuids w)) = Inr r2" and "open_reply ext (shd (net w)) = None"
    and "cursor_seq1 c ext db sid b e fuel yield w = Some w'"
  shows "\<exists>os t. stl (net w) = os @- (t ## net w') \<and> length os < fuel \<and>
       sent w' = sent w @ r1 # replicate (Suc (length os)) r2"
proof -
  from gcursor_Some [OF assms(4) [unfolded cursor_seq1_gcursor] assms(1,3,2)]
  obtain os t where
    "stl (net w) = os @- (t ## net w')" "length os < fuel"
    "sent w' = sent w @ r1 # replicate (Suc (length os)) r2"
    by (elim exE conjE)
  then show ?thesis by (intro exI [of _ os] exI [of _ t] conjI)
qed

lemma cursor_seq1_draws:
  assumes "cursor_seq1 c ext db sid b e fuel yield w = Some w'"
  shows "uuids w' = stl (uuids w) \<and>
    (fresh_ids (uuids w) \<longrightarrow> (\<forall>n. uuids w' !! n \<noteq> shd (uuids w)))"
proof -
  from gcursor_sent [OF assms [unfolded cursor_seq1_gcursor]]
  have "uuids w' = stl (uuids w)" by (rule conjunct1)
  then show ?thesis by (simp add: fresh_ids_stl)
qed

lemma cursor_seq2_open_unbuilt:
  assumes "open_sent2 c ext db sid b e (shd (uuids w)) = Inl err"
  shows "cursor_seq2 c ext db sid b e fuel yield w =
      Some (w\<lparr>uuids := stl (uuids w), errp := Some err\<rparr>)"
  unfolding cursor_seq2_gcursor by (rule gcursor_open_unbuilt) fact

lemma cursor_seq2_open_refused:
  assumes "open_sent2 c ext db sid b e (shd (uuids w)) = Inr r1"
    and "open_reply_v2 ext (shd (net w)) = Some err"
  shows "cursor_seq2 c ext db sid b e fuel yield w =
      Some (w\<lparr>uuids := stl (uuids w), net := stl (net w), sent := sent w @ [r1], errp := Some err\<rparr>)"
  unfolding cursor_seq2_gcursor by (rule gcursor_open_failed) fact+

lemma cursor_seq2_running:
  assumes "open_sent2 c ext db sid b e (shd (uuids w)) = Inr r1"
    and "next_sent ext db (shd (uuids w)) = Inr r2"
    and "net w = o1 ## (os @- s)" and "open_reply_v2 ext o1 = None"
    and "list_all2 (\<lambda>out en. next_reply_v2 ext out = Entry (fst en) (snd en)) os es"
    and "accepts yield (yielded w) es"
  shows "cursor_seq2 c ext db sid b e (length es + m) yield w =
      next_loop_v2 m ext db (shd (uuids w)) yield
        (w\<lparr>uuids := stl (uuids w), net := s,
           sent := sent w @ r1 # replicate (length es) r2, yielded := yielded w @ es\<rparr>)"
  unfolding cursor_seq2_gcursor next_loop_v2_drain next_sent_def [symmetric]
  by (rule gcursor_prefix [where ?fails1.0 = "open_reply_v2 ext" and ?o1.0 = o1 and cls = "next_reply_v2 ext"]) fact+

lemma cursor_seq2_returned:
  assumes "open_sent2 c ext db sid b e (shd (uuids w)) = Inr r1"
    and "next_sent ext db (shd (uuids w)) = Inr r2" and "open_reply_v2 ext (shd (net w)) = None"
    and "cursor_seq2 c ext db sid b e fuel yield w = Some w'"
  shows "\<exists>os t. stl (net w) = os @- (t ## net w') \<and> length os < fuel \<and>
       sent w' = sent w @ r1 # replicate (Suc (length os)) r2"
proof -
  from gcursor_Some [OF assms(4) [unfolded cursor_seq2_gcursor] assms(1,3,2)]
  obtain os t where
    "stl (net w) = os @- (t ## net w')" "length os < fuel"
    "sent w' = sent w @ r1 # replicate (Suc (length os)) r2"
    by (elim exE conjE)
  then show ?thesis by (intro exI [of _ os] exI [of _ t] conjI)
qed

lemma cursor_seq2_draws:
  assumes "cursor_seq2 c ext db sid b e fuel yield w = Some w'"
  shows "uuids w' = stl (uuids w) \<and>
    (fresh_ids (uuids w) \<longrightarrow> (\<forall>n. uuids w' !! n \<noteq> shd (uuids w)))"
proof -
  from gcursor_sent [OF assms [unfolded cursor_seq2_gcursor]]
  have "uuids w' = stl (uuids w)" by (rule conjunct1)
  then show ?thesis by (simp add: fresh_ids_stl)
qed

lemma cursor_seq1_ends:
  assumes "open_sent1 c ext db sid b e (shd (uuids w)) = Inr r1"
    and "next_sent ext db (shd (uuids w)) = Inr r2"
    and "net w = o1 ## (os @- (t ## rest))" and "open_reply ext o1 = None"
    and "list_all2 (\<lambda>out en. next_reply ext out = Entry (fst en) (snd en)) os es"
    and "accepts yield (yielded w) es"
    and "\<forall>k v. next_reply ext t = Entry k v \<longrightarrow> \<not> yield (yielded w @ es @ [(k, v)])"
    and "length es < fuel"
  shows "\<exists>w'. cursor_seq1 c ext db sid b e fuel yield w = Some w' \<and>
       uuids w' = stl (uuids w) \<and> net w' = rest \<and>
       sent w' = sent w @ r1 # replicate (Suc (length es)) r2"
proof (cases "next_reply ext t")
  case (Fail err)
  show ?thesis
    by (simp add: cursor_seq1_fail [OF assms(1-6) Fail assms(8)])
next
  case Eof
  show ?thesis
    by (simp add: cursor_seq1_eof [OF assms(1-6) Eof assms(8)])
next
  case (Entry k v)
  with assms(7) have "\<not> yield (yielded w @ es @ [(k, v)])" by simp
  from cursor_seq1_stop [OF assms(1-6) Entry this assms(8)]
  show ?thesis by simp
qed

lemma cursor_seq2_ends:
  assumes "open_sent2 c ext db sid b e (shd (uuids w)) = Inr r1"
    and "next_sent ext db (shd (uuids w)) = Inr r2"
    and "net w = o1 ## (os @- (t ## rest))" and "open_reply_v2 ext o1 = None"
    and "list_all2 (\<lambda>out en. next_reply_v2 ext out = Entry (fst en) (snd en)) os es"
    and "accepts yield (yielded w) es"
    and "\<forall>k v. next_reply_v2 ext t = Entry k v \<longrightarrow> \<not> yield (yielded w @ es @ [(k, v)])"
    and "length es < fuel"
  shows "\<exists>w'. cursor_seq2 c ext db sid b e fuel yield w = Some w' \<and>
       uuids w' = stl (uuids w) \<and> net w' = rest \<and>
       sent w' = sent w @ r1 # replicate (Suc (length es)) r2"
proof (cases "next_reply_v2 ext t")
  case (Fail err)
  show ?thesis
    by (simp add: cursor_seq2_fail [OF assms(1-6) Fail assms(8)])
next
  case Eof
  show ?thesis
    by (simp add: cursor_seq2_eof [OF assms(1-6) Eof assms(8)])
next
  case (Entry k v)
  with assms(7) have "\<not> yield (yielded w @ es @ [(k, v)])" by simp
  from cursor_seq2_stop [OF assms(1-6) Entry this assms(8)]
  show ?thesis by simp
qed

lemma accepts_always: "accepts (\<lambda>ys. True) ys es"
  by (induction es arbitrary: ys) simp_all

lemma list_all2_replicate_same:
  "P x y \<Longrightarrow> list_all2 P (replicate n x) (replicate n y)"
  by (simp add: list_all2_conv_all_nth)

lemma accepts_upto: "length ys + length es \<le> n \<Longrightarrow> accepts (\<lambda>ys. length ys \<le> n) ys es"
  by (induction es arbitrary: ys) simp_all

lemma sconst_unfold: "replicate n x @- (x ## sconst x) = sconst x"
proof -
  have "replicate (Suc n) x @- sconst x = sconst x" by (rule shift_replicate_sconst)
  moreover have "replicate (Suc n) x = replicate n x @ [x]" by (simp add: replicate_append_same)
  ultimately show ?thesis by (simp only: shift_append shift.simps)
qed

section \<open>The test data, evaluated\<close>

lemma demo_request_built [simp]:
  "doPost_request demo_ext demo_db subpath req = Inr (demo_request subpath (demo_encode req))"
  "doPost_request demo_ext2 demo_db subpath req2 = Inr (demo_request subpath (demo_encode req2))"
  by (simp_all add: doPost_request_def demo_ext_def demo_ext2_def demo_db_def demo_request_def
      demo_parse_def)

lemma demo_ext_simps [simp]:
  "string2error demo_ext = errorString"
  "json_Unmarshal_Err demo_ext (Some body) = demo_Err body"
  "json_Unmarshal_Get demo_ext (Some body) = demo_Get body"
  "json_Unmarshal_Next demo_ext (Some body) = demo_Next None Some body"
  by (simp_all add: demo_ext_def string_of_bytes_def)

lemma demo_ext2_simps [simp]:
  "string2error demo_ext2 = errorString"
  "json_Unmarshal_Err demo_ext2 r = demo_Err (content r)"
  "json_Unmarshal_Get demo_ext2 r = demo_Get (content r)"
  "json_Unmarshal_Next demo_ext2 r = demo_Next [] (\<lambda>k. k) (content r)"
  by (simp_all add: demo_ext2_def)

lemma demo_decoders [simp]:
  "demo_Err ''{}'' = Inr \<lparr>Error = []\<rparr>"
  "demo_Err ''{Error:boom}'' = Inr \<lparr>Error = ''boom''\<rparr>"
  "demo_Err ''{Error:no such transaction}'' = Inr \<lparr>Error = ''no such transaction''\<rparr>"
  "demo_Get ''{}'' = Inr \<lparr>Error = [], Value = None\<rparr>"
  "demo_Get ''{Value:}'' = Inr \<lparr>Error = [], Value = Some []\<rparr>"
  "demo_Get ''{Value:1}'' = Inr \<lparr>Error = [], Value = Some ''1''\<rparr>"
  "demo_Next nokey key ''{}'' = Inr \<lparr>Error = [], Value = None, Key = nokey\<rparr>"
  "demo_Next nokey key ''{Key:a,Value:1}'' = Inr \<lparr>Error = [], Value = Some ''1'', Key = key ''a''\<rparr>"
  "demo_Next nokey key ''{Key:b,Value:2}'' = Inr \<lparr>Error = [], Value = Some ''2'', Key = key ''b''\<rparr>"
  "demo_Next nokey key ''{Error:boom}'' = Inr \<lparr>Error = ''boom'', Value = None, Key = nokey\<rparr>"
  by (simp_all add: demo_Err_def demo_Get_def demo_Next_def)

lemma demo_encode_simps [simp]:
  "demo_encode (NewTransactionRequest n) = ''new-transaction '' @ n"
  "demo_encode (NewSnapshotRequest n) = ''new-snapshot '' @ n"
  "demo_encode (GetRequest t s k) = ''get '' @ t @ s"
  "demo_encode (SetRequest t k v) = ''set '' @ t @ '' '' @ string_of_bytes v"
  "demo_encode (DeleteRequest t k) = ''delete '' @ t"
  "demo_encode (AscendRequest t s b e n) = ''ascend '' @ n"
  "demo_encode (DescendRequest t s b e n) = ''descend '' @ n"
  "demo_encode (ScanRequest t s n) = ''scan '' @ n"
  "demo_encode (NextRequest n) = ''next '' @ n"
  "demo_encode (CommitRequest t) = ''commit '' @ t"
  "demo_encode (RollbackRequest t) = ''rollback '' @ t"
  "demo_encode (DiscardRequest t) = ''discard '' @ t"
  by (simp_all add: demo_encode_def)

lemma demo_world_simps [simp]:
  "net (demo_world outs) = outs @- sconst (Inl (errorString ''connection refused''))"
  "sent (demo_world outs) = []" "uuids (demo_world outs) = demo_ids"
  "errp (demo_world outs) = None" "yielded (demo_world outs) = []"
  by (simp_all add: demo_world_def)

lemma demo_ids_simps [simp]: "shd demo_ids = ''u''" "demo_ids !! n = replicate (Suc n) CHR ''u''"
  by (simp_all add: demo_ids_def)

lemma fresh_demo_ids: "fresh_ids demo_ids"
proof -
  have "i = j" if "demo_ids !! i = demo_ids !! j" for i j
  proof -
    from that have "length (replicate (Suc i) CHR ''u'') = length (replicate (Suc j) CHR ''u'')"
      by simp
    then show ?thesis by simp
  qed
  then show ?thesis unfolding fresh_ids_def by blast
qed

lemma demo_reply_steps [simp]:
  "open_reply demo_ext reply_ok = None"
  "open_reply demo_ext reply_boom = Some (errorString ''boom'')"
  "next_reply demo_ext reply_ok = Eof"
  "next_reply demo_ext reply_boom = Fail (errorString ''boom'')"
  "next_reply demo_ext reply_a = Entry ''a'' (Reader ''1'' None)"
  "next_reply demo_ext reply_b = Entry ''b'' (Reader ''2'' None)"
  "open_reply_v2 demo_ext2 reply_ok = None"
  "next_reply_v2 demo_ext2 reply_ok = Eof"
  "next_reply_v2 demo_ext2 reply_a = Entry ''a'' (Reader ''1'' None)"
  by (simp_all add: open_reply_def open_reply_v2_def next_reply_def next_reply_v2_def next_step_def
      next_step_v2_def doPost_result_def doPost_result_v2_def reply_def reported_def len_def
      string_of_bytes_def bytes_NewReader_def)

lemma demo_sent [simp]:
  "open_sent1 TxAscend demo_ext demo_db sid b e name = Inr (demo_request ''/tx/ascend'' (''ascend '' @ name))"
  "open_sent2 SnapScan2 demo_ext2 demo_db sid b e name = Inr (demo_request ''/snap/scan'' (''scan '' @ name))"
  "next_sent demo_ext demo_db name = Inr (demo_request ''/it/next'' (''next '' @ name))"
  "next_sent demo_ext2 demo_db name = Inr (demo_request ''/it/next'' (''next '' @ name))"
  by (simp_all add: open_sent1_def open_call1_def open_sent2_def open_call2_def next_sent_def)

section \<open>The database root\<close>

text \<open>
  C7. \<^verbatim>\<open>New(baseURL, client)\<close> keeps the scheme, the host and the path of the URL it
  is given and nothing else of it: \<^verbatim>\<open>ServerURL()\<close> of the handle it returns is the URL
  with these three fields and every other field empty (no credentials, no
  query string, no fragment). \<^verbatim>\<open>New\<close> makes no network call: it neither reads nor
  changes the world.
\<close>

theorem New_keeps_scheme_host_path:
  "map_outcome ServerURL (New (Some u) client) =
     Returns \<lparr>Scheme = Scheme u, Opaque = [], User = None, Host = Host u, Path = Path u,
              RawPath = [], OmitHost = False, ForceQuery = False, RawQuery = [], Fragment = [],
              RawFragment = []\<rparr>"
  by (simp add: New_def ServerURL_def)

text \<open>
  C6. \<^verbatim>\<open>NewTransaction\<close> and \<^verbatim>\<open>NewSnapshot\<close> (of either client) draw one identifier
  from the generator, send it as the field \<open>Name\<close> of the request of their
  round trip, and return a handle with exactly that identifier when the round
  trip reports no error; when it reports an error (of the transport or of the
  server) they return that error and no handle.
\<close>

theorem NewTransaction_binds_generated_id:
  "(doPost (json_Unmarshal_Err ext) ext db ''/new-transaction''
        (NewTransactionRequest (shd (uuids w))) (w\<lparr>uuids := stl (uuids w)\<rparr>) = (res, w1) \<longrightarrow>
      NewTransaction ext db w =
        ((case reported (string2error ext) res of
            None \<Rightarrow> (Some \<lparr>Tx_db = db, Tx_id = shd (uuids w)\<rparr>, None)
          | Some err \<Rightarrow> (None, Some err)), w1) \<and>
      uuids w1 = stl (uuids w) \<and>
      (\<forall>r. doPost_request ext db ''/new-transaction'' (NewTransactionRequest (shd (uuids w))) = Inr r \<longrightarrow>
           sent w1 = sent w @ [r] \<and>
           json_Marshal ext (NewTransactionRequest (shd (uuids w))) = Inr (Body r))) \<and>
   (doPost (json_Unmarshal_Err ext) ext db ''/new-snapshot''
        (NewSnapshotRequest (shd (uuids w))) (w\<lparr>uuids := stl (uuids w)\<rparr>) = (res, w1) \<longrightarrow>
      NewSnapshot ext db w =
        ((case reported (string2error ext) res of
            None \<Rightarrow> (Some \<lparr>Snap_db = db, Snap_id = shd (uuids w)\<rparr>, None)
          | Some err \<Rightarrow> (None, Some err)), w1) \<and>
      uuids w1 = stl (uuids w) \<and>
      (\<forall>r. doPost_request ext db ''/new-snapshot'' (NewSnapshotRequest (shd (uuids w))) = Inr r \<longrightarrow>
           sent w1 = sent w @ [r] \<and>
           json_Marshal ext (NewSnapshotRequest (shd (uuids w))) = Inr (Body r))) \<and>
   (doPost_v2 (json_Unmarshal_Err ext') ext' db ''/new-transaction''
        (NewTransactionRequest (shd (uuids w))) (w\<lparr>uuids := stl (uuids w)\<rparr>) = (res, w1) \<longrightarrow>
      NewTransaction_v2 ext' db w =
        ((case reported (string2error ext') res of
            None \<Rightarrow> (Some \<lparr>Tx_db = db, Tx_id = shd (uuids w)\<rparr>, None)
          | Some err \<Rightarrow> (None, Some err)), w1) \<and>
      uuids w1 = stl (uuids w) \<and>
      (\<forall>r. doPost_request ext' db ''/new-transaction'' (NewTransactionRequest (shd (uuids w))) = Inr r \<longrightarrow>
           sent w1 = sent w @ [r] \<and>
           json_Marshal ext' (NewTransactionRequest (shd (uuids w))) = Inr (Body r))) \<and>
   (doPost_v2 (json_Unmarshal_Err ext') ext' db ''/new-snapshot''
        (NewSnapshotRequest (shd (uuids w))) (w\<lparr>uuids := stl (uuids w)\<rparr>) = (res, w1) \<longrightarrow>
      NewSnapshot_v2 ext' db w =
        ((case reported (string2error ext') res of
            None \<Rightarrow> (Some \<lparr>Snap_db = db, Snap_id = shd (uuids w)\<rparr>, None)
          | Some err \<Rightarrow> (None, Some err)), w1) \<and>
      uuids w1 = stl (uuids w) \<and>
      (\<forall>r. doPost_request ext' db ''/new-snapshot'' (NewSnapshotRequest (shd (uuids w))) = Inr r \<longrightarrow>
           sent w1 = sent w @ [r] \<and>
           json_Marshal ext' (NewSnapshotRequest (shd (uuids w))) = Inr (Body r)))"
proof -
  have a: "NewTransaction ext db w =
        ((case reported (string2error ext) res of
            None \<Rightarrow> (Some \<lparr>Tx_db = db, Tx_id = shd (uuids w)\<rparr>, None)
          | Some err \<Rightarrow> (None, Some err)), w1)"
    if "doPost (json_Unmarshal_Err ext) ext db ''/new-transaction''
        (NewTransactionRequest (shd (uuids w))) (w\<lparr>uuids := stl (uuids w)\<rparr>) = (res, w1)"
    using that by (cases res) (simp_all add: NewTransaction_def uuid_New_String_def)
  have b: "NewSnapshot ext db w =
        ((case reported (string2error ext) res of
            None \<Rightarrow> (Some \<lparr>Snap_db = db, Snap_id = shd (uuids w)\<rparr>, None)
          | Some err \<Rightarrow> (None, Some err)), w1)"
    if "doPost (json_Unmarshal_Err ext) ext db ''/new-snapshot''
        (NewSnapshotRequest (shd (uuids w))) (w\<lparr>uuids := stl (uuids w)\<rparr>) = (res, w1)"
    using that by (cases res) (simp_all add: NewSnapshot_def uuid_New_String_def)
  have c: "NewTransaction_v2 ext' db w =
        ((case reported (string2error ext') res of
            None \<Rightarrow> (Some \<lparr>Tx_db = db, Tx_id = shd (uuids w)\<rparr>, None)
          | Some err \<Rightarrow> (None, Some err)), w1)"
    if "doPost_v2 (json_Unmarshal_Err ext') ext' db ''/new-transaction''
        (NewTransactionRequest (shd (uuids w))) (w\<lparr>uuids := stl (uuids w)\<rparr>) = (res, w1)"
    using that by (cases res) (simp_all add: NewTransaction_v2_def uuid_New_String_def)
  have d: "NewSnapshot_v2 ext' db w =
        ((case reported (string2error ext') res of
            None \<Rightarrow> (Some \<lparr>Snap_db = db, Snap_id = shd (uuids w)\<rparr>, None)
          | Some err \<Rightarrow> (None, Some err)), w1)"
    if "doPost_v2 (json_Unmarshal_Err ext') ext' db ''/new-snapshot''
        (NewSnapshotRequest (shd (uuids w))) (w\<lparr>uuids := stl (uuids w)\<rparr>) = (res, w1)"
    using that by (cases res) (simp_all add: NewSnapshot_v2_def uuid_New_String_def)
  have e: "uuids w1 = stl (uuids w) \<and>
      (\<forall>r. built = Inr r \<longrightarrow> sent w1 = sent w @ [r])"
    if "round_trip built rs (w\<lparr>uuids := stl (uuids w)\<rparr>) = (res, w1)"
    for built and rs :: "error + http_response \<Rightarrow> error + ErrResponse"
    using round_trip_sent [OF that] by (auto split: sum.splits)
  show ?thesis
    using a b c d
    by (auto simp: doPost_eq doPost_v2_eq dest: e doPost_request_Body)
qed

theorem NewTransaction_binds_generated_id_witness:
  "doPost (json_Unmarshal_Err demo_ext) demo_ext demo_db ''/new-transaction''
       (NewTransactionRequest (shd (uuids (demo_world [reply_ok]))))
       ((demo_world [reply_ok])\<lparr>uuids := stl (uuids (demo_world [reply_ok]))\<rparr>) =
     (Inr \<lparr>Error = []\<rparr>,
      (demo_world [])\<lparr>uuids := stl demo_ids,
                        sent := [demo_request ''/new-transaction'' ''new-transaction u'']\<rparr>) \<and>
   NewTransaction demo_ext demo_db (demo_world [reply_ok]) =
     ((Some \<lparr>Tx_db = demo_db, Tx_id = ''u''\<rparr>, None),
      (demo_world [])\<lparr>uuids := stl demo_ids,
                        sent := [demo_request ''/new-transaction'' ''new-transaction u'']\<rparr>) \<and>
   Body (demo_request ''/new-transaction'' ''new-transaction u'') = Some ''new-transaction u''"
proof -
  have post: "doPost (json_Unmarshal_Err demo_ext) demo_ext demo_db ''/new-transaction''
       (NewTransactionRequest (shd (uuids (demo_world [reply_ok]))))
       ((demo_world [reply_ok])\<lparr>uuids := stl (uuids (demo_world [reply_ok]))\<rparr>) =
     (Inr \<lparr>Error = []\<rparr>,
      (demo_world [])\<lparr>uuids := stl demo_ids,
                        sent := [demo_request ''/new-transaction'' ''new-transaction u'']\<rparr>)"
    by (simp add: doPost_eq round_trip_def doPost_result_def reply_def demo_world_def)
  from NewTransaction_binds_generated_id [THEN conjunct1, rule_format, OF post]
  show ?thesis using post by (simp add: demo_request_def)
qed

section \<open>The transport invoker\<close>

text \<open>
  C3. When \<^verbatim>\<open>Do\<close> returns a response whose status is not 200, \<^verbatim>\<open>doPost\<close> (of either
  client) returns the error \<^verbatim>\<open>received non-ok http status <code>\<close>, whatever the
  body of the response and whatever the decoder would make of it; the error
  text determines the status code.
\<close>

theorem doPost_non_ok_status:
  "(doPost_request ext db subpath req = Inr r \<and> shd (net w) = Inr resp \<and> StatusCode resp \<noteq> 200 \<longrightarrow>
      doPost unmarshal ext db subpath req w =
        (Inl (errorString (''received non-ok http status '' @ fmt_d (StatusCode resp))),
         w\<lparr>net := stl (net w), sent := sent w @ [r]\<rparr>)) \<and>
   (doPost_request ext' db' subpath' req' = Inr r' \<and> shd (net w') = Inr resp' \<and>
      StatusCode resp' \<noteq> 200 \<longrightarrow>
      doPost_v2 decode ext' db' subpath' req' w' =
        (Inl (errorString (''received non-ok http status '' @ fmt_d (StatusCode resp'))),
         w'\<lparr>net := stl (net w'), sent := sent w' @ [r']\<rparr>)) \<and>
   (fmt_Errorf_status code = fmt_Errorf_status code' \<longrightarrow> code = code')"
  by (auto simp: doPost_eq doPost_v2_eq round_trip_def doPost_result_def doPost_result_v2_def
      fmt_Errorf_status_def dest: fmt_d_inj)

theorem doPost_non_ok_status_witness:
  "doPost_request demo_ext demo_db ''/tx/get'' (GetRequest ''t1'' [] (Some ''k'')) =
     Inr (demo_request ''/tx/get'' ''get t1'') \<and>
   shd (net (demo_world [reply 404 ''{Value:1}''])) = reply 404 ''{Value:1}'' \<and>
   StatusCode \<lparr>StatusCode = 404, ResponseBody = Reader ''{Value:1}'' None\<rparr> \<noteq> 200 \<and>
   doPost (json_Unmarshal_Get demo_ext) demo_ext demo_db ''/tx/get''
       (GetRequest ''t1'' [] (Some ''k'')) (demo_world [reply 404 ''{Value:1}'']) =
     (Inl (errorString ''received non-ok http status 404''),
      (demo_world [])\<lparr>sent := [demo_request ''/tx/get'' ''get t1'']\<rparr>)"
  using doPost_non_ok_status [THEN conjunct1, of demo_ext demo_db "''/tx/get''"
      "GetRequest ''t1'' [] (Some ''k'')" "demo_request ''/tx/get'' ''get t1''"
      "demo_world [reply 404 ''{Value:1}'']" "\<lparr>StatusCode = 404, ResponseBody = Reader ''{Value:1}'' None\<rparr>"
      "json_Unmarshal_Get demo_ext"]
  by (simp add: demo_world_def reply_def demo_encode_def fmt_d_def digits.simps digit_char_def)

section \<open>Point operations\<close>

lemmas op_defs =
  settled_def settled_value_def reported_def Tx_Delete_def Tx_Commit_def Tx_Rollback_def
  Snap_Discard_def Tx_Set_def Tx_Get_def Snap_Get_def NewTransaction_def NewSnapshot_def
  uuid_New_String_def bytes_of_string_def io_ReadAll_def

lemmas op_defs_v2 =
  settled_def settled_value_def reported_def Tx_Delete_v2_def Tx_Commit_v2_def
  Tx_Rollback_v2_def Snap_Discard_v2_def Tx_Set_v2_def io_ReadAll_nilable_def Tx_Get_v2_def
  Snap_Get_v2_def NewTransaction_v2_def NewSnapshot_v2_def uuid_New_String_def io_ReadAll_def

text \<open>
  C4. Every operation of either client settles its round trip: it returns the
  error \<^verbatim>\<open>doPost\<close> returned, or else \<^verbatim>\<open>string2error\<close> of the field \<open>Error\<close> of the
  decoded response when that string is not empty, or else no error; an
  operation that also returns a value returns nil for it exactly when it
  returns an error. The same holds of the round trip that opens a cursor
  sequence and of each \<^verbatim>\<open>/it/next\<close> round trip, whose error goes to \<^verbatim>\<open>errp\<close>: a
  round of the loop whose round trip reports an error writes it and returns, and
  a round whose round trip reports none leaves \<^verbatim>\<open>errp\<close> as it was and goes on to
  read the key.
\<close>

theorem round_trips_settled:
  "settled (string2error ext) (doPost (json_Unmarshal_Err ext) ext db ''/tx/delete''
       (DeleteRequest sid (Some key)) w) (Tx_Delete ext \<lparr>Tx_db = db, Tx_id = sid\<rparr> key w) \<and>
   settled (string2error ext) (doPost (json_Unmarshal_Err ext) ext db ''/tx/commit''
       (CommitRequest sid) w) (Tx_Commit ext \<lparr>Tx_db = db, Tx_id = sid\<rparr> w) \<and>
   settled (string2error ext) (doPost (json_Unmarshal_Err ext) ext db ''/tx/rollback''
       (RollbackRequest sid) w) (Tx_Rollback ext \<lparr>Tx_db = db, Tx_id = sid\<rparr> w) \<and>
   settled (string2error ext) (doPost (json_Unmarshal_Err ext) ext db ''/snap/discard''
       (DiscardRequest sid) w) (Snap_Discard ext \<lparr>Snap_db = db, Snap_id = sid\<rparr> w) \<and>
   Tx_Set ext \<lparr>Tx_db = db, Tx_id = sid\<rparr> key (Some (Reader s None)) w =
     (case doPost (json_Unmarshal_Err ext) ext db ''/tx/set'' (SetRequest sid (Some key) (Some s)) w of
        (res, w1) \<Rightarrow> (Returns (reported (string2error ext) res), w1)) \<and>
   settled_value (string2error ext) (doPost (json_Unmarshal_Get ext) ext db ''/tx/get''
       (GetRequest sid [] (Some key)) w) (Tx_Get ext \<lparr>Tx_db = db, Tx_id = sid\<rparr> key w) \<and>
   settled_value (string2error ext) (doPost (json_Unmarshal_Get ext) ext db ''/snap/get''
       (GetRequest [] sid (Some key)) w) (Snap_Get ext \<lparr>Snap_db = db, Snap_id = sid\<rparr> key w) \<and>
   settled_value (string2error ext) (doPost (json_Unmarshal_Err ext) ext db ''/new-transaction''
       (NewTransactionRequest (shd (uuids w))) (w\<lparr>uuids := stl (uuids w)\<rparr>)) (NewTransaction ext db w) \<and>
   settled_value (string2error ext) (doPost (json_Unmarshal_Err ext) ext db ''/new-snapshot''
       (NewSnapshotRequest (shd (uuids w))) (w\<lparr>uuids := stl (uuids w)\<rparr>)) (NewSnapshot ext db w) \<and>
   cursor_seq1 c ext db sid b e fuel yield w =
     (case doPost (json_Unmarshal_Err ext) ext db (fst (open_call1 c sid b e (shd (uuids w))))
             (snd (open_call1 c sid b e (shd (uuids w)))) (w\<lparr>uuids := stl (uuids w)\<rparr>) of
        (res, w1) \<Rightarrow>
          (case reported (string2error ext) res of
             Some err \<Rightarrow> Some (w1\<lparr>errp := Some err\<rparr>)
           | None \<Rightarrow> next_loop fuel ext db (shd (uuids w)) yield w1)) \<and>
   (doPost (json_Unmarshal_Next ext) ext db ''/it/next'' (NextRequest name) w = (res2, w2) \<and>
      reported (string2error ext) res2 = Some err \<longrightarrow>
      next_loop (Suc fuel) ext db name yield w = Some (w2\<lparr>errp := Some err\<rparr>)) \<and>
   (doPost (json_Unmarshal_Next ext) ext db ''/it/next'' (NextRequest name) w = (res2, w2) \<and>
      reported (string2error ext) res2 = None \<longrightarrow>
      errp w2 = errp w \<and>
      (\<exists>resp2. res2 = Inr resp2 \<and> Error resp2 = [] \<and>
         next_loop (Suc fuel) ext db name yield w =
           (if len (Key resp2) = 0 then Some w2
            else if yield (yielded w2 @ [(string_of_bytes (Key resp2), bytes_NewReader (Value resp2))])
              then next_loop fuel ext db name yield
                     (w2\<lparr>yielded := yielded w2 @
                            [(string_of_bytes (Key resp2), bytes_NewReader (Value resp2))]\<rparr>)
              else Some (w2\<lparr>yielded := yielded w2 @
                            [(string_of_bytes (Key resp2), bytes_NewReader (Value resp2))]\<rparr>)))) \<and>
   settled (string2error ext') (doPost_v2 (json_Unmarshal_Err ext') ext' db ''/tx/delete''
       (DeleteRequest sid key) w) (Tx_Delete_v2 ext' \<lparr>Tx_db = db, Tx_id = sid\<rparr> key w) \<and>
   settled (string2error ext') (doPost_v2 (json_Unmarshal_Err ext') ext' db ''/tx/commit''
       (CommitRequest sid) w) (Tx_Commit_v2 ext' \<lparr>Tx_db = db, Tx_id = sid\<rparr> w) \<and>
   settled (string2error ext') (doPost_v2 (json_Unmarshal_Err ext') ext' db ''/tx/rollback''
       (RollbackRequest sid) w) (Tx_Rollback_v2 ext' \<lparr>Tx_db = db, Tx_id = sid\<rparr> w) \<and>
   settled (string2error ext') (doPost_v2 (json_Unmarshal_Err ext') ext' db ''/snap/discard''
       (DiscardRequest sid) w) (Snap_Discard_v2 ext' \<lparr>Snap_db = db, Snap_id = sid\<rparr> w) \<and>
   Tx_Set_v2 ext' \<lparr>Tx_db = db, Tx_id = sid\<rparr> key (Some (Reader s None)) w =
     (case doPost_v2 (json_Unmarshal_Err ext') ext' db ''/tx/set'' (SetRequest sid key (Some s)) w of
        (res, w1) \<Rightarrow> (Returns (reported (string2error ext') res), w1)) \<and>
   settled_value (string2error ext') (doPost_v2 (json_Unmarshal_Get ext') ext' db ''/tx/get''
       (GetRequest sid [] key) w) (Tx_Get_v2 ext' \<lparr>Tx_db = db, Tx_id = sid\<rparr> key w) \<and>
   settled_value (string2error ext') (doPost_v2 (json_Unmarshal_Get ext') ext' db ''/snap/get''
       (GetRequest [] sid key) w) (Snap_Get_v2 ext' \<lparr>Snap_db = db, Snap_id = sid\<rparr> key w) \<and>
   settled_value (string2error ext') (doPost_v2 (json_Unmarshal_Err ext') ext' db ''/new-transaction''
       (NewTransactionRequest (shd (uuids w))) (w\<lparr>uuids := stl (uuids w)\<rparr>)) (NewTransaction_v2 ext' db w) \<and>
   settled_value (string2error ext') (doPost_v2 (json_Unmarshal_Err ext') ext' db ''/new-snapshot''
       (NewSnapshotRequest (shd (uuids w))) (w\<lparr>uuids := stl (uuids w)\<rparr>)) (NewSnapshot_v2 ext' db w) \<and>
   cursor_seq2 c' ext' db sid b e fuel yield w =
     (case doPost_v2 (json_Unmarshal_Err ext') ext' db (fst (open_call2 c' sid b e (shd (uuids w))))
             (snd (open_call2 c' sid b e (shd (uuids w)))) (w\<lparr>uuids := stl (uuids w)\<rparr>) of
        (res, w1) \<Rightarrow>
          (case reported (string2error ext') res of
             Some err' \<Rightarrow> Some (w1\<lparr>errp := Some err'\<rparr>)
           | None \<Rightarrow> next_loop_v2 fuel ext' db (shd (uuids w)) yield w1)) \<and>
   (doPost_v2 (json_Unmarshal_Next ext') ext' db ''/it/next'' (NextRequest name) w = (res2', w2') \<and>
      reported (string2error ext') res2' = Some err' \<longrightarrow>
      next_loop_v2 (Suc fuel) ext' db name yield w = Some (w2'\<lparr>errp := Some err'\<rparr>)) \<and>
   (doPost_v2 (json_Unmarshal_Next ext') ext' db ''/it/next'' (NextRequest name) w = (res2', w2') \<and>
      reported (string2error ext') res2' = None \<longrightarrow>
      errp w2' = errp w \<and>
      (\<exists>resp2. res2' = Inr resp2 \<and> Error resp2 = [] \<and>
         next_loop_v2 (Suc fuel) ext' db name yield w =
           (if length (Key resp2) = 0 then Some w2'
            else if yield (yielded w2' @ [(Key resp2, bytes_NewReader (Value resp2))])
              then next_loop_v2 fuel ext' db name yield
                     (w2'\<lparr>yielded := yielded w2' @ [(Key resp2, bytes_NewReader (Value resp2))]\<rparr>)
              else Some (w2'\<lparr>yielded := yielded w2' @ [(Key resp2, bytes_NewReader (Value resp2))]\<rparr>))))"
proof -
  have a0: "settled (string2error ext) (doPost (json_Unmarshal_Err ext) ext db ''/tx/delete''
       (DeleteRequest sid (Some key)) w) (Tx_Delete ext \<lparr>Tx_db = db, Tx_id = sid\<rparr> key w)"
    by (simp add: op_defs split: prod.splits sum.splits)
  have a1: "settled (string2error ext) (doPost (json_Unmarshal_Err ext) ext db ''/tx/commit''
       (CommitRequest sid) w) (Tx_Commit ext \<lparr>Tx_db = db, Tx_id = sid\<rparr> w)"
    by (simp add: op_defs split: prod.splits sum.splits)
  have a2: "settled (string2error ext) (doPost (json_Unmarshal_Err ext) ext db ''/tx/rollback''
       (RollbackRequest sid) w) (Tx_Rollback ext \<lparr>Tx_db = db, Tx_id = sid\<rparr> w)"
    by (simp add: op_defs split: prod.splits sum.splits)
  have a3: "settled (string2error ext) (doPost (json_Unmarshal_Err ext) ext db ''/snap/discard''
       (DiscardRequest sid) w) (Snap_Discard ext \<lparr>Snap_db = db, Snap_id = sid\<rparr> w)"
    by (simp add: op_defs split: prod.splits sum.splits)
  have a4: "Tx_Set ext \<lparr>Tx_db = db, Tx_id = sid\<rparr> key (Some (Reader s None)) w =
     (case doPost (json_Unmarshal_Err ext) ext db ''/tx/set'' (SetRequest sid (Some key) (Some s)) w of
        (res, w1) \<Rightarrow> (Returns (reported (string2error ext) res), w1))"
    by (simp add: op_defs split: prod.splits sum.splits)
  have a5: "settled_value (string2error ext) (doPost (json_Unmarshal_Get ext) ext db ''/tx/get''
       (GetRequest sid [] (Some key)) w) (Tx_Get ext \<lparr>Tx_db = db, Tx_id = sid\<rparr> key w)"
    by (simp add: op_defs split: prod.splits sum.splits)
  have a6: "settled_value (string2error ext) (doPost (json_Unmarshal_Get ext) ext db ''/snap/get''
       (GetRequest [] sid (Some key)) w) (Snap_Get ext \<lparr>Snap_db = db, Snap_id = sid\<rparr> key w)"
    by (simp add: op_defs split: prod.splits sum.splits)
  have a7: "settled_value (string2error ext) (doPost (json_Unmarshal_Err ext) ext db ''/new-transaction''
       (NewTransactionRequest (shd (uuids w))) (w\<lparr>uuids := stl (uuids w)\<rparr>)) (NewTransaction ext db w)"
    by (simp add: op_defs split: prod.splits sum.splits)
  have a8: "settled_value (string2error ext) (doPost (json_Unmarshal_Err ext) ext db ''/new-snapshot''
       (NewSnapshotRequest (shd (uuids w))) (w\<lparr>uuids := stl (uuids w)\<rparr>)) (NewSnapshot ext db w)"
    by (simp add: op_defs split: prod.splits sum.splits)
  have c1: "cursor_seq1 c ext db sid b e fuel yield w =
     (case doPost (json_Unmarshal_Err ext) ext db (fst (open_call1 c sid b e (shd (uuids w))))
             (snd (open_call1 c sid b e (shd (uuids w)))) (w\<lparr>uuids := stl (uuids w)\<rparr>) of
        (res, w1) \<Rightarrow>
          (case reported (string2error ext) res of
             Some err \<Rightarrow> Some (w1\<lparr>errp := Some err\<rparr>)
           | None \<Rightarrow> next_loop fuel ext db (shd (uuids w)) yield w1))"
    by (cases c)
       (simp_all add: cursor_seq1_def open_call1_def Tx_Ascend_def Tx_Descend_def Snap_Ascend_def
          Snap_Descend_def uuid_New_String_def bytes_of_string_def reported_def
          split: prod.splits sum.splits)
  have n1: "(doPost (json_Unmarshal_Next ext) ext db ''/it/next'' (NextRequest name) w = (res2, w2) \<and>
      reported (string2error ext) res2 = Some err \<longrightarrow>
      next_loop (Suc fuel) ext db name yield w = Some (w2\<lparr>errp := Some err\<rparr>))"
    by (cases res2) (auto simp: reported_def split: if_splits)
  have n1s: "(doPost (json_Unmarshal_Next ext) ext db ''/it/next'' (NextRequest name) w = (res2, w2) \<and>
      reported (string2error ext) res2 = None \<longrightarrow>
      errp w2 = errp w \<and>
      (\<exists>resp2. res2 = Inr resp2 \<and> Error resp2 = [] \<and>
         next_loop (Suc fuel) ext db name yield w =
           (if len (Key resp2) = 0 then Some w2
            else if yield (yielded w2 @ [(string_of_bytes (Key resp2), bytes_NewReader (Value resp2))])
              then next_loop fuel ext db name yield
                     (w2\<lparr>yielded := yielded w2 @
                            [(string_of_bytes (Key resp2), bytes_NewReader (Value resp2))]\<rparr>)
              else Some (w2\<lparr>yielded := yielded w2 @
                            [(string_of_bytes (Key resp2), bytes_NewReader (Value resp2))]\<rparr>))))"
  proof (intro impI conjI)
    assume h: "doPost (json_Unmarshal_Next ext) ext db ''/it/next'' (NextRequest name) w = (res2, w2) \<and>
        reported (string2error ext) res2 = None"
    from h have "round_trip (doPost_request ext db ''/it/next'' (NextRequest name))
        (doPost_result (json_Unmarshal_Next ext)) w = (res2, w2)"
      by (simp add: doPost_eq)
    from round_trip_sent [OF this] show "errp w2 = errp w" by simp
    from h show "\<exists>resp2. res2 = Inr resp2 \<and> Error resp2 = [] \<and>
           next_loop (Suc fuel) ext db name yield w =
             (if len (Key resp2) = 0 then Some w2
              else if yield (yielded w2 @ [(string_of_bytes (Key resp2), bytes_NewReader (Value resp2))])
                then next_loop fuel ext db name yield
                       (w2\<lparr>yielded := yielded w2 @
                              [(string_of_bytes (Key resp2), bytes_NewReader (Value resp2))]\<rparr>)
                else Some (w2\<lparr>yielded := yielded w2 @
                              [(string_of_bytes (Key resp2), bytes_NewReader (Value resp2))]\<rparr>))"
      by (cases res2) (auto simp: reported_def Let_def split: if_splits)
  qed
  have b0: "settled (string2error ext') (doPost_v2 (json_Unmarshal_Err ext') ext' db ''/tx/delete''
       (DeleteRequest sid key) w) (Tx_Delete_v2 ext' \<lparr>Tx_db = db, Tx_id = sid\<rparr> key w)"
    by (simp add: op_defs_v2 split: prod.splits sum.splits)
  have b1: "settled (string2error ext') (doPost_v2 (json_Unmarshal_Err ext') ext' db ''/tx/commit''
       (CommitRequest sid) w) (Tx_Commit_v2 ext' \<lparr>Tx_db = db, Tx_id = sid\<rparr> w)"
    by (simp add: op_defs_v2 split: prod.splits sum.splits)
  have b2: "settled (string2error ext') (doPost_v2 (json_Unmarshal_Err ext') ext' db ''/tx/rollback''
       (RollbackRequest sid) w) (Tx_Rollback_v2 ext' \<lparr>Tx_db = db, Tx_id = sid\<rparr> w)"
    by (simp add: op_defs_v2 split: prod.splits sum.splits)
  have b3: "settled (string2error ext') (doPost_v2 (json_Unmarshal_Err ext') ext' db ''/snap/discard''
       (DiscardRequest sid) w) (Snap_Discard_v2 ext' \<lparr>Snap_db = db, Snap_id = sid\<rparr> w)"
    by (simp add: op_defs_v2 split: prod.splits sum.splits)
  have b4: "Tx_Set_v2 ext' \<lparr>Tx_db = db, Tx_id = sid\<rparr> key (Some (Reader s None)) w =
     (case doPost_v2 (json_Unmarshal_Err ext') ext' db ''/tx/set'' (SetRequest sid key (Some s)) w of
        (res, w1) \<Rightarrow> (Returns (reported (string2error ext') res), w1))"
    by (simp add: op_defs_v2 split: prod.splits sum.splits)
  have b5: "settled_value (string2error ext') (doPost_v2 (json_Unmarshal_Get ext') ext' db ''/tx/get''
       (GetRequest sid [] key) w) (Tx_Get_v2 ext' \<lparr>Tx_db = db, Tx_id = sid\<rparr> key w)"
    by (simp add: op_defs_v2 split: prod.splits sum.splits)
  have b6: "settled_value (string2error ext') (doPost_v2 (json_Unmarshal_Get ext') ext' db ''/snap/get''
       (GetRequest [] sid key) w) (Snap_Get_v2 ext' \<lparr>Snap_db = db, Snap_id = sid\<rparr> key w)"
    by (simp add: op_defs_v2 split: prod.splits sum.splits)
  have b7: "settled_value (string2error ext') (doPost_v2 (json_Unmarshal_Err ext') ext' db ''/new-transaction''
       (NewTransactionRequest (shd (uuids w))) (w\<lparr>uuids := stl (uuids w)\<rparr>)) (NewTransaction_v2 ext' db w)"
    by (simp add: op_defs_v2 split: prod.splits sum.splits)
  have b8: "settled_value (string2error ext') (doPost_v2 (json_Unmarshal_Err ext') ext' db ''/new-snapshot''
       (NewSnapshotRequest (shd (uuids w))) (w\<lparr>uuids := stl (uuids w)\<rparr>)) (NewSnapshot_v2 ext' db w)"
    by (simp add: op_defs_v2 split: prod.splits sum.splits)
  have c2: "cursor_seq2 c' ext' db sid b e fuel yield w =
     (case doPost_v2 (json_Unmarshal_Err ext') ext' db (fst (open_call2 c' sid b e (shd (uuids w))))
             (snd (open_call2 c' sid b e (shd (uuids w)))) (w\<lparr>uuids := stl (uuids w)\<rparr>) of
        (res, w1) \<Rightarrow>
          (case reported (string2error ext') res of
             Some err' \<Rightarrow> Some (w1\<lparr>errp := Some err'\<rparr>)
           | None \<Rightarrow> next_loop_v2 fuel ext' db (shd (uuids w)) yield w1))"
    by (cases c')
       (simp_all add: cursor_seq2_def open_call2_def Tx_Ascend_v2_def Tx_Descend_v2_def
          Snap_Ascend_v2_def Snap_Descend_v2_def Tx_Scan_v2_def Snap_Scan_v2_def
          uuid_New_String_def reported_def split: prod.splits sum.splits)
  have n2: "(doPost_v2 (json_Unmarshal_Next ext') ext' db ''/it/next'' (NextRequest name) w = (res2', w2') \<and>
      reported (string2error ext') res2' = Some err' \<longrightarrow>
      next_loop_v2 (Suc fuel) ext' db name yield w = Some (w2'\<lparr>errp := Some err'\<rparr>))"
    by (cases res2') (auto simp: reported_def split: if_splits)
  have n2s: "(doPost_v2 (json_Unmarshal_Next ext') ext' db ''/it/next'' (NextRequest name) w = (res2', w2') \<and>
      reported (string2error ext') res2' = None \<longrightarrow>
      errp w2' = errp w \<and>
      (\<exists>resp2. res2' = Inr resp2 \<and> Error resp2 = [] \<and>
         next_loop_v2 (Suc fuel) ext' db name yield w =
           (if length (Key resp2) = 0 then Some w2'
            else if yield (yielded w2' @ [(Key resp2, bytes_NewReader (Value resp2))])
              then next_loop_v2 fuel ext' db name yield
                     (w2'\<lparr>yielded := yielded w2' @ [(Key resp2, bytes_NewReader (Value resp2))]\<rparr>)
              else Some (w2'\<lparr>yielded := yielded w2' @ [(Key resp2, bytes_NewReader (Value resp2))]\<rparr>))))"
  proof (intro impI conjI)
    assume h: "doPost_v2 (json_Unmarshal_Next ext') ext' db ''/it/next'' (NextRequest name) w = (res2', w2') \<and>
        reported (string2error ext') res2' = None"
    from h have "round_trip (doPost_request ext' db ''/it/next'' (NextRequest name))
        (doPost_result_v2 (json_Unmarshal_Next ext')) w = (res2', w2')"
      by (simp add: doPost_v2_eq)
    from round_trip_sent [OF this] show "errp w2' = errp w" by simp
    from h show "\<exists>resp2. res2' = Inr resp2 \<and> Error resp2 = [] \<and>
           next_loop_v2 (Suc fuel) ext' db name yield w =
             (if length (Key resp2) = 0 then Some w2'
              else if yield (yielded w2' @ [(Key resp2, bytes_NewReader (Value resp2))])
                then next_loop_v2 fuel ext' db name yield
                       (w2'\<lparr>yielded := yielded w2' @ [(Key resp2, bytes_NewReader (Value resp2))]\<rparr>)
                else Some (w2'\<lparr>yielded := yielded w2' @ [(Key resp2, bytes_NewReader (Value resp2))]\<rparr>))"
      by (cases res2') (auto simp: reported_def Let_def split: if_splits)
  qed
  show ?thesis
    by (intro conjI; fact a0 a1 a2 a3 a4 a5 a6 a7 a8 c1 n1 n1s b0 b1 b2 b3 b4 b5 b6 b7 b8 c2 n2 n2s)
qed

theorem round_trips_settled_witness:
  "doPost (json_Unmarshal_Next demo_ext) demo_ext demo_db ''/it/next'' (NextRequest ''u'')
       (demo_world [reply_boom]) =
     (Inr \<lparr>Error = ''boom'', Value = None, Key = None\<rparr>, (demo_world [])\<lparr>sent := [next_u]\<rparr>) \<and>
   reported (string2error demo_ext) (Inr \<lparr>Error = ''boom'', Value = None, Key = None :: byteslice\<rparr>) =
     Some (errorString ''boom'') \<and>
   next_loop (Suc 0) demo_ext demo_db ''u'' (\<lambda>ys. True) (demo_world [reply_boom]) =
     Some ((demo_world [])\<lparr>sent := [next_u], errp := Some (errorString ''boom'')\<rparr>) \<and>
   Tx_Commit demo_ext \<lparr>Tx_db = demo_db, Tx_id = ''t1''\<rparr> (demo_world [reply_ok]) =
     (None, (demo_world [])\<lparr>sent := [demo_request ''/tx/commit'' ''commit t1'']\<rparr>) \<and>
   Tx_Commit demo_ext \<lparr>Tx_db = demo_db, Tx_id = ''t1''\<rparr> (demo_world [reply 200 ''{Error:no such transaction}'']) =
     (Some (errorString ''no such transaction''),
      (demo_world [])\<lparr>sent := [demo_request ''/tx/commit'' ''commit t1'']\<rparr>) \<and>
   doPost (json_Unmarshal_Next demo_ext) demo_ext demo_db ''/it/next'' (NextRequest ''u'')
       (demo_world [reply_ok]) =
     (Inr \<lparr>Error = [], Value = None, Key = None\<rparr>, (demo_world [])\<lparr>sent := [next_u]\<rparr>) \<and>
   reported (string2error demo_ext) (Inr \<lparr>Error = [], Value = None, Key = None :: byteslice\<rparr>) = None \<and>
   next_loop (Suc 0) demo_ext demo_db ''u'' (\<lambda>ys. True) (demo_world [reply_ok]) =
     Some ((demo_world [])\<lparr>sent := [next_u]\<rparr>)"
proof -
  have hyps: "doPost (json_Unmarshal_Next demo_ext) demo_ext demo_db ''/it/next'' (NextRequest ''u'')
       (demo_world [reply_boom]) =
     (Inr \<lparr>Error = ''boom'', Value = None, Key = None\<rparr>, (demo_world [])\<lparr>sent := [next_u]\<rparr>) \<and>
   reported (string2error demo_ext) (Inr \<lparr>Error = ''boom'', Value = None, Key = None :: byteslice\<rparr>) =
     Some (errorString ''boom'')"
    by (simp add: doPost_eq round_trip_def doPost_result_def reply_def demo_world_def)
  note all = round_trips_settled [where ext = demo_ext and db = demo_db and sid = "''t1''"]
  have loop: "next_loop (Suc 0) demo_ext demo_db ''u'' (\<lambda>ys. True) (demo_world [reply_boom]) =
     Some ((demo_world [])\<lparr>sent := [next_u], errp := Some (errorString ''boom'')\<rparr>)"
    by (rule all [THEN conjunct2, THEN conjunct2, THEN conjunct2, THEN conjunct2, THEN conjunct2,
          THEN conjunct2, THEN conjunct2, THEN conjunct2, THEN conjunct2, THEN conjunct2,
          THEN conjunct1, rule_format, OF hyps])
  have ok: "Tx_Commit demo_ext \<lparr>Tx_db = demo_db, Tx_id = ''t1''\<rparr> (demo_world [reply_ok]) =
     (None, (demo_world [])\<lparr>sent := [demo_request ''/tx/commit'' ''commit t1'']\<rparr>)"
    using all [THEN conjunct2, THEN conjunct1, of "demo_world [reply_ok]"]
    by (simp add: settled_def doPost_eq round_trip_def doPost_result_def reply_def demo_world_def)
  have bad: "Tx_Commit demo_ext \<lparr>Tx_db = demo_db, Tx_id = ''t1''\<rparr>
       (demo_world [reply 200 ''{Error:no such transaction}'']) =
     (Some (errorString ''no such transaction''),
      (demo_world [])\<lparr>sent := [demo_request ''/tx/commit'' ''commit t1'']\<rparr>)"
    using all [THEN conjunct2, THEN conjunct1, of "demo_world [reply 200 ''{Error:no such transaction}'']"]
    by (simp add: settled_def doPost_eq round_trip_def doPost_result_def reply_def demo_world_def
        string_of_bytes_def)
  have hyps2: "doPost (json_Unmarshal_Next demo_ext) demo_ext demo_db ''/it/next'' (NextRequest ''u'')
       (demo_world [reply_ok]) =
     (Inr \<lparr>Error = [], Value = None, Key = None\<rparr>, (demo_world [])\<lparr>sent := [next_u]\<rparr>) \<and>
   reported (string2error demo_ext) (Inr \<lparr>Error = [], Value = None, Key = None :: byteslice\<rparr>) = None"
    by (simp add: doPost_eq round_trip_def doPost_result_def reply_def demo_world_def)
  have quiet: "next_loop (Suc 0) demo_ext demo_db ''u'' (\<lambda>ys. True) (demo_world [reply_ok]) =
     Some ((demo_world [])\<lparr>sent := [next_u]\<rparr>)"
    using all [where fuel = 0 and yield = "\<lambda>ys. True",
          THEN conjunct2, THEN conjunct2, THEN conjunct2, THEN conjunct2, THEN conjunct2,
          THEN conjunct2, THEN conjunct2, THEN conjunct2, THEN conjunct2, THEN conjunct2,
          THEN conjunct2, THEN conjunct1, rule_format, OF hyps2]
    by (auto simp: len_def)
  from hyps loop ok bad hyps2 quiet show ?thesis by simp
qed

text \<open>
  C10. A successful \<^verbatim>\<open>Get\<close> (on a transaction or a snapshot, of either client)
  returns a reader over the bytes of the field \<open>Value\<close> of the response. Reading
  it to the end gives exactly these bytes; a nil \<open>Value\<close> and an empty \<open>Value\<close> give
  the same reader, over zero bytes, so the caller cannot tell an empty stored
  value from a missing field or from a missing key reported with no error.
\<close>

theorem Get_returns_value_bytes:
  "(doPost (json_Unmarshal_Get ext) ext (Tx_db tx) ''/tx/get'' (GetRequest (Tx_id tx) [] (Some key)) w
        = (Inr resp, w1) \<and> Error resp = [] \<longrightarrow>
      Tx_Get ext tx key w = ((Some (bytes_NewReader (Value resp)), None), w1)) \<and>
   (doPost (json_Unmarshal_Get ext) ext (Snap_db snap) ''/snap/get''
        (GetRequest [] (Snap_id snap) (Some key)) w = (Inr resp, w1) \<and> Error resp = [] \<longrightarrow>
      Snap_Get ext snap key w = ((Some (bytes_NewReader (Value resp)), None), w1)) \<and>
   (doPost_v2 (json_Unmarshal_Get ext') ext' (Tx_db tx) ''/tx/get'' (GetRequest (Tx_id tx) [] key) w
        = (Inr resp, w1) \<and> Error resp = [] \<longrightarrow>
      Tx_Get_v2 ext' tx key w = ((Some (bytes_NewReader (Value resp)), None), w1)) \<and>
   (doPost_v2 (json_Unmarshal_Get ext') ext' (Snap_db snap) ''/snap/get''
        (GetRequest [] (Snap_id snap) key) w = (Inr resp, w1) \<and> Error resp = [] \<longrightarrow>
      Snap_Get_v2 ext' snap key w = ((Some (bytes_NewReader (Value resp)), None), w1)) \<and>
   io_ReadAll (bytes_NewReader b) = (Some (string_of_bytes b), None) \<and>
   string_of_bytes (Some s) = s \<and>
   bytes_NewReader None = Reader [] None \<and> bytes_NewReader (Some []) = Reader [] None"
  by (simp add: Tx_Get_def Snap_Get_def Tx_Get_v2_def Snap_Get_v2_def bytes_of_string_def
      io_ReadAll_def bytes_NewReader_def string_of_bytes_def)

theorem Get_returns_value_bytes_witness:
  "doPost (json_Unmarshal_Get demo_ext) demo_ext (Tx_db \<lparr>Tx_db = demo_db, Tx_id = ''t1''\<rparr>) ''/tx/get''
       (GetRequest (Tx_id \<lparr>Tx_db = demo_db, Tx_id = ''t1''\<rparr>) [] (Some ''k''))
       (demo_world [reply_ok]) =
     (Inr \<lparr>Error = [], Value = None\<rparr>, (demo_world [])\<lparr>sent := [demo_request ''/tx/get'' ''get t1'']\<rparr>) \<and>
   Error \<lparr>Error = [], Value = None\<rparr> = [] \<and>
   Tx_Get demo_ext \<lparr>Tx_db = demo_db, Tx_id = ''t1''\<rparr> ''k'' (demo_world [reply_ok]) =
     ((Some (Reader [] None), None), (demo_world [])\<lparr>sent := [demo_request ''/tx/get'' ''get t1'']\<rparr>) \<and>
   doPost (json_Unmarshal_Get demo_ext) demo_ext (Tx_db \<lparr>Tx_db = demo_db, Tx_id = ''t1''\<rparr>) ''/tx/get''
       (GetRequest (Tx_id \<lparr>Tx_db = demo_db, Tx_id = ''t1''\<rparr>) [] (Some ''k''))
       (demo_world [reply 200 ''{Value:}'']) =
     (Inr \<lparr>Error = [], Value = Some []\<rparr>, (demo_world [])\<lparr>sent := [demo_request ''/tx/get'' ''get t1'']\<rparr>) \<and>
   Tx_Get demo_ext \<lparr>Tx_db = demo_db, Tx_id = ''t1''\<rparr> ''k'' (demo_world [reply 200 ''{Value:}'']) =
     ((Some (Reader [] None), None), (demo_world [])\<lparr>sent := [demo_request ''/tx/get'' ''get t1'']\<rparr>) \<and>
   doPost (json_Unmarshal_Get demo_ext) demo_ext (Tx_db \<lparr>Tx_db = demo_db, Tx_id = ''t1''\<rparr>) ''/tx/get''
       (GetRequest (Tx_id \<lparr>Tx_db = demo_db, Tx_id = ''t1''\<rparr>) [] (Some ''k''))
       (demo_world [reply 200 ''{Value:1}'']) =
     (Inr \<lparr>Error = [], Value = Some ''1''\<rparr>, (demo_world [])\<lparr>sent := [demo_request ''/tx/get'' ''get t1'']\<rparr>) \<and>
   Tx_Get demo_ext \<lparr>Tx_db = demo_db, Tx_id = ''t1''\<rparr> ''k'' (demo_world [reply 200 ''{Value:1}'']) =
     ((Some (Reader ''1'' None), None), (demo_world [])\<lparr>sent := [demo_request ''/tx/get'' ''get t1'']\<rparr>) \<and>
   io_ReadAll (Reader ''1'' None) = (Some ''1'', None)"
proof -
  have nil: "doPost (json_Unmarshal_Get demo_ext) demo_ext (Tx_db \<lparr>Tx_db = demo_db, Tx_id = ''t1''\<rparr>)
       ''/tx/get'' (GetRequest (Tx_id \<lparr>Tx_db = demo_db, Tx_id = ''t1''\<rparr>) [] (Some ''k''))
       (demo_world [reply_ok]) =
     (Inr \<lparr>Error = [], Value = None\<rparr>, (demo_world [])\<lparr>sent := [demo_request ''/tx/get'' ''get t1'']\<rparr>) \<and>
     Error \<lparr>Error = [], Value = None\<rparr> = []"
    by (simp add: doPost_eq round_trip_def doPost_result_def demo_world_def reply_def)
  have empty: "doPost (json_Unmarshal_Get demo_ext) demo_ext (Tx_db \<lparr>Tx_db = demo_db, Tx_id = ''t1''\<rparr>)
       ''/tx/get'' (GetRequest (Tx_id \<lparr>Tx_db = demo_db, Tx_id = ''t1''\<rparr>) [] (Some ''k''))
       (demo_world [reply 200 ''{Value:}'']) =
     (Inr \<lparr>Error = [], Value = Some []\<rparr>, (demo_world [])\<lparr>sent := [demo_request ''/tx/get'' ''get t1'']\<rparr>) \<and>
     Error \<lparr>Error = [], Value = Some []\<rparr> = []"
    by (simp add: doPost_eq round_trip_def doPost_result_def demo_world_def reply_def)
  have full: "doPost (json_Unmarshal_Get demo_ext) demo_ext (Tx_db \<lparr>Tx_db = demo_db, Tx_id = ''t1''\<rparr>)
       ''/tx/get'' (GetRequest (Tx_id \<lparr>Tx_db = demo_db, Tx_id = ''t1''\<rparr>) [] (Some ''k''))
       (demo_world [reply 200 ''{Value:1}'']) =
     (Inr \<lparr>Error = [], Value = Some ''1''\<rparr>, (demo_world [])\<lparr>sent := [demo_request ''/tx/get'' ''get t1'']\<rparr>) \<and>
     Error \<lparr>Error = [], Value = Some ''1''\<rparr> = []"
    by (simp add: doPost_eq round_trip_def doPost_result_def demo_world_def reply_def)
  note get = Get_returns_value_bytes [THEN conjunct1, rule_format]
  note read = Get_returns_value_bytes [where b = "Some ''1''", THEN conjunct2, THEN conjunct2,
      THEN conjunct2, THEN conjunct2, THEN conjunct1]
  from get [OF nil] get [OF empty] get [OF full] read nil empty full show ?thesis
    by (simp add: bytes_NewReader_def string_of_bytes_def)
qed

text \<open>
  C5. \<^verbatim>\<open>Tx.Set\<close> of the first client returns \<^verbatim>\<open>os.ErrInvalid\<close> on a nil value and
  leaves the world as it was; on a value that is not nil both clients read it
  to the end first, return the error of the reading with the world as it was,
  and otherwise send all the bytes read as the field \<open>Value\<close> of one request.
  \<^verbatim>\<open>Tx.Set\<close> of the second client does not test the value: on a nil value it
  panics in \<^verbatim>\<open>io.ReadAll\<close>, with no request sent and no error returned.
\<close>

theorem Tx_Set_value_handling:
  "Tx_Set ext tx key None w = (Returns (Some ErrInvalid), w) \<and>
   Tx_Set ext tx key (Some (Reader s (Some err))) w = (Returns (Some err), w) \<and>
   Tx_Set ext tx key (Some (Reader s None)) w =
     (case doPost (json_Unmarshal_Err ext) ext (Tx_db tx) ''/tx/set''
             (SetRequest (Tx_id tx) (Some key) (Some s)) w of
        (res, w1) \<Rightarrow> (Returns (reported (string2error ext) res), w1)) \<and>
   Tx_Set_v2 ext' tx key (Some (Reader s (Some err))) w = (Returns (Some err), w) \<and>
   Tx_Set_v2 ext' tx key (Some (Reader s None)) w =
     (case doPost_v2 (json_Unmarshal_Err ext') ext' (Tx_db tx) ''/tx/set''
             (SetRequest (Tx_id tx) key (Some s)) w of
        (res, w1) \<Rightarrow> (Returns (reported (string2error ext') res), w1)) \<and>
   Tx_Set_v2 ext' tx key None w = (Panics, w)"
proof -
  have a: "Tx_Set ext tx key None w = (Returns (Some ErrInvalid), w)"
    by (simp add: Tx_Set_def)
  have b: "Tx_Set ext tx key (Some (Reader s (Some err))) w = (Returns (Some err), w)"
    by (simp add: Tx_Set_def io_ReadAll_def)
  have c: "Tx_Set ext tx key (Some (Reader s None)) w =
     (case doPost (json_Unmarshal_Err ext) ext (Tx_db tx) ''/tx/set''
             (SetRequest (Tx_id tx) (Some key) (Some s)) w of
        (res, w1) \<Rightarrow> (Returns (reported (string2error ext) res), w1))"
    by (simp add: Tx_Set_def io_ReadAll_def bytes_of_string_def reported_def
        split: prod.splits sum.splits)
  have d: "Tx_Set_v2 ext' tx key (Some (Reader s (Some err))) w = (Returns (Some err), w)"
    by (simp add: Tx_Set_v2_def io_ReadAll_nilable_def io_ReadAll_def)
  have e: "Tx_Set_v2 ext' tx key (Some (Reader s None)) w =
     (case doPost_v2 (json_Unmarshal_Err ext') ext' (Tx_db tx) ''/tx/set''
             (SetRequest (Tx_id tx) key (Some s)) w of
        (res, w1) \<Rightarrow> (Returns (reported (string2error ext') res), w1))"
    by (simp add: Tx_Set_v2_def io_ReadAll_nilable_def io_ReadAll_def reported_def split: prod.splits sum.splits)
  have f: "Tx_Set_v2 ext' tx key None w = (Panics, w)"
    by (simp add: Tx_Set_v2_def io_ReadAll_nilable_def)
  show ?thesis
    by (rule conjI [OF a conjI [OF b conjI [OF c conjI [OF d conjI [OF e f]]]]])
qed

section \<open>Cursor sequences\<close>




text \<open>
  C2. For every cursor sequence of either client: when the opening round trip
  reports an error (\<^verbatim>\<open>doPost\<close> fails, or the response carries an error text), the
  sequence returns at once, whatever the number of rounds allowed, with that
  error in \<^verbatim>\<open>errp\<close>, no entry yielded and no \<^verbatim>\<open>/it/next\<close> request sent; when a
  \<^verbatim>\<open>/it/next\<close> round trip reports an error, after entries that the consumer
  accepted, or cannot build its request, the sequence returns with that error
  in \<^verbatim>\<open>errp\<close> and nothing yielded after these entries.
\<close>

theorem cursor_error_slot:
  "(doPost (json_Unmarshal_Err ext) ext db (fst (open_call1 c sid b e (shd (uuids w))))
        (snd (open_call1 c sid b e (shd (uuids w)))) (w\<lparr>uuids := stl (uuids w)\<rparr>) = (res, w1) \<and>
    reported (string2error ext) res = Some err \<longrightarrow>
    cursor_seq1 c ext db sid b e fuel yield w = Some (w1\<lparr>errp := Some err\<rparr>) \<and>
    yielded w1 = yielded w \<and>
    (sent w1 = sent w \<or> (\<exists>r1. open_sent1 c ext db sid b e (shd (uuids w)) = Inr r1 \<and> sent w1 = sent w @ [r1]))) \<and>
   (doPost_v2 (json_Unmarshal_Err ext') ext' db (fst (open_call2 c' sid b e (shd (uuids w))))
        (snd (open_call2 c' sid b e (shd (uuids w)))) (w\<lparr>uuids := stl (uuids w)\<rparr>) = (res, w1) \<and>
    reported (string2error ext') res = Some err \<longrightarrow>
    cursor_seq2 c' ext' db sid b e fuel yield w = Some (w1\<lparr>errp := Some err\<rparr>) \<and>
    yielded w1 = yielded w \<and>
    (sent w1 = sent w \<or> (\<exists>r1. open_sent2 c' ext' db sid b e (shd (uuids w)) = Inr r1 \<and> sent w1 = sent w @ [r1]))) \<and>
   (open_sent1 c ext db sid b e (shd (uuids w)) = Inr r1 \<and>
    next_sent ext db (shd (uuids w)) = Inr r2 \<and>
    net w = o1 ## (os @- (t ## rest)) \<and> open_reply ext o1 = None \<and>
    list_all2 (\<lambda>out en. next_reply ext out = Entry (fst en) (snd en)) os es \<and>
    accepts yield (yielded w) es \<and>
    next_reply ext t = Fail err \<and> length es < fuel \<longrightarrow>
    cursor_seq1 c ext db sid b e fuel yield w =
      Some (w\<lparr>uuids := stl (uuids w), net := rest,
              sent := sent w @ r1 # replicate (Suc (length es)) r2, yielded := yielded w @ es,
              errp := Some err\<rparr>)) \<and>
   (open_sent2 c' ext' db sid b e (shd (uuids w)) = Inr r1 \<and>
    next_sent ext' db (shd (uuids w)) = Inr r2 \<and>
    net w = o1 ## (os @- (t ## rest)) \<and> open_reply_v2 ext' o1 = None \<and>
    list_all2 (\<lambda>out en. next_reply_v2 ext' out = Entry (fst en) (snd en)) os es \<and>
    accepts yield (yielded w) es \<and>
    next_reply_v2 ext' t = Fail err \<and> length es < fuel \<longrightarrow>
    cursor_seq2 c' ext' db sid b e fuel yield w =
      Some (w\<lparr>uuids := stl (uuids w), net := rest,
              sent := sent w @ r1 # replicate (Suc (length es)) r2, yielded := yielded w @ es,
              errp := Some err\<rparr>)) \<and>
   (open_sent1 c ext db sid b e (shd (uuids w)) = Inr r1 \<and>
    next_sent ext db (shd (uuids w)) = Inl err \<and> open_reply ext (shd (net w)) = None \<and> 0 < fuel \<longrightarrow>
    cursor_seq1 c ext db sid b e fuel yield w =
      Some (w\<lparr>uuids := stl (uuids w), net := stl (net w), sent := sent w @ [r1], errp := Some err\<rparr>)) \<and>
   (open_sent2 c' ext' db sid b e (shd (uuids w)) = Inr r1 \<and>
    next_sent ext' db (shd (uuids w)) = Inl err \<and> open_reply_v2 ext' (shd (net w)) = None \<and> 0 < fuel \<longrightarrow>
    cursor_seq2 c' ext' db sid b e fuel yield w =
      Some (w\<lparr>uuids := stl (uuids w), net := stl (net w), sent := sent w @ [r1], errp := Some err\<rparr>)) \<and>
   (next_reply ext out = Fail err) =
     (reported (string2error ext) (doPost_result (json_Unmarshal_Next ext) out) = Some err) \<and>
   (next_reply_v2 ext' out = Fail err) =
     (reported (string2error ext') (doPost_result_v2 (json_Unmarshal_Next ext') out) = Some err)"
proof -
  have p0: "(doPost (json_Unmarshal_Err ext) ext db (fst (open_call1 c sid b e (shd (uuids w))))
        (snd (open_call1 c sid b e (shd (uuids w)))) (w\<lparr>uuids := stl (uuids w)\<rparr>) = (res, w1) \<and>
    reported (string2error ext) res = Some err \<longrightarrow>
    cursor_seq1 c ext db sid b e fuel yield w = Some (w1\<lparr>errp := Some err\<rparr>) \<and>
    yielded w1 = yielded w \<and>
    (sent w1 = sent w \<or> (\<exists>r1. open_sent1 c ext db sid b e (shd (uuids w)) = Inr r1 \<and> sent w1 = sent w @ [r1])))"
    by (rule impI, elim conjE, rule cursor_seq1_open_fails; assumption)
  have p1: "(doPost_v2 (json_Unmarshal_Err ext') ext' db (fst (open_call2 c' sid b e (shd (uuids w))))
        (snd (open_call2 c' sid b e (shd (uuids w)))) (w\<lparr>uuids := stl (uuids w)\<rparr>) = (res, w1) \<and>
    reported (string2error ext') res = Some err \<longrightarrow>
    cursor_seq2 c' ext' db sid b e fuel yield w = Some (w1\<lparr>errp := Some err\<rparr>) \<and>
    yielded w1 = yielded w \<and>
    (sent w1 = sent w \<or> (\<exists>r1. open_sent2 c' ext' db sid b e (shd (uuids w)) = Inr r1 \<and> sent w1 = sent w @ [r1])))"
    by (rule impI, elim conjE, rule cursor_seq2_open_fails; assumption)
  have p2: "(open_sent1 c ext db sid b e (shd (uuids w)) = Inr r1 \<and>
    next_sent ext db (shd (uuids w)) = Inr r2 \<and>
    net w = o1 ## (os @- (t ## rest)) \<and> open_reply ext o1 = None \<and>
    list_all2 (\<lambda>out en. next_reply ext out = Entry (fst en) (snd en)) os es \<and>
    accepts yield (yielded w) es \<and>
    next_reply ext t = Fail err \<and> length es < fuel \<longrightarrow>
    cursor_seq1 c ext db sid b e fuel yield w =
      Some (w\<lparr>uuids := stl (uuids w), net := rest,
              sent := sent w @ r1 # replicate (Suc (length es)) r2, yielded := yielded w @ es,
              errp := Some err\<rparr>))"
    by (rule impI, elim conjE, rule cursor_seq1_fail; assumption)
  have p3: "(open_sent2 c' ext' db sid b e (shd (uuids w)) = Inr r1 \<and>
    next_sent ext' db (shd (uuids w)) = Inr r2 \<and>
    net w = o1 ## (os @- (t ## rest)) \<and> open_reply_v2 ext' o1 = None \<and>
    list_all2 (\<lambda>out en. next_reply_v2 ext' out = Entry (fst en) (snd en)) os es \<and>
    accepts yield (yielded w) es \<and>
    next_reply_v2 ext' t = Fail err \<and> length es < fuel \<longrightarrow>
    cursor_seq2 c' ext' db sid b e fuel yield w =
      Some (w\<lparr>uuids := stl (uuids w), net := rest,
              sent := sent w @ r1 # replicate (Suc (length es)) r2, yielded := yielded w @ es,
              errp := Some err\<rparr>))"
    by (rule impI, elim conjE, rule cursor_seq2_fail; assumption)
  have p4: "(open_sent1 c ext db sid b e (shd (uuids w)) = Inr r1 \<and>
    next_sent ext db (shd (uuids w)) = Inl err \<and> open_reply ext (shd (net w)) = None \<and> 0 < fuel \<longrightarrow>
    cursor_seq1 c ext db sid b e fuel yield w =
      Some (w\<lparr>uuids := stl (uuids w), net := stl (net w), sent := sent w @ [r1], errp := Some err\<rparr>))"
    by (rule impI, elim conjE, rule cursor_seq1_next_unbuilt; assumption)
  have p5: "(open_sent2 c' ext' db sid b e (shd (uuids w)) = Inr r1 \<and>
    next_sent ext' db (shd (uuids w)) = Inl err \<and> open_reply_v2 ext' (shd (net w)) = None \<and> 0 < fuel \<longrightarrow>
    cursor_seq2 c' ext' db sid b e fuel yield w =
      Some (w\<lparr>uuids := stl (uuids w), net := stl (net w), sent := sent w @ [r1], errp := Some err\<rparr>))"
    by (rule impI, elim conjE, rule cursor_seq2_next_unbuilt; assumption)
  have p6: "(next_reply ext out = Fail err) =
     (reported (string2error ext) (doPost_result (json_Unmarshal_Next ext) out) = Some err)"
    by (rule next_reply_Fail)
  have p7: "(next_reply_v2 ext' out = Fail err) =
     (reported (string2error ext') (doPost_result_v2 (json_Unmarshal_Next ext') out) = Some err)"
    by (rule next_reply_v2_Fail)
  show ?thesis
    by (rule conjI [OF p0 conjI [OF p1 conjI [OF p2 conjI [OF p3 conjI [OF p4 conjI [OF p5 conjI [OF p6 p7]]]]]]])
qed

theorem cursor_error_slot_witness:
  "open_sent1 TxAscend demo_ext demo_db ''t1'' ''a'' ''z'' (shd (uuids (demo_world [reply_ok, reply_a, reply_boom]))) = Inr open_ascend \<and>
   next_sent demo_ext demo_db (shd (uuids (demo_world [reply_ok, reply_a, reply_boom]))) = Inr next_u \<and>
   net (demo_world [reply_ok, reply_a, reply_boom]) =
     reply_ok ## ([reply_a] @- (reply_boom ## refused)) \<and>
   open_reply demo_ext reply_ok = None \<and>
   list_all2 (\<lambda>out en. next_reply demo_ext out = Entry (fst en) (snd en)) [reply_a] [entry_a] \<and>
   accepts (\<lambda>ys. True) (yielded (demo_world [reply_ok, reply_a, reply_boom])) [entry_a] \<and>
   next_reply demo_ext reply_boom = Fail (errorString ''boom'') \<and> length [entry_a] < 2 \<and>
   cursor_seq1 TxAscend demo_ext demo_db ''t1'' ''a'' ''z'' 2 (\<lambda>ys. True)
       (demo_world [reply_ok, reply_a, reply_boom]) =
     Some ((demo_world [])\<lparr>uuids := stl demo_ids, sent := [open_ascend, next_u, next_u], yielded := [entry_a],
                            errp := Some (errorString ''boom'')\<rparr>) \<and>
   doPost_v2 (json_Unmarshal_Err demo_ext2) demo_ext2 demo_db
       (fst (open_call2 SnapScan2 ''s1'' [] [] (shd (uuids (demo_world [reply 500 ''{}'', reply_a]))))) 
       (snd (open_call2 SnapScan2 ''s1'' [] [] (shd (uuids (demo_world [reply 500 ''{}'', reply_a])))))
       ((demo_world [reply 500 ''{}'', reply_a])
          \<lparr>uuids := stl (uuids (demo_world [reply 500 ''{}'', reply_a]))\<rparr>) =
     (Inl (errorString ''received non-ok http status 500''),
      (demo_world [reply_a])\<lparr>uuids := stl demo_ids, sent := [open_scan]\<rparr>) \<and>
   reported (string2error demo_ext2) (Inl (errorString ''received non-ok http status 500'') :: error + ErrResponse) =
     Some (errorString ''received non-ok http status 500'') \<and>
   cursor_seq2 SnapScan2 demo_ext2 demo_db ''s1'' [] [] 0 (\<lambda>ys. True)
       (demo_world [reply 500 ''{}'', reply_a]) =
     Some ((demo_world [reply_a])\<lparr>uuids := stl demo_ids, sent := [open_scan],
              errp := Some (errorString ''received non-ok http status 500'')\<rparr>)"
proof -
  have part0:
    "open_sent1 TxAscend demo_ext demo_db ''t1'' ''a'' ''z'' (shd (uuids (demo_world [reply_ok, reply_a, reply_boom]))) = Inr open_ascend \<and>
     next_sent demo_ext demo_db (shd (uuids (demo_world [reply_ok, reply_a, reply_boom]))) = Inr next_u \<and>
     net (demo_world [reply_ok, reply_a, reply_boom]) =
       reply_ok ## ([reply_a] @- (reply_boom ## refused)) \<and>
     open_reply demo_ext reply_ok = None \<and>
     list_all2 (\<lambda>out en. next_reply demo_ext out = Entry (fst en) (snd en)) [reply_a] [entry_a] \<and>
     accepts (\<lambda>ys. True) (yielded (demo_world [reply_ok, reply_a, reply_boom])) [entry_a] \<and>
     next_reply demo_ext reply_boom = Fail (errorString ''boom'') \<and> length [entry_a] < 2 \<and>
     cursor_seq1 TxAscend demo_ext demo_db ''t1'' ''a'' ''z'' 2 (\<lambda>ys. True)
         (demo_world [reply_ok, reply_a, reply_boom]) =
       Some ((demo_world [])\<lparr>uuids := stl demo_ids, sent := [open_ascend, next_u, next_u], yielded := [entry_a],
                              errp := Some (errorString ''boom'')\<rparr>)"
  proof -
    have hyps: "open_sent1 TxAscend demo_ext demo_db ''t1'' ''a'' ''z'' (shd (uuids (demo_world [reply_ok, reply_a, reply_boom]))) = Inr open_ascend \<and>
     next_sent demo_ext demo_db (shd (uuids (demo_world [reply_ok, reply_a, reply_boom]))) = Inr next_u \<and>
     net (demo_world [reply_ok, reply_a, reply_boom]) =
       reply_ok ## ([reply_a] @- (reply_boom ## refused)) \<and>
     open_reply demo_ext reply_ok = None \<and>
     list_all2 (\<lambda>out en. next_reply demo_ext out = Entry (fst en) (snd en)) [reply_a] [entry_a] \<and>
     accepts (\<lambda>ys. True) (yielded (demo_world [reply_ok, reply_a, reply_boom])) [entry_a] \<and>
     next_reply demo_ext reply_boom = Fail (errorString ''boom'') \<and> length [entry_a] < 2"
      by simp
    from cursor_error_slot [THEN conjunct2, THEN conjunct2, THEN conjunct1, rule_format, OF hyps]
    show ?thesis using hyps by (simp add: demo_world_def)
  qed
  have part1:
    "doPost_v2 (json_Unmarshal_Err demo_ext2) demo_ext2 demo_db
         (fst (open_call2 SnapScan2 ''s1'' [] [] (shd (uuids (demo_world [reply 500 ''{}'', reply_a]))))) 
         (snd (open_call2 SnapScan2 ''s1'' [] [] (shd (uuids (demo_world [reply 500 ''{}'', reply_a])))))
         ((demo_world [reply 500 ''{}'', reply_a])
            \<lparr>uuids := stl (uuids (demo_world [reply 500 ''{}'', reply_a]))\<rparr>) =
       (Inl (errorString ''received non-ok http status 500''),
        (demo_world [reply_a])\<lparr>uuids := stl demo_ids, sent := [open_scan]\<rparr>) \<and>
     reported (string2error demo_ext2) (Inl (errorString ''received non-ok http status 500'') :: error + ErrResponse) =
       Some (errorString ''received non-ok http status 500'') \<and>
     cursor_seq2 SnapScan2 demo_ext2 demo_db ''s1'' [] [] 0 (\<lambda>ys. True)
         (demo_world [reply 500 ''{}'', reply_a]) =
       Some ((demo_world [reply_a])\<lparr>uuids := stl demo_ids, sent := [open_scan],
                errp := Some (errorString ''received non-ok http status 500'')\<rparr>)"
  proof -
    have hyps: "doPost_v2 (json_Unmarshal_Err demo_ext2) demo_ext2 demo_db
         (fst (open_call2 SnapScan2 ''s1'' [] [] (shd (uuids (demo_world [reply 500 ''{}'', reply_a]))))) 
         (snd (open_call2 SnapScan2 ''s1'' [] [] (shd (uuids (demo_world [reply 500 ''{}'', reply_a])))))
         ((demo_world [reply 500 ''{}'', reply_a])
            \<lparr>uuids := stl (uuids (demo_world [reply 500 ''{}'', reply_a]))\<rparr>) =
       (Inl (errorString ''received non-ok http status 500''),
        (demo_world [reply_a])\<lparr>uuids := stl demo_ids, sent := [open_scan]\<rparr>) \<and>
     reported (string2error demo_ext2) (Inl (errorString ''received non-ok http status 500'') :: error + ErrResponse) =
       Some (errorString ''received non-ok http status 500'')"
      by (simp add: doPost_v2_eq round_trip_def doPost_result_v2_def open_call2_def reply_def
          demo_world_def fmt_Errorf_status_def fmt_d_def digits.simps digit_char_def)
    from cursor_error_slot [THEN conjunct2, THEN conjunct1, rule_format, OF hyps]
    show ?thesis using hyps by simp
  qed
  from part0 part1 show ?thesis
    by (elim conjE) (intro conjI; assumption)
qed

text \<open>
  C8. For every cursor sequence of either client: when the consumer refuses an
  entry, after entries it accepted, the sequence returns with \<^verbatim>\<open>errp\<close> as it was;
  the requests it has sent are the opening request and one \<^verbatim>\<open>/it/next\<close> request
  for each entry yielded, and nothing else: no further \<^verbatim>\<open>/it/next\<close> and no request
  that closes the cursor; the replies that follow are left unread.
\<close>

theorem cursor_early_stop:
  "(open_sent1 c ext db sid b e (shd (uuids w)) = Inr r1 \<and>
    next_sent ext db (shd (uuids w)) = Inr r2 \<and>
    net w = o1 ## (os @- (t ## rest)) \<and> open_reply ext o1 = None \<and>
    list_all2 (\<lambda>out en. next_reply ext out = Entry (fst en) (snd en)) os es \<and>
    accepts yield (yielded w) es \<and>
    next_reply ext t = Entry k v \<and> \<not> yield (yielded w @ es @ [(k, v)]) \<and> length es < fuel \<longrightarrow>
    cursor_seq1 c ext db sid b e fuel yield w =
      Some (w\<lparr>uuids := stl (uuids w), net := rest,
              sent := sent w @ r1 # replicate (Suc (length es)) r2,
              yielded := yielded w @ es @ [(k, v)]\<rparr>)) \<and>
   (open_sent2 c' ext' db sid b e (shd (uuids w)) = Inr r1 \<and>
    next_sent ext' db (shd (uuids w)) = Inr r2 \<and>
    net w = o1 ## (os @- (t ## rest)) \<and> open_reply_v2 ext' o1 = None \<and>
    list_all2 (\<lambda>out en. next_reply_v2 ext' out = Entry (fst en) (snd en)) os es \<and>
    accepts yield (yielded w) es \<and>
    next_reply_v2 ext' t = Entry k v \<and> \<not> yield (yielded w @ es @ [(k, v)]) \<and> length es < fuel \<longrightarrow>
    cursor_seq2 c' ext' db sid b e fuel yield w =
      Some (w\<lparr>uuids := stl (uuids w), net := rest,
              sent := sent w @ r1 # replicate (Suc (length es)) r2,
              yielded := yielded w @ es @ [(k, v)]\<rparr>))"
proof -
  have p0: "(open_sent1 c ext db sid b e (shd (uuids w)) = Inr r1 \<and>
    next_sent ext db (shd (uuids w)) = Inr r2 \<and>
    net w = o1 ## (os @- (t ## rest)) \<and> open_reply ext o1 = None \<and>
    list_all2 (\<lambda>out en. next_reply ext out = Entry (fst en) (snd en)) os es \<and>
    accepts yield (yielded w) es \<and>
    next_reply ext t = Entry k v \<and> \<not> yield (yielded w @ es @ [(k, v)]) \<and> length es < fuel \<longrightarrow>
    cursor_seq1 c ext db sid b e fuel yield w =
      Some (w\<lparr>uuids := stl (uuids w), net := rest,
              sent := sent w @ r1 # replicate (Suc (length es)) r2,
              yielded := yielded w @ es @ [(k, v)]\<rparr>))"
    by (rule impI, elim conjE, rule cursor_seq1_stop; assumption)
  have p1: "(open_sent2 c' ext' db sid b e (shd (uuids w)) = Inr r1 \<and>
    next_sent ext' db (shd (uuids w)) = Inr r2 \<and>
    net w = o1 ## (os @- (t ## rest)) \<and> open_reply_v2 ext' o1 = None \<and>
    list_all2 (\<lambda>out en. next_reply_v2 ext' out = Entry (fst en) (snd en)) os es \<and>
    accepts yield (yielded w) es \<and>
    next_reply_v2 ext' t = Entry k v \<and> \<not> yield (yielded w @ es @ [(k, v)]) \<and> length es < fuel \<longrightarrow>
    cursor_seq2 c' ext' db sid b e fuel yield w =
      Some (w\<lparr>uuids := stl (uuids w), net := rest,
              sent := sent w @ r1 # replicate (Suc (length es)) r2,
              yielded := yielded w @ es @ [(k, v)]\<rparr>))"
    by (rule impI, elim conjE, rule cursor_seq2_stop; assumption)
  show ?thesis
    by (rule conjI [OF p0 p1])
qed

theorem cursor_early_stop_witness:
  "open_sent1 TxAscend demo_ext demo_db ''t1'' ''a'' ''z'' (shd (uuids (demo_world demo_replies))) = Inr open_ascend \<and>
   next_sent demo_ext demo_db (shd (uuids (demo_world demo_replies))) = Inr next_u \<and>
   net (demo_world demo_replies) = reply_ok ## ([reply_a] @- (reply_b ## ([reply_ok] @- refused))) \<and>
   open_reply demo_ext reply_ok = None \<and>
   list_all2 (\<lambda>out en. next_reply demo_ext out = Entry (fst en) (snd en)) [reply_a] [entry_a] \<and>
   accepts (\<lambda>ys. length ys < 2) (yielded (demo_world demo_replies)) [entry_a] \<and>
   next_reply demo_ext reply_b = Entry ''b'' (Reader ''2'' None) \<and>
   \<not> length (yielded (demo_world demo_replies) @ [entry_a] @ [entry_b]) < 2 \<and> length [entry_a] < 5 \<and>
   cursor_seq1 TxAscend demo_ext demo_db ''t1'' ''a'' ''z'' 5 (\<lambda>ys. length ys < 2) (demo_world demo_replies) =
     Some ((demo_world [reply_ok])\<lparr>uuids := stl demo_ids, sent := [open_ascend, next_u, next_u],
                                            yielded := [entry_a, entry_b]\<rparr>)"
proof -
  have hyps: "open_sent1 TxAscend demo_ext demo_db ''t1'' ''a'' ''z'' (shd (uuids (demo_world demo_replies))) = Inr open_ascend \<and>
   next_sent demo_ext demo_db (shd (uuids (demo_world demo_replies))) = Inr next_u \<and>
   net (demo_world demo_replies) = reply_ok ## ([reply_a] @- (reply_b ## ([reply_ok] @- refused))) \<and>
   open_reply demo_ext reply_ok = None \<and>
   list_all2 (\<lambda>out en. next_reply demo_ext out = Entry (fst en) (snd en)) [reply_a] [entry_a] \<and>
   accepts (\<lambda>ys. length ys < 2) (yielded (demo_world demo_replies)) [entry_a] \<and>
   next_reply demo_ext reply_b = Entry ''b'' (Reader ''2'' None) \<and>
   \<not> (\<lambda>ys. length ys < 2) (yielded (demo_world demo_replies) @ [entry_a] @ [entry_b]) \<and> length [entry_a] < 5"
    by (simp add: demo_replies_def)
  from cursor_early_stop [THEN conjunct1, rule_format, OF hyps]
  show ?thesis using hyps by (simp add: demo_world_def demo_replies_def)
qed

text \<open>
  C9. For every cursor sequence of either client. The opening request is an
  \<^verbatim>\<open>AscendRequest\<close>, \<^verbatim>\<open>DescendRequest\<close> or \<^verbatim>\<open>ScanRequest\<close> whose \<open>Name\<close> is the identifier
  the invocation draws from the generator, and the body of the request handed
  to \<^verbatim>\<open>Do\<close> encodes it; the body of the \<^verbatim>\<open>/it/next\<close> request encodes \<^verbatim>\<open>NextRequest\<close>
  with that identifier as \<open>Iterator\<close>. What an invocation sends is then exactly:
  nothing when the opening request cannot be built; the opening request alone
  when its round trip reports an error or the \<^verbatim>\<open>/it/next\<close> request cannot be
  built; otherwise the opening request followed by one copy of that same
  \<^verbatim>\<open>/it/next\<close> request for each reply consumed. This is stated of an invocation
  still running (after the entries \<open>es\<close> it is the loop, on the same identifier,
  in a world where the opening request and \<open>length es\<close> copies have been sent),
  of an invocation whose next reply ends it (it returns, and has sent one copy
  more), and of any invocation that has returned. An invocation that returns
  has drawn one identifier; when the generator never repeats itself, no
  identifier it hands out afterwards, to another invocation, is that one.
\<close>

theorem cursor_id:
  "(\<exists>t s lo hi. snd (open_call1 c sid b e (shd (uuids w))) = AscendRequest t s lo hi (shd (uuids w)) \<or>
      snd (open_call1 c sid b e (shd (uuids w))) = DescendRequest t s lo hi (shd (uuids w))) \<and>
   (open_sent1 c ext db sid b e (shd (uuids w)) = Inr r1 \<longrightarrow>
      json_Marshal ext (snd (open_call1 c sid b e (shd (uuids w)))) = Inr (Body r1)) \<and>
   (next_sent ext db (shd (uuids w)) = Inr r2 \<longrightarrow>
      json_Marshal ext (NextRequest (shd (uuids w))) = Inr (Body r2)) \<and>
   (open_sent1 c ext db sid b e (shd (uuids w)) = Inl err \<longrightarrow>
      cursor_seq1 c ext db sid b e fuel yield w = Some (w\<lparr>uuids := stl (uuids w), errp := Some err\<rparr>)) \<and>
   (open_sent1 c ext db sid b e (shd (uuids w)) = Inr r1 \<and> open_reply ext (shd (net w)) = Some err \<longrightarrow>
      cursor_seq1 c ext db sid b e fuel yield w =
        Some (w\<lparr>uuids := stl (uuids w), net := stl (net w), sent := sent w @ [r1],
                errp := Some err\<rparr>)) \<and>
   (open_sent1 c ext db sid b e (shd (uuids w)) = Inr r1 \<and> next_sent ext db (shd (uuids w)) = Inl err \<and>
    open_reply ext (shd (net w)) = None \<and> 0 < fuel \<longrightarrow>
      cursor_seq1 c ext db sid b e fuel yield w =
        Some (w\<lparr>uuids := stl (uuids w), net := stl (net w), sent := sent w @ [r1],
                errp := Some err\<rparr>)) \<and>
   (open_sent1 c ext db sid b e (shd (uuids w)) = Inr r1 \<and> next_sent ext db (shd (uuids w)) = Inr r2 \<and>
    net w = o1 ## (os @- s) \<and> open_reply ext o1 = None \<and>
    list_all2 (\<lambda>out en. next_reply ext out = Entry (fst en) (snd en)) os es \<and>
    accepts yield (yielded w) es \<longrightarrow>
      cursor_seq1 c ext db sid b e (length es + m) yield w =
        next_loop m ext db (shd (uuids w)) yield
          (w\<lparr>uuids := stl (uuids w), net := s,
             sent := sent w @ r1 # replicate (length es) r2, yielded := yielded w @ es\<rparr>)) \<and>
   (open_sent1 c ext db sid b e (shd (uuids w)) = Inr r1 \<and> next_sent ext db (shd (uuids w)) = Inr r2 \<and>
    net w = o1 ## (os @- (t ## rest)) \<and> open_reply ext o1 = None \<and>
    list_all2 (\<lambda>out en. next_reply ext out = Entry (fst en) (snd en)) os es \<and>
    accepts yield (yielded w) es \<and>
    (\<forall>k v. next_reply ext t = Entry k v \<longrightarrow> \<not> yield (yielded w @ es @ [(k, v)])) \<and>
    length es < fuel \<longrightarrow>
      (\<exists>w'. cursor_seq1 c ext db sid b e fuel yield w = Some w' \<and>
         uuids w' = stl (uuids w) \<and> net w' = rest \<and>
         sent w' = sent w @ r1 # replicate (Suc (length es)) r2)) \<and>
   (open_sent1 c ext db sid b e (shd (uuids w)) = Inr r1 \<and> next_sent ext db (shd (uuids w)) = Inr r2 \<and>
    open_reply ext (shd (net w)) = None \<and> cursor_seq1 c ext db sid b e fuel yield w = Some w' \<longrightarrow>
      (\<exists>os t. stl (net w) = os @- (t ## net w') \<and> length os < fuel \<and>
         sent w' = sent w @ r1 # replicate (Suc (length os)) r2)) \<and>
   (cursor_seq1 c ext db sid b e fuel yield w = Some w' \<longrightarrow>
      uuids w' = stl (uuids w) \<and>
      (fresh_ids (uuids w) \<longrightarrow> (\<forall>n. uuids w' !! n \<noteq> shd (uuids w)))) \<and>
   (\<exists>t s lo hi. snd (open_call2 c' sid b e (shd (uuids w))) = AscendRequest t s lo hi (shd (uuids w)) \<or>
      snd (open_call2 c' sid b e (shd (uuids w))) = DescendRequest t s lo hi (shd (uuids w)) \<or>
      snd (open_call2 c' sid b e (shd (uuids w))) = ScanRequest t s (shd (uuids w))) \<and>
   (open_sent2 c' ext' db sid b e (shd (uuids w)) = Inr r1 \<longrightarrow>
      json_Marshal ext' (snd (open_call2 c' sid b e (shd (uuids w)))) = Inr (Body r1)) \<and>
   (next_sent ext' db (shd (uuids w)) = Inr r2 \<longrightarrow>
      json_Marshal ext' (NextRequest (shd (uuids w))) = Inr (Body r2)) \<and>
   (open_sent2 c' ext' db sid b e (shd (uuids w)) = Inl err \<longrightarrow>
      cursor_seq2 c' ext' db sid b e fuel yield w = Some (w\<lparr>uuids := stl (uuids w), errp := Some err\<rparr>)) \<and>
   (open_sent2 c' ext' db sid b e (shd (uuids w)) = Inr r1 \<and> open_reply_v2 ext' (shd (net w)) = Some err \<longrightarrow>
      cursor_seq2 c' ext' db sid b e fuel yield w =
        Some (w\<lparr>uuids := stl (uuids w), net := stl (net w), sent := sent w @ [r1],
                errp := Some err\<rparr>)) \<and>
   (open_sent2 c' ext' db sid b e (shd (uuids w)) = Inr r1 \<and> next_sent ext' db (shd (uuids w)) = Inl err \<and>
    open_reply_v2 ext' (shd (net w)) = None \<and> 0 < fuel \<longrightarrow>
      cursor_seq2 c' ext' db sid b e fuel yield w =
        Some (w\<lparr>uuids := stl (uuids w), net := stl (net w), sent := sent w @ [r1],
                errp := Some err\<rparr>)) \<and>
   (open_sent2 c' ext' db sid b e (shd (uuids w)) = Inr r1 \<and> next_sent ext' db (shd (uuids w)) = Inr r2 \<and>
    net w = o1 ## (os @- s) \<and> open_reply_v2 ext' o1 = None \<and>
    list_all2 (\<lambda>out en. next_reply_v2 ext' out = Entry (fst en) (snd en)) os es \<and>
    accepts yield (yielded w) es \<longrightarrow>
      cursor_seq2 c' ext' db sid b e (length es + m) yield w =
        next_loop_v2 m ext' db (shd (uuids w)) yield
          (w\<lparr>uuids := stl (uuids w), net := s,
             sent := sent w @ r1 # replicate (length es) r2, yielded := yielded w @ es\<rparr>)) \<and>
   (open_sent2 c' ext' db sid b e (shd (uuids w)) = Inr r1 \<and> next_sent ext' db (shd (uuids w)) = Inr r2 \<and>
    net w = o1 ## (os @- (t ## rest)) \<and> open_reply_v2 ext' o1 = None \<and>
    list_all2 (\<lambda>out en. next_reply_v2 ext' out = Entry (fst en) (snd en)) os es \<and>
    accepts yield (yielded w) es \<and>
    (\<forall>k v. next_reply_v2 ext' t = Entry k v \<longrightarrow> \<not> yield (yielded w @ es @ [(k, v)])) \<and>
    length es < fuel \<longrightarrow>
      (\<exists>w'. cursor_seq2 c' ext' db sid b e fuel yield w = Some w' \<and>
         uuids w' = stl (uuids w) \<and> net w' = rest \<and>
         sent w' = sent w @ r1 # replicate (Suc (length es)) r2)) \<and>
   (open_sent2 c' ext' db sid b e (shd (uuids w)) = Inr r1 \<and> next_sent ext' db (shd (uuids w)) = Inr r2 \<and>
    open_reply_v2 ext' (shd (net w)) = None \<and> cursor_seq2 c' ext' db sid b e fuel yield w = Some w' \<longrightarrow>
      (\<exists>os t. stl (net w) = os @- (t ## net w') \<and> length os < fuel \<and>
         sent w' = sent w @ r1 # replicate (Suc (length os)) r2)) \<and>
   (cursor_seq2 c' ext' db sid b e fuel yield w = Some w' \<longrightarrow>
      uuids w' = stl (uuids w) \<and>
      (fresh_ids (uuids w) \<longrightarrow> (\<forall>n. uuids w' !! n \<noteq> shd (uuids w))))"
proof -
  have q0: "(\<exists>t s lo hi. snd (open_call1 c sid b e (shd (uuids w))) = AscendRequest t s lo hi (shd (uuids w)) \<or>
      snd (open_call1 c sid b e (shd (uuids w))) = DescendRequest t s lo hi (shd (uuids w)))"
    by (rule open_call1_Name)
  have q1: "(open_sent1 c ext db sid b e (shd (uuids w)) = Inr r1 \<longrightarrow>
      json_Marshal ext (snd (open_call1 c sid b e (shd (uuids w)))) = Inr (Body r1))"
    by (rule impI, rule open_sent1_Body, assumption)
  have q2: "(next_sent ext db (shd (uuids w)) = Inr r2 \<longrightarrow>
      json_Marshal ext (NextRequest (shd (uuids w))) = Inr (Body r2))"
    by (rule impI, rule next_sent_Body, assumption)
  have q3: "(open_sent1 c ext db sid b e (shd (uuids w)) = Inl err \<longrightarrow>
      cursor_seq1 c ext db sid b e fuel yield w = Some (w\<lparr>uuids := stl (uuids w), errp := Some err\<rparr>))"
    by (rule impI, rule cursor_seq1_open_unbuilt, assumption)
  have q4: "(open_sent1 c ext db sid b e (shd (uuids w)) = Inr r1 \<and> open_reply ext (shd (net w)) = Some err \<longrightarrow>
      cursor_seq1 c ext db sid b e fuel yield w =
        Some (w\<lparr>uuids := stl (uuids w), net := stl (net w), sent := sent w @ [r1],
                errp := Some err\<rparr>))"
    by (rule impI, elim conjE, rule cursor_seq1_open_refused; assumption)
  have q5: "(open_sent1 c ext db sid b e (shd (uuids w)) = Inr r1 \<and> next_sent ext db (shd (uuids w)) = Inl err \<and>
    open_reply ext (shd (net w)) = None \<and> 0 < fuel \<longrightarrow>
      cursor_seq1 c ext db sid b e fuel yield w =
        Some (w\<lparr>uuids := stl (uuids w), net := stl (net w), sent := sent w @ [r1],
                errp := Some err\<rparr>))"
    by (rule impI, elim conjE, rule cursor_seq1_next_unbuilt; assumption)
  have q6: "(open_sent1 c ext db sid b e (shd (uuids w)) = Inr r1 \<and> next_sent ext db (shd (uuids w)) = Inr r2 \<and>
    net w = o1 ## (os @- s) \<and> open_reply ext o1 = None \<and>
    list_all2 (\<lambda>out en. next_reply ext out = Entry (fst en) (snd en)) os es \<and>
    accepts yield (yielded w) es \<longrightarrow>
      cursor_seq1 c ext db sid b e (length es + m) yield w =
        next_loop m ext db (shd (uuids w)) yield
          (w\<lparr>uuids := stl (uuids w), net := s,
             sent := sent w @ r1 # replicate (length es) r2, yielded := yielded w @ es\<rparr>))"
    by (rule impI, elim conjE, rule cursor_seq1_running; assumption)
  have q7: "(open_sent1 c ext db sid b e (shd (uuids w)) = Inr r1 \<and> next_sent ext db (shd (uuids w)) = Inr r2 \<and>
    net w = o1 ## (os @- (t ## rest)) \<and> open_reply ext o1 = None \<and>
    list_all2 (\<lambda>out en. next_reply ext out = Entry (fst en) (snd en)) os es \<and>
    accepts yield (yielded w) es \<and>
    (\<forall>k v. next_reply ext t = Entry k v \<longrightarrow> \<not> yield (yielded w @ es @ [(k, v)])) \<and>
    length es < fuel \<longrightarrow>
      (\<exists>w'. cursor_seq1 c ext db sid b e fuel yield w = Some w' \<and>
         uuids w' = stl (uuids w) \<and> net w' = rest \<and>
         sent w' = sent w @ r1 # replicate (Suc (length es)) r2))"
    by (rule impI, elim conjE, rule cursor_seq1_ends; assumption)
  have q8: "(open_sent1 c ext db sid b e (shd (uuids w)) = Inr r1 \<and> next_sent ext db (shd (uuids w)) = Inr r2 \<and>
    open_reply ext (shd (net w)) = None \<and> cursor_seq1 c ext db sid b e fuel yield w = Some w' \<longrightarrow>
      (\<exists>os t. stl (net w) = os @- (t ## net w') \<and> length os < fuel \<and>
         sent w' = sent w @ r1 # replicate (Suc (length os)) r2))"
    by (rule impI, elim conjE, rule cursor_seq1_returned; assumption)
  have q9: "(cursor_seq1 c ext db sid b e fuel yield w = Some w' \<longrightarrow>
      uuids w' = stl (uuids w) \<and>
      (fresh_ids (uuids w) \<longrightarrow> (\<forall>n. uuids w' !! n \<noteq> shd (uuids w))))"
    by (rule impI, rule cursor_seq1_draws, assumption)
  have q10: "(\<exists>t s lo hi. snd (open_call2 c' sid b e (shd (uuids w))) = AscendRequest t s lo hi (shd (uuids w)) \<or>
      snd (open_call2 c' sid b e (shd (uuids w))) = DescendRequest t s lo hi (shd (uuids w)) \<or>
      snd (open_call2 c' sid b e (shd (uuids w))) = ScanRequest t s (shd (uuids w)))"
    by (rule open_call2_Name)
  have q11: "(open_sent2 c' ext' db sid b e (shd (uuids w)) = Inr r1 \<longrightarrow>
      json_Marshal ext' (snd (open_call2 c' sid b e (shd (uuids w)))) = Inr (Body r1))"
    by (rule impI, rule open_sent2_Body, assumption)
  have q12: "(next_sent ext' db (shd (uuids w)) = Inr r2 \<longrightarrow>
      json_Marshal ext' (NextRequest (shd (uuids w))) = Inr (Body r2))"
    by (rule impI, rule next_sent_Body, assumption)
  have q13: "(open_sent2 c' ext' db sid b e (shd (uuids w)) = Inl err \<longrightarrow>
      cursor_seq2 c' ext' db sid b e fuel yield w = Some (w\<lparr>uuids := stl (uuids w), errp := Some err\<rparr>))"
    by (rule impI, rule cursor_seq2_open_unbuilt, assumption)
  have q14: "(open_sent2 c' ext' db sid b e (shd (uuids w)) = Inr r1 \<and> open_reply_v2 ext' (shd (net w)) = Some err \<longrightarrow>
      cursor_seq2 c' ext' db sid b e fuel yield w =
        Some (w\<lparr>uuids := stl (uuids w), net := stl (net w), sent := sent w @ [r1],
                errp := Some err\<rparr>))"
    by (rule impI, elim conjE, rule cursor_seq2_open_refused; assumption)
  have q15: "(open_sent2 c' ext' db sid b e (shd (uuids w)) = Inr r1 \<and> next_sent ext' db (shd (uuids w)) = Inl err \<and>
    open_reply_v2 ext' (shd (net w)) = None \<and> 0 < fuel \<longrightarrow>
      cursor_seq2 c' ext' db sid b e fuel yield w =
        Some (w\<lparr>uuids := stl (uuids w), net := stl (net w), sent := sent w @ [r1],
                errp := Some err\<rparr>))"
    by (rule impI, elim conjE, rule cursor_seq2_next_unbuilt; assumption)
  have q16: "(open_sent2 c' ext' db sid b e (shd (uuids w)) = Inr r1 \<and> next_sent ext' db (shd (uuids w)) = Inr r2 \<and>
    net w = o1 ## (os @- s) \<and> open_reply_v2 ext' o1 = None \<and>
    list_all2 (\<lambda>out en. next_reply_v2 ext' out = Entry (fst en) (snd en)) os es \<and>
    accepts yield (yielded w) es \<longrightarrow>
      cursor_seq2 c' ext' db sid b e (length es + m) yield w =
        next_loop_v2 m ext' db (shd (uuids w)) yield
          (w\<lparr>uuids := stl (uuids w), net := s,
             sent := sent w @ r1 # replicate (length es) r2, yielded := yielded w @ es\<rparr>))"
    by (rule impI, elim conjE, rule cursor_seq2_running; assumption)
  have q17: "(open_sent2 c' ext' db sid b e (shd (uuids w)) = Inr r1 \<and> next_sent ext' db (shd (uuids w)) = Inr r2 \<and>
    net w = o1 ## (os @- (t ## rest)) \<and> open_reply_v2 ext' o1 = None \<and>
    list_all2 (\<lambda>out en. next_reply_v2 ext' out = Entry (fst en) (snd en)) os es \<and>
    accepts yield (yielded w) es \<and>
    (\<forall>k v. next_reply_v2 ext' t = Entry k v \<longrightarrow> \<not> yield (yielded w @ es @ [(k, v)])) \<and>
    length es < fuel \<longrightarrow>
      (\<exists>w'. cursor_seq2 c' ext' db sid b e fuel yield w = Some w' \<and>
         uuids w' = stl (uuids w) \<and> net w' = rest \<and>
         sent w' = sent w @ r1 # replicate (Suc (length es)) r2))"
    by (rule impI, elim conjE, rule cursor_seq2_ends; assumption)
  have q18: "(open_sent2 c' ext' db sid b e (shd (uuids w)) = Inr r1 \<and> next_sent ext' db (shd (uuids w)) = Inr r2 \<and>
    open_reply_v2 ext' (shd (net w)) = None \<and> cursor_seq2 c' ext' db sid b e fuel yield w = Some w' \<longrightarrow>
      (\<exists>os t. stl (net w) = os @- (t ## net w') \<and> length os < fuel \<and>
         sent w' = sent w @ r1 # replicate (Suc (length os)) r2))"
    by (rule impI, elim conjE, rule cursor_seq2_returned; assumption)
  have q19: "(cursor_seq2 c' ext' db sid b e fuel yield w = Some w' \<longrightarrow>
      uuids w' = stl (uuids w) \<and>
      (fresh_ids (uuids w) \<longrightarrow> (\<forall>n. uuids w' !! n \<noteq> shd (uuids w))))"
    by (rule impI, rule cursor_seq2_draws, assumption)
  show ?thesis
    by (intro conjI; fact q0 q1 q2 q3 q4 q5 q6 q7 q8 q9 q10 q11 q12 q13 q14 q15 q16 q17 q18 q19)
qed

theorem cursor_id_witness:
  "json_Marshal demo_ext (AscendRequest ''t1'' [] (Some ''a'') (Some ''z'') ''u'') = Inr (Body open_ascend) \<and>
   json_Marshal demo_ext (NextRequest ''u'') = Inr (Body next_u) \<and>
   fresh_ids demo_ids \<and>
   (\<exists>w'. cursor_seq1 TxAscend demo_ext demo_db ''t1'' ''a'' ''z'' 3 (\<lambda>ys. True) (demo_world demo_replies) = Some w' \<and>
      sent w' = [open_ascend, next_u, next_u, next_u] \<and> uuids w' = stl demo_ids \<and>
      (\<forall>n. uuids w' !! n \<noteq> ''u'')) \<and>
   cursor_seq1 TxAscend demo_ext demo_db ''t1'' ''a'' ''z'' 3 (\<lambda>ys. True) (demo_world demo_replies) =
     next_loop 2 demo_ext demo_db ''u'' (\<lambda>ys. True)
       ((demo_world [reply_b, reply_ok])\<lparr>uuids := stl demo_ids, sent := [open_ascend, next_u],
          yielded := [entry_a]\<rparr>) \<and>
   (\<forall>n. \<exists>w'. cursor_seq1 SnapDescend demo_ext demo_db ''s1'' ''a'' ''z'' (Suc n) (\<lambda>ys. length ys \<le> n)
            demo_endless = Some w' \<and>
      uuids w' = stl demo_ids \<and> net w' = sconst reply_a \<and>
      sent w' = demo_request ''/snap/descend'' ''descend u'' # replicate (Suc n) next_u) \<and>
   (\<forall>n m. cursor_seq1 SnapDescend demo_ext demo_db ''s1'' ''a'' ''z'' (n + m) (\<lambda>ys. True) demo_endless =
      next_loop m demo_ext demo_db ''u'' (\<lambda>ys. True)
        (demo_endless\<lparr>uuids := stl demo_ids, net := sconst reply_a,
           sent := demo_request ''/snap/descend'' ''descend u'' # replicate n next_u,
           yielded := replicate n entry_a\<rparr>)) \<and>
   (\<forall>fuel. cursor_seq1 SnapDescend demo_ext demo_db ''s1'' ''a'' ''z'' fuel (\<lambda>ys. True) demo_endless = None) \<and>
   json_Marshal demo_ext2 (ScanRequest [] ''s1'' ''u'') = Inr (Body open_scan) \<and>
   json_Marshal demo_ext2 (NextRequest ''u'') = Inr (Body next_u) \<and>
   (\<exists>w'. cursor_seq2 SnapScan2 demo_ext2 demo_db ''s1'' [] [] 2 (\<lambda>ys. True)
            (demo_world [reply_ok, reply_a, reply_ok]) = Some w' \<and>
      sent w' = [open_scan, next_u, next_u] \<and> uuids w' = stl demo_ids \<and>
      (\<forall>n. uuids w' !! n \<noteq> ''u'')) \<and>
   cursor_seq2 SnapScan2 demo_ext2 demo_db ''s1'' [] [] 2 (\<lambda>ys. True)
       (demo_world [reply_ok, reply_a, reply_ok]) =
     next_loop_v2 1 demo_ext2 demo_db ''u'' (\<lambda>ys. True)
       ((demo_world [reply_ok])\<lparr>uuids := stl demo_ids, sent := [open_scan, next_u],
          yielded := [entry_a]\<rparr>) \<and>
   (\<forall>n. \<exists>w'. cursor_seq2 TxScan2 demo_ext2 demo_db ''t1'' [] [] (Suc n) (\<lambda>ys. length ys \<le> n)
            demo_endless = Some w' \<and>
      uuids w' = stl demo_ids \<and> net w' = sconst reply_a \<and>
      sent w' = demo_request ''/tx/scan'' ''scan u'' # replicate (Suc n) next_u) \<and>
   (\<forall>n m. cursor_seq2 TxScan2 demo_ext2 demo_db ''t1'' [] [] (n + m) (\<lambda>ys. True) demo_endless =
      next_loop_v2 m demo_ext2 demo_db ''u'' (\<lambda>ys. True)
        (demo_endless\<lparr>uuids := stl demo_ids, net := sconst reply_a,
           sent := demo_request ''/tx/scan'' ''scan u'' # replicate n next_u,
           yielded := replicate n entry_a\<rparr>)) \<and>
   (\<forall>fuel. cursor_seq2 TxScan2 demo_ext2 demo_db ''t1'' [] [] fuel (\<lambda>ys. True) demo_endless = None)"
proof -
  note v1 = cursor_id [where ext = demo_ext and db = demo_db]
  note v2 = cursor_id [where ext' = demo_ext2 and db = demo_db]
  note v1_running = v1 [THEN conjunct2, THEN conjunct2, THEN conjunct2, THEN conjunct2,
      THEN conjunct2, THEN conjunct2, THEN conjunct1, rule_format]
  note v1_ends = v1 [THEN conjunct2, THEN conjunct2, THEN conjunct2, THEN conjunct2,
      THEN conjunct2, THEN conjunct2, THEN conjunct2, THEN conjunct1, rule_format]
  note v1_draws = v1 [THEN conjunct2, THEN conjunct2, THEN conjunct2, THEN conjunct2,
      THEN conjunct2, THEN conjunct2, THEN conjunct2, THEN conjunct2, THEN conjunct2,
      THEN conjunct1, rule_format]
  note v2_part = v2 [THEN conjunct2, THEN conjunct2, THEN conjunct2, THEN conjunct2,
      THEN conjunct2, THEN conjunct2, THEN conjunct2, THEN conjunct2, THEN conjunct2,
      THEN conjunct2]
  note v2_running = v2_part [THEN conjunct2, THEN conjunct2, THEN conjunct2, THEN conjunct2,
      THEN conjunct2, THEN conjunct2, THEN conjunct1, rule_format]
  note v2_ends = v2_part [THEN conjunct2, THEN conjunct2, THEN conjunct2, THEN conjunct2,
      THEN conjunct2, THEN conjunct2, THEN conjunct2, THEN conjunct1, rule_format]
  note v2_draws = v2_part [THEN conjunct2, THEN conjunct2, THEN conjunct2, THEN conjunct2,
      THEN conjunct2, THEN conjunct2, THEN conjunct2, THEN conjunct2, THEN conjunct2, rule_format]
  have fresh: "fresh_ids demo_ids" by (rule fresh_demo_ids)
  have a1: "json_Marshal demo_ext (AscendRequest ''t1'' [] (Some ''a'') (Some ''z'') ''u'') = Inr (Body open_ascend)"
    using v1 [THEN conjunct2, THEN conjunct1, rule_format,
        where c = TxAscend and sid = "''t1''" and b = "''a''" and e = "''z''"
          and w = "demo_world demo_replies" and ?r1.0 = open_ascend]
    by (simp add: open_call1_def)
  have a2: "json_Marshal demo_ext (NextRequest ''u'') = Inr (Body next_u)"
    using v1 [THEN conjunct2, THEN conjunct2, THEN conjunct1, rule_format,
        where w = "demo_world demo_replies" and ?r2.0 = next_u]
    by simp
  have a_hyps: "open_sent1 TxAscend demo_ext demo_db ''t1'' ''a'' ''z'' (shd (uuids (demo_world demo_replies))) = Inr open_ascend \<and>
     next_sent demo_ext demo_db (shd (uuids (demo_world demo_replies))) = Inr next_u \<and>
     net (demo_world demo_replies) = reply_ok ## ([reply_a, reply_b] @- (reply_ok ## refused)) \<and>
     open_reply demo_ext reply_ok = None \<and>
     list_all2 (\<lambda>out en. next_reply demo_ext out = Entry (fst en) (snd en))
       [reply_a, reply_b] [entry_a, entry_b] \<and>
     accepts (\<lambda>ys. True) (yielded (demo_world demo_replies)) [entry_a, entry_b] \<and>
     (\<forall>k v. next_reply demo_ext reply_ok = Entry k v \<longrightarrow>
        \<not> (\<lambda>ys. True) (yielded (demo_world demo_replies) @ [entry_a, entry_b] @ [(k, v)])) \<and>
     length [entry_a, entry_b] < 3"
    by (simp add: demo_replies_def)
  from v1_ends [OF a_hyps]
  obtain wa where
    a_run: "cursor_seq1 TxAscend demo_ext demo_db ''t1'' ''a'' ''z'' 3 (\<lambda>ys. True) (demo_world demo_replies) = Some wa"
    and a_ids: "uuids wa = stl (uuids (demo_world demo_replies))"
    and a_sent: "sent wa = sent (demo_world demo_replies) @ open_ascend # replicate (Suc (length [entry_a, entry_b])) next_u"
    by (elim exE conjE)
  from v1_draws [OF a_run]
  have a_fresh: "\<forall>n. uuids wa !! n \<noteq> ''u''" using fresh by auto
  have a: "\<exists>w'. cursor_seq1 TxAscend demo_ext demo_db ''t1'' ''a'' ''z'' 3 (\<lambda>ys. True) (demo_world demo_replies) = Some w' \<and>
      sent w' = [open_ascend, next_u, next_u, next_u] \<and> uuids w' = stl demo_ids \<and>
      (\<forall>n. uuids w' !! n \<noteq> ''u'')"
    using a_run a_ids a_sent a_fresh by (intro exI [of _ wa]) simp
  have a_mid_hyps: "open_sent1 TxAscend demo_ext demo_db ''t1'' ''a'' ''z'' (shd (uuids (demo_world demo_replies))) = Inr open_ascend \<and>
     next_sent demo_ext demo_db (shd (uuids (demo_world demo_replies))) = Inr next_u \<and>
     net (demo_world demo_replies) = reply_ok ## ([reply_a] @- net (demo_world [reply_b, reply_ok])) \<and>
     open_reply demo_ext reply_ok = None \<and>
     list_all2 (\<lambda>out en. next_reply demo_ext out = Entry (fst en) (snd en)) [reply_a] [entry_a] \<and>
     accepts (\<lambda>ys. True) (yielded (demo_world demo_replies)) [entry_a]"
    by (simp add: demo_replies_def)
  have a_mid: "cursor_seq1 TxAscend demo_ext demo_db ''t1'' ''a'' ''z'' 3 (\<lambda>ys. True) (demo_world demo_replies) =
     next_loop 2 demo_ext demo_db ''u'' (\<lambda>ys. True)
       ((demo_world [reply_b, reply_ok])\<lparr>uuids := stl demo_ids, sent := [open_ascend, next_u],
          yielded := [entry_a]\<rparr>)"
    using v1_running [OF a_mid_hyps, of 2] by (simp add: demo_world_def numeral_3_eq_3)
  have b_stop: "\<exists>w'. cursor_seq1 SnapDescend demo_ext demo_db ''s1'' ''a'' ''z'' (Suc n) (\<lambda>ys. length ys \<le> n)
            demo_endless = Some w' \<and>
      uuids w' = stl demo_ids \<and> net w' = sconst reply_a \<and>
      sent w' = demo_request ''/snap/descend'' ''descend u'' # replicate (Suc n) next_u" for n
  proof -
    have hyps: "open_sent1 SnapDescend demo_ext demo_db ''s1'' ''a'' ''z'' (shd (uuids demo_endless)) =
         Inr (demo_request ''/snap/descend'' ''descend u'') \<and>
       next_sent demo_ext demo_db (shd (uuids demo_endless)) = Inr next_u \<and>
       net demo_endless = reply_ok ## (replicate n reply_a @- (reply_a ## sconst reply_a)) \<and>
       open_reply demo_ext reply_ok = None \<and>
       list_all2 (\<lambda>out en. next_reply demo_ext out = Entry (fst en) (snd en))
         (replicate n reply_a) (replicate n entry_a) \<and>
       accepts (\<lambda>ys. length ys \<le> n) (yielded demo_endless) (replicate n entry_a) \<and>
       (\<forall>k v. next_reply demo_ext reply_a = Entry k v \<longrightarrow>
          \<not> (\<lambda>ys. length ys \<le> n) (yielded demo_endless @ replicate n entry_a @ [(k, v)])) \<and>
       length (replicate n entry_a) < Suc n"
      by (simp add: open_sent1_def open_call1_def accepts_upto list_all2_replicate_same sconst_unfold)
    from v1_ends [OF hyps] show ?thesis by simp
  qed
  have b: "cursor_seq1 SnapDescend demo_ext demo_db ''s1'' ''a'' ''z'' (n + m) (\<lambda>ys. True) demo_endless =
      next_loop m demo_ext demo_db ''u'' (\<lambda>ys. True)
        (demo_endless\<lparr>uuids := stl demo_ids, net := sconst reply_a,
           sent := demo_request ''/snap/descend'' ''descend u'' # replicate n next_u,
           yielded := replicate n entry_a\<rparr>)" for n m
  proof -
    have hyps: "open_sent1 SnapDescend demo_ext demo_db ''s1'' ''a'' ''z'' (shd (uuids demo_endless)) =
         Inr (demo_request ''/snap/descend'' ''descend u'') \<and>
       next_sent demo_ext demo_db (shd (uuids demo_endless)) = Inr next_u \<and>
       net demo_endless = reply_ok ## (replicate n reply_a @- sconst reply_a) \<and>
       open_reply demo_ext reply_ok = None \<and>
       list_all2 (\<lambda>out en. next_reply demo_ext out = Entry (fst en) (snd en))
         (replicate n reply_a) (replicate n entry_a) \<and>
       accepts (\<lambda>ys. True) (yielded demo_endless) (replicate n entry_a)"
      by (simp add: open_sent1_def open_call1_def accepts_always list_all2_replicate_same)
    from v1_running [OF hyps, of m] show ?thesis by simp
  qed
  have b0: "cursor_seq1 SnapDescend demo_ext demo_db ''s1'' ''a'' ''z'' fuel (\<lambda>ys. True) demo_endless = None" for fuel
    using b [of fuel 0] by simp
  have c1: "json_Marshal demo_ext2 (ScanRequest [] ''s1'' ''u'') = Inr (Body open_scan)"
    using v2_part [THEN conjunct2, THEN conjunct1, rule_format,
        where c' = SnapScan2 and sid = "''s1''" and b = "[]" and e = "[]"
          and w = "demo_world [reply_ok, reply_a, reply_ok]" and ?r1.0 = open_scan]
    by (simp add: open_call2_def)
  have c2: "json_Marshal demo_ext2 (NextRequest ''u'') = Inr (Body next_u)"
    using v2_part [THEN conjunct2, THEN conjunct2, THEN conjunct1, rule_format,
        where w = "demo_world [reply_ok, reply_a, reply_ok]" and ?r2.0 = next_u]
    by simp
  have c_hyps: "open_sent2 SnapScan2 demo_ext2 demo_db ''s1'' [] [] (shd (uuids (demo_world [reply_ok, reply_a, reply_ok]))) = Inr open_scan \<and>
     next_sent demo_ext2 demo_db (shd (uuids (demo_world [reply_ok, reply_a, reply_ok]))) = Inr next_u \<and>
     net (demo_world [reply_ok, reply_a, reply_ok]) = reply_ok ## ([reply_a] @- (reply_ok ## refused)) \<and>
     open_reply_v2 demo_ext2 reply_ok = None \<and>
     list_all2 (\<lambda>out en. next_reply_v2 demo_ext2 out = Entry (fst en) (snd en)) [reply_a] [entry_a] \<and>
     accepts (\<lambda>ys. True) (yielded (demo_world [reply_ok, reply_a, reply_ok])) [entry_a] \<and>
     (\<forall>k v. next_reply_v2 demo_ext2 reply_ok = Entry k v \<longrightarrow>
        \<not> (\<lambda>ys. True) (yielded (demo_world [reply_ok, reply_a, reply_ok]) @ [entry_a] @ [(k, v)])) \<and>
     length [entry_a] < 2"
    by simp
  from v2_ends [OF c_hyps]
  obtain wc where
    c_run: "cursor_seq2 SnapScan2 demo_ext2 demo_db ''s1'' [] [] 2 (\<lambda>ys. True)
        (demo_world [reply_ok, reply_a, reply_ok]) = Some wc"
    and c_ids: "uuids wc = stl (uuids (demo_world [reply_ok, reply_a, reply_ok]))"
    and c_sent: "sent wc = sent (demo_world [reply_ok, reply_a, reply_ok]) @
        open_scan # replicate (Suc (length [entry_a])) next_u"
    by (elim exE conjE)
  from v2_draws [OF c_run]
  have c_fresh: "\<forall>n. uuids wc !! n \<noteq> ''u''" using fresh by auto
  have c: "\<exists>w'. cursor_seq2 SnapScan2 demo_ext2 demo_db ''s1'' [] [] 2 (\<lambda>ys. True)
            (demo_world [reply_ok, reply_a, reply_ok]) = Some w' \<and>
      sent w' = [open_scan, next_u, next_u] \<and> uuids w' = stl demo_ids \<and>
      (\<forall>n. uuids w' !! n \<noteq> ''u'')"
    using c_run c_ids c_sent c_fresh by (intro exI [of _ wc]) simp
  have c_mid_hyps: "open_sent2 SnapScan2 demo_ext2 demo_db ''s1'' [] [] (shd (uuids (demo_world [reply_ok, reply_a, reply_ok]))) = Inr open_scan \<and>
     next_sent demo_ext2 demo_db (shd (uuids (demo_world [reply_ok, reply_a, reply_ok]))) = Inr next_u \<and>
     net (demo_world [reply_ok, reply_a, reply_ok]) = reply_ok ## ([reply_a] @- net (demo_world [reply_ok])) \<and>
     open_reply_v2 demo_ext2 reply_ok = None \<and>
     list_all2 (\<lambda>out en. next_reply_v2 demo_ext2 out = Entry (fst en) (snd en)) [reply_a] [entry_a] \<and>
     accepts (\<lambda>ys. True) (yielded (demo_world [reply_ok, reply_a, reply_ok])) [entry_a]"
    by simp
  have c_mid: "cursor_seq2 SnapScan2 demo_ext2 demo_db ''s1'' [] [] 2 (\<lambda>ys. True)
       (demo_world [reply_ok, reply_a, reply_ok]) =
     next_loop_v2 1 demo_ext2 demo_db ''u'' (\<lambda>ys. True)
       ((demo_world [reply_ok])\<lparr>uuids := stl demo_ids, sent := [open_scan, next_u],
          yielded := [entry_a]\<rparr>)"
    using v2_running [OF c_mid_hyps, of 1] by (simp add: demo_world_def numeral_2_eq_2)
  have d_stop: "\<exists>w'. cursor_seq2 TxScan2 demo_ext2 demo_db ''t1'' [] [] (Suc n) (\<lambda>ys. length ys \<le> n)
            demo_endless = Some w' \<and>
      uuids w' = stl demo_ids \<and> net w' = sconst reply_a \<and>
      sent w' = demo_request ''/tx/scan'' ''scan u'' # replicate (Suc n) next_u" for n
  proof -
    have hyps: "open_sent2 TxScan2 demo_ext2 demo_db ''t1'' [] [] (shd (uuids demo_endless)) =
         Inr (demo_request ''/tx/scan'' ''scan u'') \<and>
       next_sent demo_ext2 demo_db (shd (uuids demo_endless)) = Inr next_u \<and>
       net demo_endless = reply_ok ## (replicate n reply_a @- (reply_a ## sconst reply_a)) \<and>
       open_reply_v2 demo_ext2 reply_ok = None \<and>
       list_all2 (\<lambda>out en. next_reply_v2 demo_ext2 out = Entry (fst en) (snd en))
         (replicate n reply_a) (replicate n entry_a) \<and>
       accepts (\<lambda>ys. length ys \<le> n) (yielded demo_endless) (replicate n entry_a) \<and>
       (\<forall>k v. next_reply_v2 demo_ext2 reply_a = Entry k v \<longrightarrow>
          \<not> (\<lambda>ys. length ys \<le> n) (yielded demo_endless @ replicate n entry_a @ [(k, v)])) \<and>
       length (replicate n entry_a) < Suc n"
      by (simp add: open_sent2_def open_call2_def accepts_upto list_all2_replicate_same sconst_unfold)
    from v2_ends [OF hyps] show ?thesis by simp
  qed
  have d: "cursor_seq2 TxScan2 demo_ext2 demo_db ''t1'' [] [] (n + m) (\<lambda>ys. True) demo_endless =
      next_loop_v2 m demo_ext2 demo_db ''u'' (\<lambda>ys. True)
        (demo_endless\<lparr>uuids := stl demo_ids, net := sconst reply_a,
           sent := demo_request ''/tx/scan'' ''scan u'' # replicate n next_u,
           yielded := replicate n entry_a\<rparr>)" for n m
  proof -
    have hyps: "open_sent2 TxScan2 demo_ext2 demo_db ''t1'' [] [] (shd (uuids demo_endless)) =
         Inr (demo_request ''/tx/scan'' ''scan u'') \<and>
       next_sent demo_ext2 demo_db (shd (uuids demo_endless)) = Inr next_u \<and>
       net demo_endless = reply_ok ## (replicate n reply_a @- sconst reply_a) \<and>
       open_reply_v2 demo_ext2 reply_ok = None \<and>
       list_all2 (\<lambda>out en. next_reply_v2 demo_ext2 out = Entry (fst en) (snd en))
         (replicate n reply_a) (replicate n entry_a) \<and>
       accepts (\<lambda>ys. True) (yielded demo_endless) (replicate n entry_a)"
      by (simp add: open_sent2_def open_call2_def accepts_always list_all2_replicate_same)
    from v2_running [OF hyps, of m] show ?thesis by simp
  qed
  have d0: "cursor_seq2 TxScan2 demo_ext2 demo_db ''t1'' [] [] fuel (\<lambda>ys. True) demo_endless = None" for fuel
    using d [of fuel 0] by simp
  from a1 a2 fresh a a_mid b_stop b b0 c1 c2 c c_mid d_stop d d0 show ?thesis
    by (intro conjI allI)
qed

end
